theory Spec2Isabelle
  imports Complex_Main "HOL-Library.Word"
begin

section \<open>Data model\<close>

text \<open>
  The driver lowers a neural-network model (operands, operations) to a graph of the
  Hexagon accelerator. The embedding follows HexagonModel.cpp (the class \<open>Model\<close>),
  HexagonUtils.cpp, HexagonOperationsCheck.cpp and HexagonOperationsPrepare.cpp of the
  1.0 service, and PreparedModel.cpp.

  Conventions. \<open>uint32_t\<close> and \<open>int32_t\<close> are both \<open>32 word\<close>: the bits are the
  same, \<open>unat\<close>/\<open>uint\<close> read them unsigned and \<open>sint\<close> signed, and arithmetic wraps.
  A \<open>float\<close> is the \<open>real\<close> it denotes, and the conversion of an integer to
  \<open>float\<close> and the product of two \<open>float\<close>s round as the machine does (section
  Single-precision arithmetic). An operand index is a \<open>nat\<close>; \<open>mOperands[i]\<close> with \<open>i\<close> out of range is
  undefined in C++ and unspecified here (\<open>nn::validateModel\<close> runs before a \<open>Model\<close> is
  built). A failed \<open>HEXAGON_SOFT_ASSERT\<close> leaves the function at once with the
  value-initialised result (\<open>false\<close>, \<open>0\<close>, an empty vector, an all-zero struct), as
  \<open>addOperand\<close> and \<open>setupActivationArgs\<close> rely on; state changes made before it stay.
\<close>

type_synonym u8 = "8 word"
type_synonym u32 = "32 word"

datatype OperandType =
    FLOAT32 | INT32 | UINT32 | TENSOR_FLOAT32 | TENSOR_INT32 | TENSOR_QUANT8_ASYMM
  | OEM | TENSOR_OEM_BYTE

datatype OperandLifeTime =
    TEMPORARY_VARIABLE | MODEL_INPUT | MODEL_OUTPUT | CONSTANT_COPY | CONSTANT_REFERENCE

datatype OperationType =
    ADD | AVERAGE_POOL_2D | CONCATENATION | CONV_2D | DEPTHWISE_CONV_2D | DEPTH_TO_SPACE
  | DEQUANTIZE | EMBEDDING_LOOKUP | FLOOR | FULLY_CONNECTED | HASHTABLE_LOOKUP
  | L2_NORMALIZATION | L2_POOL_2D | LOCAL_RESPONSE_NORMALIZATION | LOGISTIC
  | LSH_PROJECTION | LSTM | MAX_POOL_2D | MUL | RELU | RELU1 | RELU6 | RESHAPE
  | RESIZE_BILINEAR | RNN | SOFTMAX | SPACE_TO_DEPTH | SVDF | TANH | OEM_OPERATION

text \<open>
  \<open>FusedActivationFunc\<close> is read from an operand's buffer as a 32-bit value; a value
  that is no enumerator takes the \<open>default\<close> branch of a switch. Its enumerators share
  names with operation kinds and carry the prefix \<open>Fused_\<close> here.
\<close>

datatype FusedActivationFunc =
  Fused_NONE | Fused_RELU | Fused_RELU1 | Fused_RELU6 | Fused_invalid u32

definition toFusedActivationFunc :: "u32 \<Rightarrow> FusedActivationFunc" where
  "toFusedActivationFunc v =
     (if v = 0 then Fused_NONE else if v = 1 then Fused_RELU
      else if v = 2 then Fused_RELU1 else if v = 3 then Fused_RELU6
      else Fused_invalid v)"

text \<open>The accelerator's opcodes that the lowering uses (\<open>op_type\<close>).\<close>

datatype op_type =
    OP_INPUT | OP_OUTPUT | OP_Nop
  | OP_Add_f | OP_AvgPool_f | OP_Concat_f | OP_Conv2d_f | OP_DepthwiseConv2d_f
  | OP_MatMul_f | OP_L2Pool_f | OP_LRN_f | OP_Sigmoid_f | OP_MaxPool_f | OP_Mul_f
  | OP_Relu_f | OP_ReluX_f | OP_Clamp_f | OP_Reshape | OP_ResizeBilinear_f
  | OP_Softmax_f | OP_Tanh_f | OP_BiasAdd_f
  | OP_QuantizedAdd_8p8to32 | OP_QuantizedAvgPool_8 | OP_QuantizedConcat_8
  | OP_QuantizedConv2d_8x8to32 | OP_QuantizedDepthwiseConv2d_8x8to32 | OP_Dequantize
  | OP_QuantizedMatMul_8x8to32 | OP_QuantizedSigmoid_8 | OP_QuantizedMaxPool_8
  | OP_QuantizedMul_8x8to32 | OP_QuantizedRelu_8 | OP_QuantizedReluX_8
  | OP_QuantizedClamp_8 | OP_QuantizedReshape | OP_QuantizedSoftmax_8
  | OP_Add_int32 | OP_Requantize_32to8

datatype hexagon_nn_padding_type =
    NN_PAD_NA | NN_PAD_SAME | NN_PAD_VALID | NN_PAD_MIRROR_REFLECT
  | NN_PAD_MIRROR_SYMMETRIC | NN_PAD_SAME_CAFFE

record hexagon_nn_input =
  src_id :: u32
  output_idx :: u32

record hexagon_nn_output =
  rank :: u32
  max_sizes :: "u32 list"
  elementsize :: u32
  zero_offset :: u32
  stepsize :: real

record hexagon_nn_tensordef =
  batches :: u32
  height :: u32
  width :: u32
  depth :: u32
  data :: "u8 list option"
  dataLen :: u32
  data_valid_len :: u32
  unused :: u32

text \<open>\<open>hexagon_nn_input{}\<close> and \<open>hexagon_nn_output{}\<close>: the value that means "unset".\<close>

definition no_input :: hexagon_nn_input where
  "no_input = \<lparr>src_id = 0, output_idx = 0\<rparr>"

definition no_output :: hexagon_nn_output where
  "no_output = \<lparr>rank = 0, max_sizes = [0, 0, 0, 0, 0, 0, 0, 0], elementsize = 0,
                 zero_offset = 0, stepsize = 0\<rparr>"

text \<open>\<open>nn::Shape\<close>; its fields carry a prefix, \<open>OperandInfo\<close> has the plain names.\<close>

record Shape =
  shape_type :: OperandType
  shape_dimensions :: "u32 list"
  shape_scale :: real
  shape_offset :: u32

text \<open>
  \<open>OperandInfo\<close> (HexagonModel.h). \<open>buffer\<close> is the pointer: \<open>None\<close> is \<open>nullptr\<close>,
  \<open>Some bs\<close> the bytes readable from it on. \<open>length\<close> is \<open>length_bytes\<close>.
\<close>

record OperandInfo =
  type :: OperandType
  dimensions :: "u32 list"
  scale :: real
  zeroPoint :: u32
  lifetime :: OperandLifeTime
  buffer :: "u8 list option"
  length_bytes :: u32
  hexagon_input :: hexagon_nn_input
  hexagon_input_min :: hexagon_nn_input
  hexagon_input_max :: hexagon_nn_input
  hexagon_output :: hexagon_nn_output

record Operation =
  operation_type :: OperationType
  inputs :: "nat list"
  outputs :: "nat list"

text \<open>The members of \<open>Model\<close>. A pool is the bytes of its mapped memory.\<close>

record Model =
  mNodeCount :: u32
  mGraphId :: u32
  mCompiled :: bool
  mOperands :: "OperandInfo list"
  mOperations :: "Operation list"
  mInputs :: "nat list"
  mOutputs :: "nat list"
  mPools :: "u8 list list"

subsection \<open>The accelerator\<close>

text \<open>
  What a constant node is given as data: a pointer into operand memory, the vector of a
  \<open>createValues<T>\<close>, \<open>createScalar<T>\<close> or \<open>createTensor<T>\<close> call, or the
  result of \<open>transpose<T>(height, width, buffer)\<close>.
\<close>

datatype tensor_data =
    Buffer "u8 list option"
  | Floats "real list"
  | Int32s "u32 list"
  | Transposed_float u32 u32 "u8 list option"
  | Transposed_uint8 u32 u32 "u8 list option"

text \<open>
  The calls that \<open>Model\<close> makes on the \<open>Controller\<close> singleton. The library behind it
  is not part of the program: a call is answered by \<open>respond\<close>, a function of the calls
  made so far and of the call, which gives the returned \<open>int\<close> (zero is success) or,
  for \<open>Init\<close>, the new graph id. \<open>calls\<close> is the history.
\<close>

datatype call =
    Init
  | Set_debug_level u32 u32
  | Prepare u32
  | Append_node u32 u32 op_type hexagon_nn_padding_type "hexagon_nn_input list"
      "hexagon_nn_output list"
  | Append_const_node u32 u32 u32 u32 u32 u32 tensor_data u32
  | Execute_new u32 "hexagon_nn_tensordef list" "hexagon_nn_tensordef list"
  | Teardown u32
  | Getlog u32
  | Snpprint u32

text \<open>A \<open>Model\<close> together with the accelerator it talks to.\<close>

record sys = Model +
  respond :: "call list \<Rightarrow> call \<Rightarrow> u32"
  calls :: "call list"

definition Controller_call :: "call \<Rightarrow> sys \<Rightarrow> u32 \<times> sys" where
  "Controller_call c s = (respond s (calls s) c, s\<lparr>calls := calls s @ [c]\<rparr>)"

section \<open>Single-precision arithmetic\<close>

text \<open>
  \<open>float\<close> is IEEE 754 binary32: 24 significant bits, exponents from -126 to 127,
  results rounded to the nearest value, ties to the even significand. A finite
  \<open>float\<close> is modelled by the real number it stands for, and the real numbers
  \<open>2^128\<close> and \<open>-2^128\<close>, which are not finite \<open>float\<close>s, stand for the two
  infinities that an overflowing product gives. A scale that is infinite or not a number
  is outside the model.

  \<open>pow2 k\<close> is \<open>2^k\<close> for an integer \<open>k\<close>. \<open>float_exponent x\<close> is the exponent of the
  binade of \<open>x\<close>, and -126 for the subnormal range. \<open>float_round\<close> rounds a real number
  to \<open>float\<close>. \<open>float_of_int32\<close> and \<open>float_of_uint32\<close> are the conversions of an
  \<open>int\<close> and of a \<open>uint32_t\<close>, \<open>float_mul\<close> the product of two \<open>float\<close>s.
\<close>

definition pow2 :: "int \<Rightarrow> real" where
  "pow2 k = (if 0 \<le> k then 2 ^ nat k else 1 / 2 ^ nat (- k))"

definition float_exponent :: "real \<Rightarrow> int" where
  "float_exponent x =
     (case find (\<lambda>k. pow2 k \<le> \<bar>x\<bar>) (rev [- 126 .. 127]) of Some k \<Rightarrow> k | None \<Rightarrow> - 126)"

definition round_to_even :: "real \<Rightarrow> int" where
  "round_to_even q =
     (let n = \<lfloor>q\<rfloor>; r = q - of_int n
      in if r < 1 / 2 then n else if 1 / 2 < r then n + 1 else if even n then n else n + 1)"

definition float_round :: "real \<Rightarrow> real" where
  "float_round x =
     (let ulp = pow2 (float_exponent x - 23);
          y = of_int (round_to_even (\<bar>x\<bar> / ulp)) * ulp
      in if 2 ^ 128 \<le> y then sgn x * 2 ^ 128 else sgn x * y)"

definition float_of_int32 :: "u32 \<Rightarrow> real" where
  "float_of_int32 w = float_round (real_of_int (sint w))"

definition float_of_uint32 :: "u32 \<Rightarrow> real" where
  "float_of_uint32 w = float_round (real_of_int (uint w))"

definition float_mul :: "real \<Rightarrow> real \<Rightarrow> real" where
  "float_mul x y = float_round (x * y)"

section \<open>HexagonUtils\<close>

text \<open>
  The library \<open>android::nn\<close> (OperationsUtils) is not part of the repository: its shape
  validators, its padding helpers and its constants are parameters of the model. A
  validator \<open>xPrepare(in..., &out)\<close> is a function to \<open>Shape option\<close>: \<open>None\<close> is
  \<open>false\<close>, \<open>Some out'\<close> is \<open>true\<close> with the output shape it wrote.
\<close>

record nnlib =
  kPaddingSame :: u32
  kPaddingValid :: u32
  getPaddingScheme :: "u32 \<Rightarrow> u32 \<Rightarrow> u32 \<Rightarrow> u32 \<Rightarrow> u32 \<Rightarrow> u32 \<Rightarrow> u32"
  calculateExplicitPadding :: "u32 \<Rightarrow> u32 \<Rightarrow> u32 \<Rightarrow> u32 \<Rightarrow> u32 \<times> u32"
  getNumberOfElements :: "Shape \<Rightarrow> u32"
  addMulPrepare :: "Shape \<Rightarrow> Shape \<Rightarrow> Shape \<Rightarrow> Shape option"
  genericPoolingPrepare ::
    "Shape \<Rightarrow> u32 \<Rightarrow> u32 \<Rightarrow> u32 \<Rightarrow> u32 \<Rightarrow> u32 \<Rightarrow> u32 \<Rightarrow> u32 \<Rightarrow> u32 \<Rightarrow> Shape \<Rightarrow> Shape option"
  concatenationPrepare :: "Shape list \<Rightarrow> u32 \<Rightarrow> Shape \<Rightarrow> Shape option"
  convPrepare ::
    "Shape \<Rightarrow> Shape \<Rightarrow> Shape \<Rightarrow> u32 \<Rightarrow> u32 \<Rightarrow> u32 \<Rightarrow> u32 \<Rightarrow> u32 \<Rightarrow> u32 \<Rightarrow> Shape \<Rightarrow> Shape option"
  depthwiseConvPrepare ::
    "Shape \<Rightarrow> Shape \<Rightarrow> Shape \<Rightarrow> u32 \<Rightarrow> u32 \<Rightarrow> u32 \<Rightarrow> u32 \<Rightarrow> u32 \<Rightarrow> u32 \<Rightarrow> Shape \<Rightarrow> Shape option"
  dequantizePrepare :: "Shape \<Rightarrow> Shape \<Rightarrow> Shape option"
  fullyConnectedPrepare :: "Shape \<Rightarrow> Shape \<Rightarrow> Shape \<Rightarrow> Shape \<Rightarrow> Shape option"
  genericNormalizationPrepare :: "Shape \<Rightarrow> Shape \<Rightarrow> Shape option"
  genericActivationPrepare :: "Shape \<Rightarrow> Shape \<Rightarrow> Shape option"
  reshapePrepare :: "Shape \<Rightarrow> u8 list \<Rightarrow> u32 \<Rightarrow> Shape \<Rightarrow> Shape option"
  resizeBilinearPrepare :: "Shape \<Rightarrow> u32 \<Rightarrow> u32 \<Rightarrow> Shape \<Rightarrow> Shape option"

definition getPadding :: "nnlib \<Rightarrow> u32 \<Rightarrow> hexagon_nn_padding_type" where
  "getPadding nn pad =
     (if pad = kPaddingSame nn then NN_PAD_SAME
      else if pad = kPaddingValid nn then NN_PAD_VALID
      else NN_PAD_NA)"

definition getPadding6 ::
  "nnlib \<Rightarrow> u32 \<Rightarrow> u32 \<Rightarrow> u32 \<Rightarrow> u32 \<Rightarrow> u32 \<Rightarrow> u32 \<Rightarrow> hexagon_nn_padding_type" where
  "getPadding6 nn filterWidth filterHeight paddingLeft paddingRight paddingTop paddingBottom =
     getPadding nn (getPaddingScheme nn filterWidth filterHeight paddingLeft paddingRight
                      paddingTop paddingBottom)"

fun getFloatActivationFunction :: "FusedActivationFunc \<Rightarrow> op_type" where
  "getFloatActivationFunction Fused_RELU = OP_Relu_f"
| "getFloatActivationFunction Fused_RELU1 = OP_ReluX_f"
| "getFloatActivationFunction Fused_RELU6 = OP_Clamp_f"
| "getFloatActivationFunction Fused_NONE = OP_Nop"
| "getFloatActivationFunction (Fused_invalid v) = OP_Nop"

fun getQuantizedActivationFunction :: "FusedActivationFunc \<Rightarrow> op_type" where
  "getQuantizedActivationFunction Fused_RELU = OP_QuantizedRelu_8"
| "getQuantizedActivationFunction Fused_RELU1 = OP_QuantizedReluX_8"
| "getQuantizedActivationFunction Fused_RELU6 = OP_QuantizedClamp_8"
| "getQuantizedActivationFunction Fused_NONE = OP_Nop"
| "getQuantizedActivationFunction (Fused_invalid v) = OP_Nop"

fun getSize :: "OperandType \<Rightarrow> u32" where
  "getSize FLOAT32 = 4"
| "getSize INT32 = 4"
| "getSize UINT32 = 4"
| "getSize TENSOR_FLOAT32 = 4"
| "getSize TENSOR_INT32 = 4"
| "getSize TENSOR_QUANT8_ASYMM = 1"
| "getSize OEM = 0"
| "getSize TENSOR_OEM_BYTE = 0"

definition getAlignedDimensions :: "u32 list \<Rightarrow> nat \<Rightarrow> u32 list" where
  "getAlignedDimensions dims N =
     (if N < length dims then [] else replicate (N - length dims) 1 @ dims)"

definition make_hexagon_nn_output :: "u32 list \<Rightarrow> u32 \<Rightarrow> hexagon_nn_output" where
  "make_hexagon_nn_output dims size' =
     (let alignedDims = getAlignedDimensions dims 4 in
      \<lparr>rank = of_nat (min 8 (length alignedDims)),
       max_sizes = take 8 (alignedDims @ replicate 8 0),
       elementsize = size', zero_offset = 0, stepsize = 0\<rparr>)"

text \<open>\<open>mapPools\<close>: a pool that cannot be mapped fails the assertion, which returns no pools.\<close>

definition mapPools :: "u8 list option list \<Rightarrow> u8 list list" where
  "mapPools pools = (if None \<in> set pools then [] else map the pools)"

section \<open>HexagonModel\<close>

text \<open>
  Modelled from the spec: HexagonModel.h is absent, so the member templates
  \<open>getScalar<T>\<close>, \<open>createTensor<T>\<close>, \<open>createValues<T>\<close> and \<open>createScalar<T>\<close>
  follow the spec's words: a scalar parameter is read from its operand's buffer, and a
  constant argument is created as one constant node holding the given values.
  \<open>getScalar\<close> reads four bytes, least significant first; reading through a null or
  short buffer is undefined in C++ and gives 0 here.
\<close>

definition getScalar :: "nat \<Rightarrow> 'a Model_scheme \<Rightarrow> u32" where
  "getScalar operand m =
     (case buffer (mOperands m ! operand) of
        Some (b0 # b1 # b2 # b3 # _) \<Rightarrow> word_rcat [b3, b2, b1, b0]
      | _ \<Rightarrow> 0)"

definition getNextNode :: "'a Model_scheme \<Rightarrow> u32 \<times> 'a Model_scheme" where
  "getNextNode m = (mNodeCount m + 1, m\<lparr>mNodeCount := mNodeCount m + 1\<rparr>)"

definition getPointer :: "nat \<Rightarrow> 'a Model_scheme \<Rightarrow> u8 list option" where
  "getPointer operand m = buffer (mOperands m ! operand)"

definition getShape :: "nat \<Rightarrow> 'a Model_scheme \<Rightarrow> Shape" where
  "getShape operand m =
     \<lparr>shape_type = type (mOperands m ! operand),
      shape_dimensions = dimensions (mOperands m ! operand),
      shape_scale = scale (mOperands m ! operand),
      shape_offset = zeroPoint (mOperands m ! operand)\<rparr>"

definition setShape :: "nat \<Rightarrow> Shape \<Rightarrow> 'a Model_scheme \<Rightarrow> bool \<times> 'a Model_scheme" where
  "setShape operand shape m =
     (if hexagon_output (mOperands m ! operand) \<noteq> no_output then (False, m)
      else (True, m\<lparr>mOperands := (mOperands m)
              [operand := (mOperands m ! operand)\<lparr>dimensions := shape_dimensions shape\<rparr>]\<rparr>))"

definition isConstant :: "nat \<Rightarrow> 'a Model_scheme \<Rightarrow> bool" where
  "isConstant operand m =
     (lifetime (mOperands m ! operand) = CONSTANT_COPY \<or>
      lifetime (mOperands m ! operand) = CONSTANT_REFERENCE)"

definition createTensorInternal ::
  "u32 \<Rightarrow> u32 \<Rightarrow> u32 \<Rightarrow> u32 \<Rightarrow> tensor_data \<Rightarrow> u32 \<Rightarrow> sys \<Rightarrow> hexagon_nn_input \<times> sys" where
  "createTensorInternal B H W D ptr size' s =
     (let (node, s) = getNextNode s;
          (err, s) = Controller_call (Append_const_node (mGraphId s) node B H W D ptr size') s
      in if err \<noteq> 0 then (no_input, s)
         else (\<lparr>src_id = node, output_idx = 0\<rparr>, s))"

definition createShape :: "u32 \<Rightarrow> u32 \<Rightarrow> u32 \<Rightarrow> u32 \<Rightarrow> sys \<Rightarrow> hexagon_nn_input \<times> sys" where
  "createShape B H W D s = createTensorInternal B H W D (Int32s [0]) 4 s"

definition createTensor_float ::
  "u32 \<Rightarrow> u32 \<Rightarrow> u32 \<Rightarrow> u32 \<Rightarrow> real list \<Rightarrow> sys \<Rightarrow> hexagon_nn_input \<times> sys" where
  "createTensor_float B H W D values s =
     createTensorInternal B H W D (Floats values) (of_nat (length values) * 4) s"

definition createValues_float :: "real list \<Rightarrow> sys \<Rightarrow> hexagon_nn_input \<times> sys" where
  "createValues_float values s = createTensor_float 1 1 1 (of_nat (length values)) values s"

definition createValues_int32 :: "u32 list \<Rightarrow> sys \<Rightarrow> hexagon_nn_input \<times> sys" where
  "createValues_int32 values s =
     createTensorInternal 1 1 1 (of_nat (length values)) (Int32s values)
       (of_nat (length values) * 4) s"

definition createScalar_float :: "real \<Rightarrow> sys \<Rightarrow> hexagon_nn_input \<times> sys" where
  "createScalar_float v s = createTensorInternal 1 1 1 1 (Floats [v]) 4 s"

definition createScalar_int32 :: "u32 \<Rightarrow> sys \<Rightarrow> hexagon_nn_input \<times> sys" where
  "createScalar_int32 v s = createTensorInternal 1 1 1 1 (Int32s [v]) 4 s"

definition addOperand :: "nat \<Rightarrow> sys \<Rightarrow> hexagon_nn_input \<times> sys" where
  "addOperand operandIndex s =
     (let operand = mOperands s ! operandIndex;
          dims = getAlignedDimensions (dimensions operand) 4
      in if length dims = 0 then (no_input, s)
         else createTensorInternal (dims ! 0) (dims ! 1) (dims ! 2) (dims ! 3)
                (Buffer (buffer operand)) (length_bytes operand) s)"

definition getTensor :: "nat \<Rightarrow> sys \<Rightarrow> hexagon_nn_input \<times> sys" where
  "getTensor operand s =
     (if hexagon_input (mOperands s ! operand) = no_input then
        (let (tensor, s) = addOperand operand s
         in (tensor, s\<lparr>mOperands := (mOperands s)
                        [operand := (mOperands s ! operand)\<lparr>hexagon_input := tensor\<rparr>]\<rparr>))
      else (hexagon_input (mOperands s ! operand), s))"

text \<open>
  \<open>zeroPoint\<close> is copied from the HAL's \<open>Operand\<close>, where it is an \<open>int32_t\<close>.
  \<open>numeric_limits<uint8_t>::min() - zeroPoint\<close> is computed in \<open>int\<close> (the \<open>uint8_t\<close>
  is promoted) and read signed; \<open>quant_value - zeroPoint\<close> in \<open>createQuantizationValue\<close>
  has a \<open>uint32_t\<close> left operand, so it is computed and read unsigned. The difference is
  converted to \<open>float\<close> and multiplied by the scale in \<open>float\<close>. (An overflow of the
  signed difference is undefined in C++; it wraps here.)
\<close>

definition getQuantizationMin :: "nat \<Rightarrow> sys \<Rightarrow> hexagon_nn_input \<times> sys" where
  "getQuantizationMin operand s =
     (let operandInfo = mOperands s ! operand in
      if hexagon_input_min operandInfo = no_input then
        (let real_value = float_mul (float_of_int32 (0 - zeroPoint operandInfo))
                            (scale operandInfo);
             (h, s) = createValues_float [real_value] s
         in (h, s\<lparr>mOperands := (mOperands s)
                   [operand := (mOperands s ! operand)\<lparr>hexagon_input_min := h\<rparr>]\<rparr>))
      else (hexagon_input_min operandInfo, s))"

definition getQuantizationMax :: "nat \<Rightarrow> sys \<Rightarrow> hexagon_nn_input \<times> sys" where
  "getQuantizationMax operand s =
     (let operandInfo = mOperands s ! operand in
      if hexagon_input_max operandInfo = no_input then
        (let real_value = float_mul (float_of_int32 (255 - zeroPoint operandInfo))
                            (scale operandInfo);
             (h, s) = createValues_float [real_value] s
         in (h, s\<lparr>mOperands := (mOperands s)
                   [operand := (mOperands s ! operand)\<lparr>hexagon_input_max := h\<rparr>]\<rparr>))
      else (hexagon_input_max operandInfo, s))"

definition createQuantizationValue :: "nat \<Rightarrow> u32 \<Rightarrow> sys \<Rightarrow> hexagon_nn_input \<times> sys" where
  "createQuantizationValue operand quant_value s =
     (let operandInfo = mOperands s ! operand;
          real_value = float_mul (float_of_uint32 (quant_value - zeroPoint operandInfo))
                         (scale operandInfo)
      in createValues_float [real_value] s)"

definition createConvFilterTensor :: "nat \<Rightarrow> sys \<Rightarrow> hexagon_nn_input \<times> sys" where
  "createConvFilterTensor operand s =
     (let operandInfo = mOperands s ! operand;
          dims = getAlignedDimensions (dimensions operandInfo) 4
      in if length dims = 0 then (no_input, s)
         else if type operandInfo = TENSOR_FLOAT32 then
           createTensorInternal (dims ! 1) (dims ! 2) (dims ! 3) (dims ! 0)
             (Transposed_float (dims ! 0) (dims ! 1 * dims ! 2 * dims ! 3) (buffer operandInfo))
             (length_bytes operandInfo) s
         else
           createTensorInternal (dims ! 1) (dims ! 2) (dims ! 3) (dims ! 0)
             (Transposed_uint8 (dims ! 0) (dims ! 1 * dims ! 2 * dims ! 3) (buffer operandInfo))
             (length_bytes operandInfo) s)"

definition createDepthwiseFilterTensor :: "nat \<Rightarrow> u32 \<Rightarrow> sys \<Rightarrow> hexagon_nn_input \<times> sys" where
  "createDepthwiseFilterTensor operand depth_multiplier s =
     (let operandInfo = mOperands s ! operand;
          dims = getAlignedDimensions (dimensions operandInfo) 4
      in if length dims = 0 then (no_input, s)
         else createTensorInternal (dims ! 1) (dims ! 2) (dims ! 3 div depth_multiplier)
                (dims ! 0 * depth_multiplier) (Buffer (buffer operandInfo))
                (length_bytes operandInfo) s)"

definition createFullyConnectedWeightTensor :: "nat \<Rightarrow> sys \<Rightarrow> hexagon_nn_input \<times> sys" where
  "createFullyConnectedWeightTensor operand s =
     (let operandInfo = mOperands s ! operand;
          dims = getAlignedDimensions (dimensions operandInfo) 4
      in if length dims = 0 then (no_input, s)
         else if type operandInfo = TENSOR_FLOAT32 then
           createTensorInternal 1 1 (dims ! 1) (dims ! 0)
             (Transposed_float (dims ! 0) (dims ! 1) (buffer operandInfo))
             (length_bytes operandInfo) s
         else
           createTensorInternal 1 1 (dims ! 1) (dims ! 0)
             (Transposed_uint8 (dims ! 0) (dims ! 1) (buffer operandInfo))
             (length_bytes operandInfo) s)"

definition getFloatActivation :: "nat \<Rightarrow> 'a Model_scheme \<Rightarrow> op_type" where
  "getFloatActivation operand m =
     getFloatActivationFunction (toFusedActivationFunc (getScalar operand m))"

definition getQuantizedActivation :: "nat \<Rightarrow> 'a Model_scheme \<Rightarrow> op_type" where
  "getQuantizedActivation operand m =
     getQuantizedActivationFunction (toFusedActivationFunc (getScalar operand m))"

definition verifyOperationInputs :: "hexagon_nn_input list \<Rightarrow> bool" where
  "verifyOperationInputs ins = list_all (\<lambda>input. input \<noteq> no_input) ins"

definition verifyOperationOutputs :: "hexagon_nn_output list \<Rightarrow> bool" where
  "verifyOperationOutputs outs = list_all (\<lambda>output. output \<noteq> no_output) outs"

definition addOperationInternal ::
  "op_type \<Rightarrow> hexagon_nn_padding_type \<Rightarrow> hexagon_nn_input list \<Rightarrow> hexagon_nn_output list
   \<Rightarrow> sys \<Rightarrow> u32 \<times> sys" where
  "addOperationInternal op pad ins outs s =
     (if \<not> verifyOperationInputs ins then (0, s)
      else if \<not> verifyOperationOutputs outs then (0, s)
      else (let (node, s) = getNextNode s;
                (err, s) = Controller_call (Append_node (mGraphId s) node op pad ins outs) s
            in (if err = 0 then node else 0, s)))"

definition getHexagonOutputs :: "nat list \<Rightarrow> 'a Model_scheme \<Rightarrow> hexagon_nn_output list" where
  "getHexagonOutputs operands m =
     concat (map (\<lambda>index.
        (let operand = mOperands m ! index in
         make_hexagon_nn_output (dimensions operand) (getSize (type operand)) #
         (if type operand = TENSOR_QUANT8_ASYMM
          then [make_hexagon_nn_output [1, 1, 1, 1] 4, make_hexagon_nn_output [1, 1, 1, 1] 4]
          else []))) operands)"

text \<open>The loop of \<open>registerHexagonInputs\<close>, with its running output slot \<open>idx\<close>.\<close>

fun registerHexagonInputs_from ::
  "u32 \<Rightarrow> nat list \<Rightarrow> u32 \<Rightarrow> 'a Model_scheme \<Rightarrow> bool \<times> 'a Model_scheme" where
  "registerHexagonInputs_from idx [] node m = (True, m)"
| "registerHexagonInputs_from idx (i # operands) node m =
     (let operand = mOperands m ! i in
      if hexagon_input operand \<noteq> no_input then (False, m)
      else if type operand = TENSOR_QUANT8_ASYMM then
        registerHexagonInputs_from (idx + 3) operands node
          (m\<lparr>mOperands := (mOperands m)
             [i := operand\<lparr>hexagon_input := \<lparr>src_id = node, output_idx = idx\<rparr>,
                           hexagon_input_min := \<lparr>src_id = node, output_idx = idx + 1\<rparr>,
                           hexagon_input_max := \<lparr>src_id = node, output_idx = idx + 2\<rparr>\<rparr>]\<rparr>)
      else
        registerHexagonInputs_from (idx + 1) operands node
          (m\<lparr>mOperands := (mOperands m)
             [i := operand\<lparr>hexagon_input := \<lparr>src_id = node, output_idx = idx\<rparr>\<rparr>]\<rparr>))"

definition registerHexagonInputs ::
  "nat list \<Rightarrow> u32 \<Rightarrow> 'a Model_scheme \<Rightarrow> bool \<times> 'a Model_scheme" where
  "registerHexagonInputs operands node m = registerHexagonInputs_from 0 operands node m"

definition addBasicOperation ::
  "op_type \<Rightarrow> hexagon_nn_padding_type \<Rightarrow> hexagon_nn_input list \<Rightarrow> nat list
   \<Rightarrow> sys \<Rightarrow> bool \<times> sys" where
  "addBasicOperation op pad ins outs s =
     (let outs' = getHexagonOutputs outs s;
          (node, s) = addOperationInternal op pad ins outs' s
      in if node = 0 then (False, s) else registerHexagonInputs outs node s)"

definition setupActivationArgs :: "op_type \<Rightarrow> sys \<Rightarrow> hexagon_nn_input list \<times> sys" where
  "setupActivationArgs op s =
     (if op = OP_Nop then ([], s)
      else if op = OP_Relu_f \<or> op = OP_QuantizedRelu_8 then ([], s)
      else if op = OP_ReluX_f \<or> op = OP_QuantizedReluX_8 then
        (let (a, s) = createValues_float [6] s in ([a], s))
      else if op = OP_Clamp_f \<or> op = OP_QuantizedClamp_8 then
        (let (a, s) = createValues_float [- 1] s;
             (b, s) = createValues_float [1] s
         in ([a, b], s))
      else ([], s))"

definition addFloatOperationWithActivation ::
  "op_type \<Rightarrow> hexagon_nn_padding_type \<Rightarrow> op_type \<Rightarrow> hexagon_nn_input list \<Rightarrow> nat list
   \<Rightarrow> sys \<Rightarrow> bool \<times> sys" where
  "addFloatOperationWithActivation op pad activation ins outs s =
     (let outs' = getHexagonOutputs outs s;
          (actArgs, s) = setupActivationArgs activation s;
          (node, s) = addOperationInternal op pad ins outs' s
      in if node = 0 then (False, s)
         else
           (let buffer_in = \<lparr>src_id = node, output_idx = 0\<rparr> # actArgs;
                (node, s) = addOperationInternal activation NN_PAD_NA buffer_in outs' s
            in if node = 0 then (False, s) else registerHexagonInputs outs node s))"

definition addQuant8OperationWithActivation ::
  "op_type \<Rightarrow> hexagon_nn_padding_type \<Rightarrow> op_type \<Rightarrow> hexagon_nn_input list \<Rightarrow> nat list
   \<Rightarrow> sys \<Rightarrow> bool \<times> sys" where
  "addQuant8OperationWithActivation op pad activation ins outs s =
     (let outs' = getHexagonOutputs outs s;
          (actArgs, s) = setupActivationArgs activation s;
          (node, s) = addOperationInternal op pad ins outs' s
      in if node = 0 then (False, s)
         else
           (let buffer_in = [\<lparr>src_id = node, output_idx = 0\<rparr>,
                             \<lparr>src_id = node, output_idx = 1\<rparr>,
                             \<lparr>src_id = node, output_idx = 2\<rparr>] @ actArgs;
                (node, s) = addOperationInternal activation NN_PAD_NA buffer_in outs' s
            in if node = 0 then (False, s) else registerHexagonInputs outs node s))"

definition addFusedFloatOperation ::
  "op_type \<Rightarrow> hexagon_nn_padding_type \<Rightarrow> hexagon_nn_input \<Rightarrow> op_type
   \<Rightarrow> hexagon_nn_input list \<Rightarrow> nat list \<Rightarrow> sys \<Rightarrow> bool \<times> sys" where
  "addFusedFloatOperation op pad bias activation ins outs s =
     (if length outs \<noteq> 1 then (False, s)
      else
        (let outs' = getHexagonOutputs outs s;
             (actArgs, s) = setupActivationArgs activation s;
             (node, s) = addOperationInternal op pad ins outs' s
         in if node = 0 then (False, s)
            else
              (let (node, s) =
                     (if bias \<noteq> no_input
                      then addOperationInternal OP_BiasAdd_f NN_PAD_NA
                             [\<lparr>src_id = node, output_idx = 0\<rparr>, bias] outs' s
                      else (node, s))
               in if node = 0 then (False, s)
                  else
                    (let buffer2_in = \<lparr>src_id = node, output_idx = 0\<rparr> # actArgs;
                         (node, s) = addOperationInternal activation NN_PAD_NA buffer2_in outs' s
                     in if node = 0 then (False, s)
                        else registerHexagonInputs outs node s))))"

definition addFusedQuant8Operation ::
  "op_type \<Rightarrow> hexagon_nn_padding_type \<Rightarrow> hexagon_nn_input \<Rightarrow> op_type
   \<Rightarrow> hexagon_nn_input list \<Rightarrow> nat list \<Rightarrow> sys \<Rightarrow> bool \<times> sys" where
  "addFusedQuant8Operation op pad bias activation ins outs s =
     (if length outs \<noteq> 1 then (False, s)
      else
        (let (actArgs, s) = setupActivationArgs activation s;
             tensor_out8 = make_hexagon_nn_output (dimensions (mOperands s ! (outs ! 0))) 1;
             tensor_out32 = make_hexagon_nn_output (dimensions (mOperands s ! (outs ! 0))) 4;
             scalar_out32 = make_hexagon_nn_output [1, 1, 1, 1] 4;
             out8 = [tensor_out8, scalar_out32, scalar_out32];
             out32 = [tensor_out32, scalar_out32, scalar_out32];
             (node, s) = addOperationInternal op pad ins out32 s
         in if node = 0 then (False, s)
            else
              (let old_min = \<lparr>src_id = node, output_idx = 1\<rparr>;
                   old_max = \<lparr>src_id = node, output_idx = 2\<rparr>;
                   (node, s) =
                     (if bias \<noteq> no_input
                      then addOperationInternal OP_Add_int32 NN_PAD_NA
                             [\<lparr>src_id = node, output_idx = 0\<rparr>, bias] [tensor_out32] s
                      else (node, s))
               in if node = 0 then (False, s)
                  else
                    (let (new_min, s) = getQuantizationMin (outs ! 0) s;
                         (new_max, s) = getQuantizationMax (outs ! 0) s;
                         buffer2_in = \<lparr>src_id = node, output_idx = 0\<rparr>;
                         (node, s) = addOperationInternal OP_Requantize_32to8 NN_PAD_NA
                                       [buffer2_in, old_min, old_max, new_min, new_max] out8 s
                     in if node = 0 then (False, s)
                        else
                          (let buffer3 = [\<lparr>src_id = node, output_idx = 0\<rparr>,
                                          \<lparr>src_id = node, output_idx = 1\<rparr>,
                                          \<lparr>src_id = node, output_idx = 2\<rparr>] @ actArgs;
                               (node, s) = addOperationInternal activation NN_PAD_NA buffer3 out8 s
                           in if node = 0 then (False, s)
                              else registerHexagonInputs outs node s)))))"

section \<open>HexagonOperationsCheck\<close>

text \<open>
  The check functions of the 1.0 service: each validates the counts of an operation's
  inputs and outputs, asks the validator for the output shape and stores it with
  \<open>setShape\<close>. The operation kind that the source passes on for its messages is the
  argument \<open>op\<close>.
\<close>

definition check_addMul ::
  "nnlib \<Rightarrow> nat list \<Rightarrow> nat list \<Rightarrow> 'a Model_scheme \<Rightarrow> OperationType
   \<Rightarrow> bool \<times> 'a Model_scheme" where
  "check_addMul nn ins outs m op =
     (if length ins \<noteq> 3 then (False, m)
      else if length outs \<noteq> 1 then (False, m)
      else
        (let in1Shape = getShape (ins ! 0) m;
             in2Shape = getShape (ins ! 1) m;
             outShape = getShape (outs ! 0) m
         in case addMulPrepare nn in1Shape in2Shape outShape of
              None \<Rightarrow> (False, m)
            | Some outShape \<Rightarrow> setShape (outs ! 0) outShape m))"

definition check_add ::
  "nnlib \<Rightarrow> nat list \<Rightarrow> nat list \<Rightarrow> 'a Model_scheme \<Rightarrow> bool \<times> 'a Model_scheme" where
  "check_add nn ins outs m = check_addMul nn ins outs m ADD"

definition check_mul ::
  "nnlib \<Rightarrow> nat list \<Rightarrow> nat list \<Rightarrow> 'a Model_scheme \<Rightarrow> bool \<times> 'a Model_scheme" where
  "check_mul nn ins outs m = check_addMul nn ins outs m MUL"

definition check_pool ::
  "nnlib \<Rightarrow> nat list \<Rightarrow> nat list \<Rightarrow> 'a Model_scheme \<Rightarrow> OperationType
   \<Rightarrow> bool \<times> 'a Model_scheme" where
  "check_pool nn ins outs m op =
     (if \<not> (length ins = 10 \<or> length ins = 7) then (False, m)
      else
        (let inShape = getShape (ins ! 0) m;
             (padding_left, padding_right, padding_top, padding_bottom,
              stride_width, stride_height, filter_width, filter_height, known) =
               (if length ins = 10 then
                  (let padding_left = getScalar (ins ! 1) m;
                       padding_right = getScalar (ins ! 2) m;
                       padding_top = getScalar (ins ! 3) m;
                       padding_bottom = getScalar (ins ! 4) m;
                       stride_width = getScalar (ins ! 5) m;
                       stride_height = getScalar (ins ! 6) m;
                       filter_width = getScalar (ins ! 7) m;
                       filter_height = getScalar (ins ! 8) m
                   in (padding_left, padding_right, padding_top, padding_bottom,
                       stride_width, stride_height, filter_width, filter_height,
                       getPadding6 nn filter_width filter_height padding_left padding_right
                         padding_top padding_bottom \<noteq> NN_PAD_NA))
                else
                  (let padding_implicit = getScalar (ins ! 1) m;
                       stride_width = getScalar (ins ! 2) m;
                       stride_height = getScalar (ins ! 3) m;
                       filter_width = getScalar (ins ! 4) m;
                       filter_height = getScalar (ins ! 5) m;
                       (padding_left, padding_right) =
                         calculateExplicitPadding nn (shape_dimensions inShape ! 2)
                           stride_width filter_width padding_implicit;
                       (padding_top, padding_bottom) =
                         calculateExplicitPadding nn (shape_dimensions inShape ! 1)
                           stride_height filter_height padding_implicit
                   in (padding_left, padding_right, padding_top, padding_bottom,
                       stride_width, stride_height, filter_width, filter_height, True)))
         in if \<not> known then (False, m)
            else
              (let outShape = getShape (outs ! 0) m
               in case genericPoolingPrepare nn inShape padding_left padding_right padding_top
                         padding_bottom stride_width stride_height filter_width filter_height
                         outShape of
                    None \<Rightarrow> (False, m)
                  | Some outShape \<Rightarrow> setShape (outs ! 0) outShape m)))"

definition check_average_pool_2d ::
  "nnlib \<Rightarrow> nat list \<Rightarrow> nat list \<Rightarrow> 'a Model_scheme \<Rightarrow> bool \<times> 'a Model_scheme" where
  "check_average_pool_2d nn ins outs m = check_pool nn ins outs m AVERAGE_POOL_2D"

definition check_l2_pool_2d ::
  "nnlib \<Rightarrow> nat list \<Rightarrow> nat list \<Rightarrow> 'a Model_scheme \<Rightarrow> bool \<times> 'a Model_scheme" where
  "check_l2_pool_2d nn ins outs m = check_pool nn ins outs m L2_POOL_2D"

definition check_max_pool_2d ::
  "nnlib \<Rightarrow> nat list \<Rightarrow> nat list \<Rightarrow> 'a Model_scheme \<Rightarrow> bool \<times> 'a Model_scheme" where
  "check_max_pool_2d nn ins outs m = check_pool nn ins outs m MAX_POOL_2D"

definition check_concatenation ::
  "nnlib \<Rightarrow> nat list \<Rightarrow> nat list \<Rightarrow> 'a Model_scheme \<Rightarrow> bool \<times> 'a Model_scheme" where
  "check_concatenation nn ins outs m =
     (if \<not> 3 \<le> length ins then (False, m)
      else if length outs \<noteq> 1 then (False, m)
      else
        (let numInputTensors = length ins - 1;
             axis = getScalar (ins ! numInputTensors) m;
             inShapes = map (\<lambda>i. getShape (ins ! i) m) [0 ..< numInputTensors];
             outShape = getShape (outs ! 0) m
         in case concatenationPrepare nn inShapes axis outShape of
              None \<Rightarrow> (False, m)
            | Some outShape \<Rightarrow> setShape (outs ! 0) outShape m))"

text \<open>
  \<open>conv_2d\<close> and \<open>depthwise_conv_2d\<close> differ in the input counts they accept, in the
  validator and in nothing else.
\<close>

definition check_conv_2d ::
  "nnlib \<Rightarrow> nat list \<Rightarrow> nat list \<Rightarrow> 'a Model_scheme \<Rightarrow> bool \<times> 'a Model_scheme" where
  "check_conv_2d nn ins outs m =
     (if \<not> (length ins = 10 \<or> length ins = 7) then (False, m)
      else if length outs \<noteq> 1 then (False, m)
      else
        (let inputShape = getShape (ins ! 0) m;
             filterShape = getShape (ins ! 1) m;
             biasShape = getShape (ins ! 2) m;
             (padding_left, padding_right, padding_top, padding_bottom,
              stride_width, stride_height, known) =
               (if length ins = 10 then
                  (let padding_left = getScalar (ins ! 3) m;
                       padding_right = getScalar (ins ! 4) m;
                       padding_top = getScalar (ins ! 5) m;
                       padding_bottom = getScalar (ins ! 6) m;
                       stride_width = getScalar (ins ! 7) m;
                       stride_height = getScalar (ins ! 8) m
                   in (padding_left, padding_right, padding_top, padding_bottom,
                       stride_width, stride_height,
                       getPadding6 nn (shape_dimensions filterShape ! 2)
                         (shape_dimensions filterShape ! 1) padding_left padding_right
                         padding_top padding_bottom \<noteq> NN_PAD_NA))
                else
                  (let padding_implicit = getScalar (ins ! 3) m;
                       stride_width = getScalar (ins ! 4) m;
                       stride_height = getScalar (ins ! 5) m;
                       (padding_left, padding_right) =
                         calculateExplicitPadding nn (shape_dimensions inputShape ! 2)
                           stride_width (shape_dimensions filterShape ! 2) padding_implicit;
                       (padding_top, padding_bottom) =
                         calculateExplicitPadding nn (shape_dimensions inputShape ! 1)
                           stride_height (shape_dimensions filterShape ! 1) padding_implicit
                   in (padding_left, padding_right, padding_top, padding_bottom,
                       stride_width, stride_height, True)))
         in if \<not> known then (False, m)
            else
              (let outShape = getShape (outs ! 0) m
               in case convPrepare nn inputShape filterShape biasShape padding_left
                         padding_right padding_top padding_bottom stride_width stride_height
                         outShape of
                    None \<Rightarrow> (False, m)
                  | Some outShape \<Rightarrow>
                      (let (ok, m) = setShape (outs ! 0) outShape m
                       in if \<not> ok then (False, m)
                          else if \<not> isConstant (ins ! 1) m then (False, m)
                          else (True, m)))))"

definition check_depthwise_conv_2d ::
  "nnlib \<Rightarrow> nat list \<Rightarrow> nat list \<Rightarrow> 'a Model_scheme \<Rightarrow> bool \<times> 'a Model_scheme" where
  "check_depthwise_conv_2d nn ins outs m =
     (if \<not> (length ins = 8 \<or> length ins = 11) then (False, m)
      else if length outs \<noteq> 1 then (False, m)
      else
        (let inputShape = getShape (ins ! 0) m;
             filterShape = getShape (ins ! 1) m;
             biasShape = getShape (ins ! 2) m;
             (padding_left, padding_right, padding_top, padding_bottom,
              stride_width, stride_height, known) =
               (if length ins = 11 then
                  (let padding_left = getScalar (ins ! 3) m;
                       padding_right = getScalar (ins ! 4) m;
                       padding_top = getScalar (ins ! 5) m;
                       padding_bottom = getScalar (ins ! 6) m;
                       stride_width = getScalar (ins ! 7) m;
                       stride_height = getScalar (ins ! 8) m
                   in (padding_left, padding_right, padding_top, padding_bottom,
                       stride_width, stride_height,
                       getPadding6 nn (shape_dimensions filterShape ! 2)
                         (shape_dimensions filterShape ! 1) padding_left padding_right
                         padding_top padding_bottom \<noteq> NN_PAD_NA))
                else
                  (let padding_implicit = getScalar (ins ! 3) m;
                       stride_width = getScalar (ins ! 4) m;
                       stride_height = getScalar (ins ! 5) m;
                       (padding_left, padding_right) =
                         calculateExplicitPadding nn (shape_dimensions inputShape ! 2)
                           stride_width (shape_dimensions filterShape ! 2) padding_implicit;
                       (padding_top, padding_bottom) =
                         calculateExplicitPadding nn (shape_dimensions inputShape ! 1)
                           stride_height (shape_dimensions filterShape ! 1) padding_implicit
                   in (padding_left, padding_right, padding_top, padding_bottom,
                       stride_width, stride_height, True)))
         in if \<not> known then (False, m)
            else
              (let outShape = getShape (outs ! 0) m
               in case depthwiseConvPrepare nn inputShape filterShape biasShape padding_left
                         padding_right padding_top padding_bottom stride_width stride_height
                         outShape of
                    None \<Rightarrow> (False, m)
                  | Some outShape \<Rightarrow>
                      (let (ok, m) = setShape (outs ! 0) outShape m
                       in if \<not> ok then (False, m)
                          else if \<not> isConstant (ins ! 1) m then (False, m)
                          else (True, m)))))"

definition check_dequantize ::
  "nnlib \<Rightarrow> nat list \<Rightarrow> nat list \<Rightarrow> 'a Model_scheme \<Rightarrow> bool \<times> 'a Model_scheme" where
  "check_dequantize nn ins outs m =
     (if length ins \<noteq> 1 then (False, m)
      else if length outs \<noteq> 1 then (False, m)
      else
        (let inputShape = getShape (ins ! 0) m;
             outShape = getShape (outs ! 0) m
         in case dequantizePrepare nn inputShape outShape of
              None \<Rightarrow> (False, m)
            | Some outShape \<Rightarrow> setShape (outs ! 0) outShape m))"

definition check_fully_connected ::
  "nnlib \<Rightarrow> nat list \<Rightarrow> nat list \<Rightarrow> 'a Model_scheme \<Rightarrow> bool \<times> 'a Model_scheme" where
  "check_fully_connected nn ins outs m =
     (if length ins \<noteq> 4 then (False, m)
      else if length outs \<noteq> 1 then (False, m)
      else
        (let inputShape = getShape (ins ! 0) m;
             weightsShape = getShape (ins ! 1) m;
             biasShape = getShape (ins ! 2) m;
             outShape = getShape (outs ! 0) m
         in case fullyConnectedPrepare nn inputShape weightsShape biasShape outShape of
              None \<Rightarrow> (False, m)
            | Some outShape \<Rightarrow>
                (let (ok, m) = setShape (outs ! 0) outShape m
                 in if \<not> ok then (False, m)
                    else if \<not> isConstant (ins ! 1) m then (False, m)
                    else (True, m))))"

definition check_local_response_normalization ::
  "nnlib \<Rightarrow> nat list \<Rightarrow> nat list \<Rightarrow> 'a Model_scheme \<Rightarrow> bool \<times> 'a Model_scheme" where
  "check_local_response_normalization nn ins outs m =
     (if length ins \<noteq> 5 then (False, m)
      else if length outs \<noteq> 1 then (False, m)
      else
        (let inShape = getShape (ins ! 0) m;
             outShape = getShape (outs ! 0) m
         in case genericNormalizationPrepare nn inShape outShape of
              None \<Rightarrow> (False, m)
            | Some outShape \<Rightarrow> setShape (outs ! 0) outShape m))"

definition check_activation ::
  "nnlib \<Rightarrow> nat list \<Rightarrow> nat list \<Rightarrow> 'a Model_scheme \<Rightarrow> nat \<Rightarrow> OperationType
   \<Rightarrow> bool \<times> 'a Model_scheme" where
  "check_activation nn ins outs m numInputs op =
     (if length ins \<noteq> numInputs then (False, m)
      else if length outs \<noteq> 1 then (False, m)
      else
        (let inShape = getShape (ins ! 0) m;
             outShape = getShape (outs ! 0) m
         in case genericActivationPrepare nn inShape outShape of
              None \<Rightarrow> (False, m)
            | Some outShape \<Rightarrow> setShape (outs ! 0) outShape m))"

definition check_logistic ::
  "nnlib \<Rightarrow> nat list \<Rightarrow> nat list \<Rightarrow> 'a Model_scheme \<Rightarrow> bool \<times> 'a Model_scheme" where
  "check_logistic nn ins outs m = check_activation nn ins outs m 1 LOGISTIC"

definition check_relu ::
  "nnlib \<Rightarrow> nat list \<Rightarrow> nat list \<Rightarrow> 'a Model_scheme \<Rightarrow> bool \<times> 'a Model_scheme" where
  "check_relu nn ins outs m = check_activation nn ins outs m 1 RELU"

definition check_relu1 ::
  "nnlib \<Rightarrow> nat list \<Rightarrow> nat list \<Rightarrow> 'a Model_scheme \<Rightarrow> bool \<times> 'a Model_scheme" where
  "check_relu1 nn ins outs m = check_activation nn ins outs m 1 RELU1"

definition check_relu6 ::
  "nnlib \<Rightarrow> nat list \<Rightarrow> nat list \<Rightarrow> 'a Model_scheme \<Rightarrow> bool \<times> 'a Model_scheme" where
  "check_relu6 nn ins outs m = check_activation nn ins outs m 1 RELU6"

definition check_softmax ::
  "nnlib \<Rightarrow> nat list \<Rightarrow> nat list \<Rightarrow> 'a Model_scheme \<Rightarrow> bool \<times> 'a Model_scheme" where
  "check_softmax nn ins outs m = check_activation nn ins outs m 2 SOFTMAX"

definition check_tanh ::
  "nnlib \<Rightarrow> nat list \<Rightarrow> nat list \<Rightarrow> 'a Model_scheme \<Rightarrow> bool \<times> 'a Model_scheme" where
  "check_tanh nn ins outs m = check_activation nn ins outs m 1 TANH"

definition check_reshape ::
  "nnlib \<Rightarrow> nat list \<Rightarrow> nat list \<Rightarrow> 'a Model_scheme \<Rightarrow> bool \<times> 'a Model_scheme" where
  "check_reshape nn ins outs m =
     (if length ins \<noteq> 2 then (False, m)
      else if length outs \<noteq> 1 then (False, m)
      else
        (let inShape = getShape (ins ! 0) m;
             targetShape = getShape (ins ! 1) m;
             targetShapeNumElem = getNumberOfElements nn targetShape;
             outShape = getShape (outs ! 0) m
         in case getPointer (ins ! 1) m of
              None \<Rightarrow> (False, m)
            | Some targetShapePtr \<Rightarrow>
                (case reshapePrepare nn inShape targetShapePtr targetShapeNumElem outShape of
                   None \<Rightarrow> (False, m)
                 | Some outShape \<Rightarrow> setShape (outs ! 0) outShape m)))"

definition check_resize_bilinear ::
  "nnlib \<Rightarrow> nat list \<Rightarrow> nat list \<Rightarrow> 'a Model_scheme \<Rightarrow> bool \<times> 'a Model_scheme" where
  "check_resize_bilinear nn ins outs m =
     (if length ins \<noteq> 3 then (False, m)
      else if length outs \<noteq> 1 then (False, m)
      else
        (let width = getScalar (ins ! 1) m;
             height = getScalar (ins ! 2) m;
             inShape = getShape (ins ! 0) m;
             outShape = getShape (outs ! 0) m
         in case resizeBilinearPrepare nn inShape width height outShape of
              None \<Rightarrow> (False, m)
            | Some outShape \<Rightarrow> setShape (outs ! 0) outShape m))"

definition getOperationCheckTable ::
  "nnlib \<Rightarrow> OperationType
   \<Rightarrow> (nat list \<Rightarrow> nat list \<Rightarrow> 'a Model_scheme \<Rightarrow> bool \<times> 'a Model_scheme) option" where
  "getOperationCheckTable nn = map_of
     [(ADD, check_add nn),
      (AVERAGE_POOL_2D, check_average_pool_2d nn),
      (CONCATENATION, check_concatenation nn),
      (CONV_2D, check_conv_2d nn),
      (DEPTHWISE_CONV_2D, check_depthwise_conv_2d nn),
      (DEQUANTIZE, check_dequantize nn),
      (FULLY_CONNECTED, check_fully_connected nn),
      (L2_POOL_2D, check_l2_pool_2d nn),
      (LOCAL_RESPONSE_NORMALIZATION, check_local_response_normalization nn),
      (LOGISTIC, check_logistic nn),
      (MAX_POOL_2D, check_max_pool_2d nn),
      (MUL, check_mul nn),
      (RELU, check_relu nn),
      (RELU1, check_relu1 nn),
      (RELU6, check_relu6 nn),
      (RESHAPE, check_reshape nn),
      (RESIZE_BILINEAR, check_resize_bilinear nn),
      (SOFTMAX, check_softmax nn),
      (TANH, check_tanh nn)]"

text \<open>\<open>Model::supportedOperations\<close>: the loop over \<open>mOperations\<close>, then the method.\<close>

fun supportedOperations_loop ::
  "nnlib \<Rightarrow> Operation list \<Rightarrow> 'a Model_scheme \<Rightarrow> bool list \<times> 'a Model_scheme" where
  "supportedOperations_loop nn [] m = ([], m)"
| "supportedOperations_loop nn (operation # rest) m =
     (let (b, m) =
            (case getOperationCheckTable nn (operation_type operation) of
               Some entry \<Rightarrow> entry (inputs operation) (outputs operation) m
             | None \<Rightarrow> (False, m));
          (bs, m) = supportedOperations_loop nn rest m
      in (b # bs, m))"

definition supportedOperations ::
  "nnlib \<Rightarrow> 'a Model_scheme \<Rightarrow> bool list \<times> 'a Model_scheme" where
  "supportedOperations nn m = supportedOperations_loop nn (mOperations m) m"

section \<open>HexagonOperationsPrepare\<close>

text \<open>
  The lowering functions. \<open>getTensor\<close>, \<open>getQuantizationMin\<close> and
  \<open>getQuantizationMax\<close> return a reference to the operand's field. Where a lowering
  function binds the reference (\<open>const hexagon_nn_input&\<close>), the field is read when the
  input list of the node is built, which \<open>tensor_of\<close>, \<open>min_of\<close> and \<open>max_of\<close> do;
  where it copies the result (the loops of \<open>concatenation\<close>), the returned value is used.
\<close>

definition tensor_of :: "nat \<Rightarrow> 'a Model_scheme \<Rightarrow> hexagon_nn_input" where
  "tensor_of operand m = hexagon_input (mOperands m ! operand)"

definition min_of :: "nat \<Rightarrow> 'a Model_scheme \<Rightarrow> hexagon_nn_input" where
  "min_of operand m = hexagon_input_min (mOperands m ! operand)"

definition max_of :: "nat \<Rightarrow> 'a Model_scheme \<Rightarrow> hexagon_nn_input" where
  "max_of operand m = hexagon_input_max (mOperands m ! operand)"

text \<open>The loops of the two \<open>concatenation\<close> functions over the input tensors.\<close>

fun getTensors :: "nat list \<Rightarrow> sys \<Rightarrow> hexagon_nn_input list \<times> sys" where
  "getTensors [] s = ([], s)"
| "getTensors (i # rest) s =
     (let (t, s) = getTensor i s;
          (ts, s) = getTensors rest s
      in (t # ts, s))"

fun getQuantizedTensors ::
  "nat list \<Rightarrow> sys
   \<Rightarrow> (hexagon_nn_input list \<times> hexagon_nn_input list \<times> hexagon_nn_input list) \<times> sys" where
  "getQuantizedTensors [] s = (([], [], []), s)"
| "getQuantizedTensors (i # rest) s =
     (let (t, s) = getTensor i s;
          (lo, s) = getQuantizationMin i s;
          (hi, s) = getQuantizationMax i s;
          ((ts, los, his), s) = getQuantizedTensors rest s
      in ((t # ts, lo # los, hi # his), s))"

subsection \<open>Namespace float32\<close>

definition float32_add ::
  "nat list \<Rightarrow> nat list \<Rightarrow> sys \<Rightarrow> bool \<times> sys" where
  "float32_add ins outs s =
     (if length ins \<noteq> 3 then (False, s)
      else if length outs \<noteq> 1 then (False, s)
      else
        (let s = snd (getTensor (ins ! 0) s);
             s = snd (getTensor (ins ! 1) s);
             act = getFloatActivation (ins ! 2) s
         in addFusedFloatOperation OP_Add_f NN_PAD_NA no_input act
              [tensor_of (ins ! 0) s, tensor_of (ins ! 1) s] outs s))"

definition float32_average_pool_2d ::
  "nnlib \<Rightarrow> nat list \<Rightarrow> nat list \<Rightarrow> sys \<Rightarrow> bool \<times> sys" where
  "float32_average_pool_2d nn ins outs s =
     (if length ins \<noteq> 10 then (False, s)
      else if length outs \<noteq> 1 then (False, s)
      else
        (let s = snd (getTensor (ins ! 0) s);
             padding_left = getScalar (ins ! 1) s;
             padding_right = getScalar (ins ! 2) s;
             padding_top = getScalar (ins ! 3) s;
             padding_bottom = getScalar (ins ! 4) s;
             stride_width = getScalar (ins ! 5) s;
             stride_height = getScalar (ins ! 6) s;
             filter_width = getScalar (ins ! 7) s;
             filter_height = getScalar (ins ! 8) s;
             act = getFloatActivation (ins ! 9) s;
             (window, s) = createShape 1 filter_height filter_width 1 s;
             (stride, s) = createShape 1 stride_height stride_width 1 s;
             pad = getPadding6 nn filter_width filter_height padding_left padding_right
                   padding_top padding_bottom
         in addFloatOperationWithActivation OP_AvgPool_f pad act
              [tensor_of (ins ! 0) s, window, stride] outs s))"

definition float32_concatenation ::
  "nat list \<Rightarrow> nat list \<Rightarrow> sys \<Rightarrow> bool \<times> sys" where
  "float32_concatenation ins outs s =
     (if \<not> 3 \<le> length ins then (False, s)
      else if length outs \<noteq> 1 then (False, s)
      else
        (let numInputTensors = length ins - 1;
             (tensors, s) = getTensors (take numInputTensors ins) s;
             axis = getScalar (ins ! numInputTensors) s;
             dims = of_nat (length (shape_dimensions (getShape (ins ! 0) s)));
             (axis', s) = createScalar_int32 (axis + (4 - dims)) s
         in addBasicOperation OP_Concat_f NN_PAD_NA (axis' # tensors) outs s))"

definition float32_conv_2d ::
  "nnlib \<Rightarrow> nat list \<Rightarrow> nat list \<Rightarrow> sys \<Rightarrow> bool \<times> sys" where
  "float32_conv_2d nn ins outs s =
     (if length ins \<noteq> 10 then (False, s)
      else if length outs \<noteq> 1 then (False, s)
      else
        (let s = snd (getTensor (ins ! 0) s);
             (filter', s) = createConvFilterTensor (ins ! 1) s;
             s = snd (getTensor (ins ! 2) s);
             padding_left = getScalar (ins ! 3) s;
             padding_right = getScalar (ins ! 4) s;
             padding_top = getScalar (ins ! 5) s;
             padding_bottom = getScalar (ins ! 6) s;
             stride_width = getScalar (ins ! 7) s;
             stride_height = getScalar (ins ! 8) s;
             act = getFloatActivation (ins ! 9) s;
             (stride, s) = createShape 1 stride_height stride_width 1 s;
             filterShape = getShape (ins ! 1) s;
             pad = getPadding6 nn (shape_dimensions filterShape ! 2)
                   (shape_dimensions filterShape ! 1) padding_left padding_right
                   padding_top padding_bottom
         in addFusedFloatOperation OP_Conv2d_f pad (tensor_of (ins ! 2) s) act
              [tensor_of (ins ! 0) s, filter', stride] outs s))"

definition float32_depthwise_conv_2d ::
  "nnlib \<Rightarrow> nat list \<Rightarrow> nat list \<Rightarrow> sys \<Rightarrow> bool \<times> sys" where
  "float32_depthwise_conv_2d nn ins outs s =
     (if length ins \<noteq> 11 then (False, s)
      else if length outs \<noteq> 1 then (False, s)
      else
        (let s = snd (getTensor (ins ! 0) s);
             s = snd (getTensor (ins ! 2) s);
             padding_left = getScalar (ins ! 3) s;
             padding_right = getScalar (ins ! 4) s;
             padding_top = getScalar (ins ! 5) s;
             padding_bottom = getScalar (ins ! 6) s;
             stride_width = getScalar (ins ! 7) s;
             stride_height = getScalar (ins ! 8) s;
             depth_multiplier = getScalar (ins ! 9) s;
             act = getFloatActivation (ins ! 10) s;
             (filter', s) = createDepthwiseFilterTensor (ins ! 1) depth_multiplier s;
             (stride, s) = createShape 1 stride_height stride_width 1 s;
             filterShape = getShape (ins ! 1) s;
             pad = getPadding6 nn (shape_dimensions filterShape ! 2)
                   (shape_dimensions filterShape ! 1) padding_left padding_right
                   padding_top padding_bottom
         in addFusedFloatOperation OP_DepthwiseConv2d_f pad (tensor_of (ins ! 2) s) act
              [tensor_of (ins ! 0) s, filter', stride] outs s))"

definition float32_fully_connected ::
  "nat list \<Rightarrow> nat list \<Rightarrow> sys \<Rightarrow> bool \<times> sys" where
  "float32_fully_connected ins outs s =
     (if length ins \<noteq> 4 then (False, s)
      else if length outs \<noteq> 1 then (False, s)
      else
        (let s = snd (getTensor (ins ! 0) s);
             (weights, s) = createFullyConnectedWeightTensor (ins ! 1) s;
             s = snd (getTensor (ins ! 2) s);
             act = getFloatActivation (ins ! 3) s
         in addFusedFloatOperation OP_MatMul_f NN_PAD_NA (tensor_of (ins ! 2) s) act
              [tensor_of (ins ! 0) s, weights] outs s))"

definition float32_l2_pool_2d ::
  "nnlib \<Rightarrow> nat list \<Rightarrow> nat list \<Rightarrow> sys \<Rightarrow> bool \<times> sys" where
  "float32_l2_pool_2d nn ins outs s =
     (if length ins \<noteq> 10 then (False, s)
      else if length outs \<noteq> 1 then (False, s)
      else
        (let s = snd (getTensor (ins ! 0) s);
             padding_left = getScalar (ins ! 1) s;
             padding_right = getScalar (ins ! 2) s;
             padding_top = getScalar (ins ! 3) s;
             padding_bottom = getScalar (ins ! 4) s;
             stride_width = getScalar (ins ! 5) s;
             stride_height = getScalar (ins ! 6) s;
             filter_width = getScalar (ins ! 7) s;
             filter_height = getScalar (ins ! 8) s;
             act = getFloatActivation (ins ! 9) s;
             (window, s) = createShape 1 filter_height filter_width 1 s;
             (stride, s) = createShape 1 stride_height stride_width 1 s;
             pad = getPadding6 nn filter_width filter_height padding_left padding_right
                   padding_top padding_bottom
         in addFloatOperationWithActivation OP_L2Pool_f pad act
              [tensor_of (ins ! 0) s, window, stride] outs s))"

definition float32_local_response_normalization ::
  "nat list \<Rightarrow> nat list \<Rightarrow> sys \<Rightarrow> bool \<times> sys" where
  "float32_local_response_normalization ins outs s =
     (if length ins \<noteq> 5 then (False, s)
      else if length outs \<noteq> 1 then (False, s)
      else
        (let s = snd (getTensor (ins ! 0) s);
             s = snd (getTensor (ins ! 2) s);
             s = snd (getTensor (ins ! 3) s);
             s = snd (getTensor (ins ! 4) s);
             radius = getScalar (ins ! 1) s;
             (window, s) = createTensor_float 1 1 1 (radius * 2 + 1) [1] s
         in addBasicOperation OP_LRN_f NN_PAD_NA
              [tensor_of (ins ! 0) s, window, tensor_of (ins ! 2) s, tensor_of (ins ! 3) s, tensor_of (ins ! 4) s] outs s))"

definition float32_logistic ::
  "nat list \<Rightarrow> nat list \<Rightarrow> sys \<Rightarrow> bool \<times> sys" where
  "float32_logistic ins outs s =
     (if length ins \<noteq> 1 then (False, s)
      else if length outs \<noteq> 1 then (False, s)
      else
        (let s = snd (getTensor (ins ! 0) s)
         in addBasicOperation OP_Sigmoid_f NN_PAD_NA [tensor_of (ins ! 0) s] outs s))"

definition float32_max_pool_2d ::
  "nnlib \<Rightarrow> nat list \<Rightarrow> nat list \<Rightarrow> sys \<Rightarrow> bool \<times> sys" where
  "float32_max_pool_2d nn ins outs s =
     (if length ins \<noteq> 10 then (False, s)
      else if length outs \<noteq> 1 then (False, s)
      else
        (let s = snd (getTensor (ins ! 0) s);
             padding_left = getScalar (ins ! 1) s;
             padding_right = getScalar (ins ! 2) s;
             padding_top = getScalar (ins ! 3) s;
             padding_bottom = getScalar (ins ! 4) s;
             stride_width = getScalar (ins ! 5) s;
             stride_height = getScalar (ins ! 6) s;
             filter_width = getScalar (ins ! 7) s;
             filter_height = getScalar (ins ! 8) s;
             act = getFloatActivation (ins ! 9) s;
             (window, s) = createShape 1 filter_height filter_width 1 s;
             (stride, s) = createShape 1 stride_height stride_width 1 s;
             pad = getPadding6 nn filter_width filter_height padding_left padding_right
                   padding_top padding_bottom
         in addFloatOperationWithActivation OP_MaxPool_f pad act
              [tensor_of (ins ! 0) s, window, stride] outs s))"

definition float32_mul ::
  "nat list \<Rightarrow> nat list \<Rightarrow> sys \<Rightarrow> bool \<times> sys" where
  "float32_mul ins outs s =
     (if length ins \<noteq> 3 then (False, s)
      else if length outs \<noteq> 1 then (False, s)
      else
        (let s = snd (getTensor (ins ! 0) s);
             s = snd (getTensor (ins ! 1) s);
             act = getFloatActivation (ins ! 2) s
         in addFusedFloatOperation OP_Mul_f NN_PAD_NA no_input act
              [tensor_of (ins ! 0) s, tensor_of (ins ! 1) s] outs s))"

definition float32_relu ::
  "nat list \<Rightarrow> nat list \<Rightarrow> sys \<Rightarrow> bool \<times> sys" where
  "float32_relu ins outs s =
     (if length ins \<noteq> 1 then (False, s)
      else if length outs \<noteq> 1 then (False, s)
      else
        (let s = snd (getTensor (ins ! 0) s)
         in addBasicOperation OP_Relu_f NN_PAD_NA [tensor_of (ins ! 0) s] outs s))"

definition float32_relu1 ::
  "nat list \<Rightarrow> nat list \<Rightarrow> sys \<Rightarrow> bool \<times> sys" where
  "float32_relu1 ins outs s =
     (if length ins \<noteq> 1 then (False, s)
      else if length outs \<noteq> 1 then (False, s)
      else
        (let s = snd (getTensor (ins ! 0) s);
             (min', s) = createScalar_float (- 1) s;
             (max', s) = createScalar_float 1 s
         in addBasicOperation OP_Clamp_f NN_PAD_NA [tensor_of (ins ! 0) s, min', max'] outs s))"

definition float32_relu6 ::
  "nat list \<Rightarrow> nat list \<Rightarrow> sys \<Rightarrow> bool \<times> sys" where
  "float32_relu6 ins outs s =
     (if length ins \<noteq> 1 then (False, s)
      else if length outs \<noteq> 1 then (False, s)
      else
        (let s = snd (getTensor (ins ! 0) s);
             (max', s) = createScalar_float 6 s
         in addBasicOperation OP_ReluX_f NN_PAD_NA [tensor_of (ins ! 0) s, max'] outs s))"

definition float32_reshape ::
  "nat list \<Rightarrow> nat list \<Rightarrow> sys \<Rightarrow> bool \<times> sys" where
  "float32_reshape ins outs s =
     (if length ins \<noteq> 2 then (False, s)
      else if length outs \<noteq> 1 then (False, s)
      else
        (let s = snd (getTensor (ins ! 0) s);
             s = snd (getTensor (ins ! 1) s)
         in addBasicOperation OP_Reshape NN_PAD_NA [tensor_of (ins ! 0) s, tensor_of (ins ! 1) s] outs s))"

definition float32_resize_bilinear ::
  "nat list \<Rightarrow> nat list \<Rightarrow> sys \<Rightarrow> bool \<times> sys" where
  "float32_resize_bilinear ins outs s =
     (if length ins \<noteq> 3 then (False, s)
      else if length outs \<noteq> 1 then (False, s)
      else
        (let s = snd (getTensor (ins ! 0) s);
             width' = getScalar (ins ! 1) s;
             height' = getScalar (ins ! 2) s;
             (newdim, s) = createValues_int32 [height', width'] s
         in addBasicOperation OP_ResizeBilinear_f NN_PAD_NA [tensor_of (ins ! 0) s, newdim] outs s))"

definition float32_softmax ::
  "nat list \<Rightarrow> nat list \<Rightarrow> sys \<Rightarrow> bool \<times> sys" where
  "float32_softmax ins outs s =
     (if length ins \<noteq> 2 then (False, s)
      else if length outs \<noteq> 1 then (False, s)
      else
        (let s = snd (getTensor (ins ! 0) s);
             s = snd (getTensor (ins ! 1) s)
         in addBasicOperation OP_Softmax_f NN_PAD_NA [tensor_of (ins ! 0) s, tensor_of (ins ! 1) s] outs s))"

definition float32_tanh ::
  "nat list \<Rightarrow> nat list \<Rightarrow> sys \<Rightarrow> bool \<times> sys" where
  "float32_tanh ins outs s =
     (if length ins \<noteq> 1 then (False, s)
      else if length outs \<noteq> 1 then (False, s)
      else
        (let s = snd (getTensor (ins ! 0) s)
         in addBasicOperation OP_Tanh_f NN_PAD_NA [tensor_of (ins ! 0) s] outs s))"

subsection \<open>Namespace quant8_asym\<close>

definition quant8_asym_add ::
  "nat list \<Rightarrow> nat list \<Rightarrow> sys \<Rightarrow> bool \<times> sys" where
  "quant8_asym_add ins outs s =
     (if length ins \<noteq> 3 then (False, s)
      else if length outs \<noteq> 1 then (False, s)
      else
        (let s = snd (getTensor (ins ! 0) s);
             s = snd (getTensor (ins ! 1) s);
             act = getQuantizedActivation (ins ! 2) s;
             s = snd (getQuantizationMin (ins ! 0) s);
             s = snd (getQuantizationMax (ins ! 0) s);
             s = snd (getQuantizationMin (ins ! 1) s);
             s = snd (getQuantizationMax (ins ! 1) s)
         in addFusedQuant8Operation OP_QuantizedAdd_8p8to32 NN_PAD_NA no_input act
              [tensor_of (ins ! 0) s, min_of (ins ! 0) s, max_of (ins ! 0) s,
               tensor_of (ins ! 1) s, min_of (ins ! 1) s, max_of (ins ! 1) s] outs s))"

definition quant8_asym_average_pool_2d ::
  "nnlib \<Rightarrow> nat list \<Rightarrow> nat list \<Rightarrow> sys \<Rightarrow> bool \<times> sys" where
  "quant8_asym_average_pool_2d nn ins outs s =
     (if length ins \<noteq> 10 then (False, s)
      else if length outs \<noteq> 1 then (False, s)
      else
        (let s = snd (getTensor (ins ! 0) s);
             padding_left = getScalar (ins ! 1) s;
             padding_right = getScalar (ins ! 2) s;
             padding_top = getScalar (ins ! 3) s;
             padding_bottom = getScalar (ins ! 4) s;
             stride_width = getScalar (ins ! 5) s;
             stride_height = getScalar (ins ! 6) s;
             filter_width = getScalar (ins ! 7) s;
             filter_height = getScalar (ins ! 8) s;
             act = getQuantizedActivation (ins ! 9) s;
             s = snd (getQuantizationMin (ins ! 0) s);
             s = snd (getQuantizationMax (ins ! 0) s);
             (window, s) = createShape 1 filter_height filter_width 1 s;
             (stride, s) = createShape 1 stride_height stride_width 1 s;
             pad = getPadding6 nn filter_width filter_height padding_left padding_right
                   padding_top padding_bottom
         in addQuant8OperationWithActivation OP_QuantizedAvgPool_8 pad act
              [tensor_of (ins ! 0) s, min_of (ins ! 0) s, max_of (ins ! 0) s, window, stride] outs s))"

definition quant8_asym_concatenation ::
  "nat list \<Rightarrow> nat list \<Rightarrow> sys \<Rightarrow> bool \<times> sys" where
  "quant8_asym_concatenation ins outs s =
     (if \<not> 3 \<le> length ins then (False, s)
      else if length outs \<noteq> 1 then (False, s)
      else
        (let numInputTensors = length ins - 1;
             ((tensors, mins, maxs), s) = getQuantizedTensors (take numInputTensors ins) s;
             axis = getScalar (ins ! numInputTensors) s;
             dims = of_nat (length (shape_dimensions (getShape (ins ! 0) s)));
             (axis', s) = createScalar_int32 (axis + (4 - dims)) s
         in addBasicOperation OP_QuantizedConcat_8 NN_PAD_NA
              (axis' # tensors @ mins @ maxs) outs s))"

definition quant8_asym_conv_2d ::
  "nnlib \<Rightarrow> nat list \<Rightarrow> nat list \<Rightarrow> sys \<Rightarrow> bool \<times> sys" where
  "quant8_asym_conv_2d nn ins outs s =
     (if length ins \<noteq> 10 then (False, s)
      else if length outs \<noteq> 1 then (False, s)
      else
        (let s = snd (getTensor (ins ! 0) s);
             (filter', s) = createConvFilterTensor (ins ! 1) s;
             s = snd (getTensor (ins ! 2) s);
             padding_left = getScalar (ins ! 3) s;
             padding_right = getScalar (ins ! 4) s;
             padding_top = getScalar (ins ! 5) s;
             padding_bottom = getScalar (ins ! 6) s;
             stride_width = getScalar (ins ! 7) s;
             stride_height = getScalar (ins ! 8) s;
             act = getQuantizedActivation (ins ! 9) s;
             s = snd (getQuantizationMin (ins ! 0) s);
             s = snd (getQuantizationMax (ins ! 0) s);
             s = snd (getQuantizationMin (ins ! 1) s);
             s = snd (getQuantizationMax (ins ! 1) s);
             (stride, s) = createShape 1 stride_height stride_width 1 s;
             filterShape = getShape (ins ! 1) s;
             pad = getPadding6 nn (shape_dimensions filterShape ! 2)
                   (shape_dimensions filterShape ! 1) padding_left padding_right
                   padding_top padding_bottom
         in addFusedQuant8Operation OP_QuantizedConv2d_8x8to32 pad (tensor_of (ins ! 2) s) act
              [tensor_of (ins ! 0) s, filter', min_of (ins ! 0) s, max_of (ins ! 0) s,
               min_of (ins ! 1) s, max_of (ins ! 1) s, stride] outs s))"

definition quant8_asym_depthwise_conv_2d ::
  "nnlib \<Rightarrow> nat list \<Rightarrow> nat list \<Rightarrow> sys \<Rightarrow> bool \<times> sys" where
  "quant8_asym_depthwise_conv_2d nn ins outs s =
     (if length ins \<noteq> 11 then (False, s)
      else if length outs \<noteq> 1 then (False, s)
      else
        (let s = snd (getTensor (ins ! 0) s);
             s = snd (getTensor (ins ! 2) s);
             padding_left = getScalar (ins ! 3) s;
             padding_right = getScalar (ins ! 4) s;
             padding_top = getScalar (ins ! 5) s;
             padding_bottom = getScalar (ins ! 6) s;
             stride_width = getScalar (ins ! 7) s;
             stride_height = getScalar (ins ! 8) s;
             depth_multiplier = getScalar (ins ! 9) s;
             act = getQuantizedActivation (ins ! 10) s;
             s = snd (getQuantizationMin (ins ! 0) s);
             s = snd (getQuantizationMax (ins ! 0) s);
             s = snd (getQuantizationMin (ins ! 0) s);
             s = snd (getQuantizationMax (ins ! 0) s);
             (filter', s) = createDepthwiseFilterTensor (ins ! 1) depth_multiplier s;
             (stride, s) = createShape 1 stride_height stride_width 1 s;
             filterShape = getShape (ins ! 1) s;
             pad = getPadding6 nn (shape_dimensions filterShape ! 2)
                   (shape_dimensions filterShape ! 1) padding_left padding_right
                   padding_top padding_bottom
         in addFusedQuant8Operation OP_QuantizedDepthwiseConv2d_8x8to32 pad (tensor_of (ins ! 2) s) act
              [tensor_of (ins ! 0) s, filter', min_of (ins ! 0) s, max_of (ins ! 0) s,
               min_of (ins ! 0) s, max_of (ins ! 0) s, stride] outs s))"

definition quant8_asym_dequantize ::
  "nat list \<Rightarrow> nat list \<Rightarrow> sys \<Rightarrow> bool \<times> sys" where
  "quant8_asym_dequantize ins outs s =
     (if length ins \<noteq> 1 then (False, s)
      else if length outs \<noteq> 1 then (False, s)
      else
        (let s = snd (getTensor (ins ! 0) s);
             s = snd (getQuantizationMin (ins ! 0) s);
             s = snd (getQuantizationMax (ins ! 0) s)
         in addBasicOperation OP_Dequantize NN_PAD_NA
              [tensor_of (ins ! 0) s, min_of (ins ! 0) s, max_of (ins ! 0) s] outs s))"

definition quant8_asym_fully_connected ::
  "nat list \<Rightarrow> nat list \<Rightarrow> sys \<Rightarrow> bool \<times> sys" where
  "quant8_asym_fully_connected ins outs s =
     (if length ins \<noteq> 4 then (False, s)
      else if length outs \<noteq> 1 then (False, s)
      else
        (let s = snd (getTensor (ins ! 0) s);
             s = snd (getTensor (ins ! 1) s);
             s = snd (getTensor (ins ! 2) s);
             act = getQuantizedActivation (ins ! 3) s;
             s = snd (getQuantizationMin (ins ! 0) s);
             s = snd (getQuantizationMax (ins ! 0) s);
             s = snd (getQuantizationMin (ins ! 1) s);
             s = snd (getQuantizationMax (ins ! 1) s)
         in addFusedQuant8Operation OP_QuantizedMatMul_8x8to32 NN_PAD_NA (tensor_of (ins ! 2) s) act
              [tensor_of (ins ! 0) s, tensor_of (ins ! 1) s, min_of (ins ! 0) s, max_of (ins ! 0) s,
               min_of (ins ! 1) s, max_of (ins ! 1) s] outs s))"

definition quant8_asym_logistic ::
  "nat list \<Rightarrow> nat list \<Rightarrow> sys \<Rightarrow> bool \<times> sys" where
  "quant8_asym_logistic ins outs s =
     (if length ins \<noteq> 1 then (False, s)
      else if length outs \<noteq> 1 then (False, s)
      else
        (let s = snd (getTensor (ins ! 0) s);
             s = snd (getQuantizationMin (ins ! 0) s);
             (input_max, s) = createQuantizationValue (ins ! 0) 256 s
         in addBasicOperation OP_QuantizedSigmoid_8 NN_PAD_NA
              [tensor_of (ins ! 0) s, min_of (ins ! 0) s, input_max] outs s))"

definition quant8_asym_max_pool_2d ::
  "nnlib \<Rightarrow> nat list \<Rightarrow> nat list \<Rightarrow> sys \<Rightarrow> bool \<times> sys" where
  "quant8_asym_max_pool_2d nn ins outs s =
     (if length ins \<noteq> 10 then (False, s)
      else if length outs \<noteq> 1 then (False, s)
      else
        (let s = snd (getTensor (ins ! 0) s);
             padding_left = getScalar (ins ! 1) s;
             padding_right = getScalar (ins ! 2) s;
             padding_top = getScalar (ins ! 3) s;
             padding_bottom = getScalar (ins ! 4) s;
             stride_width = getScalar (ins ! 5) s;
             stride_height = getScalar (ins ! 6) s;
             filter_width = getScalar (ins ! 7) s;
             filter_height = getScalar (ins ! 8) s;
             act = getQuantizedActivation (ins ! 9) s;
             s = snd (getQuantizationMin (ins ! 0) s);
             s = snd (getQuantizationMax (ins ! 0) s);
             (window, s) = createShape 1 filter_height filter_width 1 s;
             (stride, s) = createShape 1 stride_height stride_width 1 s;
             pad = getPadding6 nn filter_width filter_height padding_left padding_right
                   padding_top padding_bottom
         in addQuant8OperationWithActivation OP_QuantizedMaxPool_8 pad act
              [tensor_of (ins ! 0) s, min_of (ins ! 0) s, max_of (ins ! 0) s, window, stride] outs s))"

definition quant8_asym_mul ::
  "nat list \<Rightarrow> nat list \<Rightarrow> sys \<Rightarrow> bool \<times> sys" where
  "quant8_asym_mul ins outs s =
     (if length ins \<noteq> 3 then (False, s)
      else if length outs \<noteq> 1 then (False, s)
      else
        (let s = snd (getTensor (ins ! 0) s);
             s = snd (getTensor (ins ! 1) s);
             act = getQuantizedActivation (ins ! 2) s;
             s = snd (getQuantizationMin (ins ! 0) s);
             s = snd (getQuantizationMax (ins ! 0) s);
             s = snd (getQuantizationMin (ins ! 1) s);
             s = snd (getQuantizationMax (ins ! 1) s)
         in addFusedQuant8Operation OP_QuantizedMul_8x8to32 NN_PAD_NA no_input act
              [tensor_of (ins ! 0) s, min_of (ins ! 0) s, max_of (ins ! 0) s,
               tensor_of (ins ! 1) s, min_of (ins ! 1) s, max_of (ins ! 1) s] outs s))"

definition quant8_asym_relu ::
  "nat list \<Rightarrow> nat list \<Rightarrow> sys \<Rightarrow> bool \<times> sys" where
  "quant8_asym_relu ins outs s =
     (if length ins \<noteq> 1 then (False, s)
      else if length outs \<noteq> 1 then (False, s)
      else
        (let s = snd (getTensor (ins ! 0) s);
             s = snd (getQuantizationMin (ins ! 0) s);
             s = snd (getQuantizationMax (ins ! 0) s)
         in addBasicOperation OP_QuantizedRelu_8 NN_PAD_NA
              [tensor_of (ins ! 0) s, min_of (ins ! 0) s, max_of (ins ! 0) s] outs s))"

definition quant8_asym_relu1 ::
  "nat list \<Rightarrow> nat list \<Rightarrow> sys \<Rightarrow> bool \<times> sys" where
  "quant8_asym_relu1 ins outs s =
     (if length ins \<noteq> 1 then (False, s)
      else if length outs \<noteq> 1 then (False, s)
      else
        (let s = snd (getTensor (ins ! 0) s);
             (min', s) = createScalar_float (- 1) s;
             (max', s) = createScalar_float 1 s;
             s = snd (getQuantizationMin (ins ! 0) s);
             s = snd (getQuantizationMax (ins ! 0) s)
         in addBasicOperation OP_QuantizedClamp_8 NN_PAD_NA
              [tensor_of (ins ! 0) s, min_of (ins ! 0) s, max_of (ins ! 0) s, min', max'] outs s))"

definition quant8_asym_relu6 ::
  "nat list \<Rightarrow> nat list \<Rightarrow> sys \<Rightarrow> bool \<times> sys" where
  "quant8_asym_relu6 ins outs s =
     (if length ins \<noteq> 1 then (False, s)
      else if length outs \<noteq> 1 then (False, s)
      else
        (let s = snd (getTensor (ins ! 0) s);
             (max', s) = createScalar_float 6 s;
             s = snd (getQuantizationMin (ins ! 0) s);
             s = snd (getQuantizationMax (ins ! 0) s)
         in addBasicOperation OP_QuantizedReluX_8 NN_PAD_NA
              [tensor_of (ins ! 0) s, min_of (ins ! 0) s, max_of (ins ! 0) s, max'] outs s))"

definition quant8_asym_reshape ::
  "nat list \<Rightarrow> nat list \<Rightarrow> sys \<Rightarrow> bool \<times> sys" where
  "quant8_asym_reshape ins outs s =
     (if length ins \<noteq> 2 then (False, s)
      else if length outs \<noteq> 1 then (False, s)
      else
        (let s = snd (getTensor (ins ! 0) s);
             s = snd (getTensor (ins ! 1) s);
             s = snd (getQuantizationMin (ins ! 0) s);
             s = snd (getQuantizationMax (ins ! 0) s)
         in addBasicOperation OP_QuantizedReshape NN_PAD_NA
              [tensor_of (ins ! 0) s, tensor_of (ins ! 1) s, min_of (ins ! 0) s, max_of (ins ! 0) s] outs s))"

definition quant8_asym_softmax ::
  "nat list \<Rightarrow> nat list \<Rightarrow> sys \<Rightarrow> bool \<times> sys" where
  "quant8_asym_softmax ins outs s =
     (if length ins \<noteq> 2 then (False, s)
      else if length outs \<noteq> 1 then (False, s)
      else
        (let s = snd (getTensor (ins ! 0) s);
             s = snd (getTensor (ins ! 1) s);
             s = snd (getQuantizationMin (ins ! 0) s);
             s = snd (getQuantizationMax (ins ! 0) s)
         in addBasicOperation OP_QuantizedSoftmax_8 NN_PAD_NA
              [tensor_of (ins ! 0) s, min_of (ins ! 0) s, max_of (ins ! 0) s, tensor_of (ins ! 1) s] outs s))"

definition getOperationPrepareTable ::
  "nnlib \<Rightarrow> OperationType \<times> OperandType \<Rightarrow> (nat list \<Rightarrow> nat list \<Rightarrow> sys \<Rightarrow> bool \<times> sys) option" where
  "getOperationPrepareTable nn = map_of
     [((ADD, TENSOR_FLOAT32), float32_add),
      ((AVERAGE_POOL_2D, TENSOR_FLOAT32), float32_average_pool_2d nn),
      ((CONCATENATION, TENSOR_FLOAT32), float32_concatenation),
      ((CONV_2D, TENSOR_FLOAT32), float32_conv_2d nn),
      ((DEPTHWISE_CONV_2D, TENSOR_FLOAT32), float32_depthwise_conv_2d nn),
      ((FULLY_CONNECTED, TENSOR_FLOAT32), float32_fully_connected),
      ((L2_POOL_2D, TENSOR_FLOAT32), float32_l2_pool_2d nn),
      ((LOCAL_RESPONSE_NORMALIZATION, TENSOR_FLOAT32), float32_local_response_normalization),
      ((LOGISTIC, TENSOR_FLOAT32), float32_logistic),
      ((MAX_POOL_2D, TENSOR_FLOAT32), float32_max_pool_2d nn),
      ((MUL, TENSOR_FLOAT32), float32_mul),
      ((RELU, TENSOR_FLOAT32), float32_relu),
      ((RELU1, TENSOR_FLOAT32), float32_relu1),
      ((RELU6, TENSOR_FLOAT32), float32_relu6),
      ((RESHAPE, TENSOR_FLOAT32), float32_reshape),
      ((RESIZE_BILINEAR, TENSOR_FLOAT32), float32_resize_bilinear),
      ((SOFTMAX, TENSOR_FLOAT32), float32_softmax),
      ((TANH, TENSOR_FLOAT32), float32_tanh),
      ((ADD, TENSOR_QUANT8_ASYMM), quant8_asym_add),
      ((AVERAGE_POOL_2D, TENSOR_QUANT8_ASYMM), quant8_asym_average_pool_2d nn),
      ((CONCATENATION, TENSOR_QUANT8_ASYMM), quant8_asym_concatenation),
      ((CONV_2D, TENSOR_QUANT8_ASYMM), quant8_asym_conv_2d nn),
      ((DEPTHWISE_CONV_2D, TENSOR_QUANT8_ASYMM), quant8_asym_depthwise_conv_2d nn),
      ((DEQUANTIZE, TENSOR_QUANT8_ASYMM), quant8_asym_dequantize),
      ((FULLY_CONNECTED, TENSOR_QUANT8_ASYMM), quant8_asym_fully_connected),
      ((LOGISTIC, TENSOR_QUANT8_ASYMM), quant8_asym_logistic),
      ((MAX_POOL_2D, TENSOR_QUANT8_ASYMM), quant8_asym_max_pool_2d nn),
      ((MUL, TENSOR_QUANT8_ASYMM), quant8_asym_mul),
      ((RELU, TENSOR_QUANT8_ASYMM), quant8_asym_relu),
      ((RELU1, TENSOR_QUANT8_ASYMM), quant8_asym_relu1),
      ((RELU6, TENSOR_QUANT8_ASYMM), quant8_asym_relu6),
      ((RESHAPE, TENSOR_QUANT8_ASYMM), quant8_asym_reshape),
      ((SOFTMAX, TENSOR_QUANT8_ASYMM), quant8_asym_softmax)]"

section \<open>Building, resetting and running the graph\<close>

definition verifyOperations :: "nnlib \<Rightarrow> 'a Model_scheme \<Rightarrow> bool \<times> 'a Model_scheme" where
  "verifyOperations nn m =
     (let (supported, m) = supportedOperations nn m
      in (list_all (\<lambda>valid. valid) supported, m))"

definition verifyOperands :: "'a Model_scheme \<Rightarrow> bool" where
  "verifyOperands m =
     list_all (\<lambda>operand. list_all (\<lambda>dim. dim \<noteq> 0) (dimensions operand)) (mOperands m)"

text \<open>The second loop of \<open>addInputs\<close>: input \<open>i\<close> is output slot \<open>i\<close> of the input node.\<close>

fun addInputs_update :: "nat \<Rightarrow> nat list \<Rightarrow> u32 \<Rightarrow> 'a Model_scheme \<Rightarrow> 'a Model_scheme" where
  "addInputs_update i [] node m = m"
| "addInputs_update i (x # rest) node m =
     addInputs_update (Suc i) rest node
       (m\<lparr>mOperands := (mOperands m)
          [x := (mOperands m ! x)\<lparr>hexagon_input := \<lparr>src_id = node, output_idx = of_nat i\<rparr>\<rparr>]\<rparr>)"

definition addInputs :: "sys \<Rightarrow> bool \<times> sys" where
  "addInputs s =
     (let outs = map (\<lambda>i. make_hexagon_nn_output (dimensions (mOperands s ! i))
                             (getSize (type (mOperands s ! i)))) (mInputs s);
          (node, s) = addOperationInternal OP_INPUT NN_PAD_NA [] outs s
      in if node = 0 then (False, s)
         else (True, addInputs_update 0 (mInputs s) node s))"

fun addOperations_loop :: "nnlib \<Rightarrow> Operation list \<Rightarrow> sys \<Rightarrow> bool \<times> sys" where
  "addOperations_loop nn [] s = (True, s)"
| "addOperations_loop nn (operation # rest) s =
     (let operandType = type (mOperands s ! (inputs operation ! 0))
      in case getOperationPrepareTable nn (operation_type operation, operandType) of
           None \<Rightarrow> (False, s)
         | Some prepare \<Rightarrow>
             (let (success, s) = prepare (inputs operation) (outputs operation) s
              in if \<not> success then (False, s) else addOperations_loop nn rest s))"

definition addOperations :: "nnlib \<Rightarrow> sys \<Rightarrow> bool \<times> sys" where
  "addOperations nn s = addOperations_loop nn (mOperations s) s"

definition addOutputs :: "sys \<Rightarrow> bool \<times> sys" where
  "addOutputs s =
     (if list_ex (\<lambda>i. hexagon_input (mOperands s ! i) = no_input) (mOutputs s) then (False, s)
      else
        (let ins = map (\<lambda>i. hexagon_input (mOperands s ! i)) (mOutputs s);
             (success, s) = addBasicOperation OP_OUTPUT NN_PAD_NA ins [] s
         in if \<not> success then (False, s) else (True, s)))"

definition resetModel :: "sys \<Rightarrow> sys" where
  "resetModel s =
     (let s = s\<lparr>mCompiled := False\<rparr>;
          s = s\<lparr>mOperands := map (\<lambda>operand. operand\<lparr>hexagon_input := no_input,
                                                     hexagon_output := no_output\<rparr>)
                                 (mOperands s)\<rparr>;
          s = (if mGraphId s \<noteq> 0 then snd (Controller_call (Teardown (mGraphId s)) s) else s);
          (graph, s) = Controller_call Init s;
          s = s\<lparr>mGraphId := graph\<rparr>
      in snd (Controller_call (Set_debug_level (mGraphId s) 99) s))"

text \<open>\<open>getLog\<close> and \<open>getDebugLog\<close> fetch a text for the log; what stays is the call.\<close>

definition getLog :: "sys \<Rightarrow> sys" where
  "getLog s = snd (Controller_call (Snpprint (mGraphId s)) s)"

definition getDebugLog :: "sys \<Rightarrow> sys" where
  "getDebugLog s = snd (Controller_call (Getlog (mGraphId s)) s)"

definition compile :: "nnlib \<Rightarrow> sys \<Rightarrow> bool \<times> sys" where
  "compile nn s =
     (let (operationsOk, s) = verifyOperations nn s
      in if \<not> operationsOk then (False, s)
         else if \<not> verifyOperands s then (False, s)
         else
           (let (inputsOk, s) = addInputs s
            in if \<not> inputsOk then (False, resetModel s)
               else
                 (let (operationsAdded, s) = addOperations nn s
                  in if \<not> operationsAdded then (False, resetModel s)
                     else
                       (let (outputsOk, s) = addOutputs s
                        in if \<not> outputsOk then (False, resetModel s)
                           else
                             (let s = getLog s;
                                  s = getDebugLog s;
                                  (err, s) = Controller_call (Prepare (mGraphId s)) s;
                                  s = getLog s;
                                  s = getDebugLog s
                              in (err = 0, s))))))"

subsection \<open>Execution\<close>

record RequestArgument =
  poolIndex :: nat
  offset :: u32
  arg_dimensions :: "u32 list"

record Request =
  request_inputs :: "RequestArgument list"
  request_outputs :: "RequestArgument list"
  request_pools :: "u8 list option list"

definition convertToTensordef :: "OperandInfo \<Rightarrow> hexagon_nn_tensordef" where
  "convertToTensordef operand =
     (let dims = getAlignedDimensions (dimensions operand) 4
      in \<lparr>batches = dims ! 0, height = dims ! 1, width = dims ! 2, depth = dims ! 3,
          data = buffer operand, dataLen = length_bytes operand,
          data_valid_len = length_bytes operand, unused = 0\<rparr>)"

definition getSize_operand :: "OperandInfo \<Rightarrow> u32" where
  "getSize_operand operand = fold (\<lambda>dim acc. acc * dim) (dimensions operand) (getSize (type operand))"

definition updateOperand :: "RequestArgument \<Rightarrow> u8 list list \<Rightarrow> OperandInfo \<Rightarrow> OperandInfo" where
  "updateOperand inputOutput pools operand =
     (let pool = pools ! poolIndex inputOutput;
          operand = (if 0 < length (arg_dimensions inputOutput)
                     then operand\<lparr>dimensions := arg_dimensions inputOutput\<rparr> else operand);
          operand = operand\<lparr>buffer := Some (drop (unat (offset inputOutput)) pool)\<rparr>
      in operand\<lparr>length_bytes := getSize_operand operand\<rparr>)"

text \<open>
  The two loops of \<open>execute\<close>: argument \<open>i\<close> of the request rebinds operand
  \<open>indexes[i]\<close> (\<open>mInputs\<close> or \<open>mOutputs\<close>) and gives one tensor descriptor.
\<close>

fun bindArguments ::
  "RequestArgument list \<Rightarrow> nat list \<Rightarrow> nat \<Rightarrow> u8 list list \<Rightarrow> 'a Model_scheme
   \<Rightarrow> hexagon_nn_tensordef list \<times> 'a Model_scheme" where
  "bindArguments [] indexes i pools m = ([], m)"
| "bindArguments (arg # args) indexes i pools m =
     (let operandInfo = updateOperand arg pools (mOperands m ! (indexes ! i));
          m = m\<lparr>mOperands := (mOperands m)[indexes ! i := operandInfo]\<rparr>;
          (defs, m) = bindArguments args indexes (Suc i) pools m
      in (convertToTensordef operandInfo # defs, m))"

definition execute :: "Request \<Rightarrow> sys \<Rightarrow> bool \<times> sys" where
  "execute request s =
     (let pools = mapPools (request_pools request);
          (ins, s) = bindArguments (request_inputs request) (mInputs s) 0 pools s;
          (outs, s) = bindArguments (request_outputs request) (mOutputs s) 0 pools s;
          (err, s) = Controller_call (Execute_new (mGraphId s) ins outs) s;
          s = getDebugLog s
      in (err = 0, s))"

subsection \<open>Construction, move and destruction\<close>

record Operand =
  operand_type :: OperandType
  operand_dimensions :: "u32 list"
  operand_scale :: real
  operand_zeroPoint :: u32
  operand_lifetime :: OperandLifeTime
  location_poolIndex :: nat
  location_offset :: u32
  location_length :: u32

record NeuralnetworksModel =
  operands :: "Operand list"
  operations :: "Operation list"
  inputIndexes :: "nat list"
  outputIndexes :: "nat list"
  operandValues :: "u8 list"
  pools :: "u8 list option list"

definition getDataFromBlock :: "u8 list \<Rightarrow> u32 \<Rightarrow> u32 \<Rightarrow> u8 list option" where
  "getDataFromBlock block off len =
     (if \<not> unat (off + len) \<le> length block then None else Some (drop (unat off) block))"

definition getDataFromPool :: "u8 list \<Rightarrow> u32 \<Rightarrow> u32 \<Rightarrow> u8 list option" where
  "getDataFromPool pool off len = Some (drop (unat off) pool)"

definition getData :: "Operand \<Rightarrow> u8 list \<Rightarrow> u8 list list \<Rightarrow> u8 list option" where
  "getData operand block pools' =
     (case operand_lifetime operand of
        TEMPORARY_VARIABLE \<Rightarrow> None
      | MODEL_INPUT \<Rightarrow> None
      | MODEL_OUTPUT \<Rightarrow> None
      | CONSTANT_COPY \<Rightarrow>
          getDataFromBlock block (location_offset operand) (location_length operand)
      | CONSTANT_REFERENCE \<Rightarrow>
          getDataFromPool (pools' ! location_poolIndex operand) (location_offset operand)
            (location_length operand))"

definition getOperandsInfo :: "NeuralnetworksModel \<Rightarrow> u8 list list \<Rightarrow> OperandInfo list" where
  "getOperandsInfo model pools' =
     map (\<lambda>operand.
        \<lparr>type = operand_type operand,
         dimensions = operand_dimensions operand,
         scale = operand_scale operand,
         zeroPoint = operand_zeroPoint operand,
         lifetime = operand_lifetime operand,
         buffer = getData operand (operandValues model) pools',
         length_bytes = location_length operand,
         hexagon_input = no_input,
         hexagon_input_min = no_input,
         hexagon_input_max = no_input,
         hexagon_output = no_output\<rparr>) (operands model)"

text \<open>
  \<open>Model::Model(const NeuralnetworksModel&)\<close>, run against an accelerator that answers
  by \<open>env\<close> and has seen the calls \<open>history\<close>.
\<close>

definition Model_new :: "NeuralnetworksModel \<Rightarrow> (call list \<Rightarrow> call \<Rightarrow> u32) \<Rightarrow> call list \<Rightarrow> sys" where
  "Model_new model env history =
     (let s = \<lparr>mNodeCount = 0, mGraphId = 0, mCompiled = False, mOperands = [],
               mOperations = [], mInputs = [], mOutputs = [], mPools = [],
               respond = env, calls = history\<rparr>;
          (graph, s) = Controller_call Init s;
          s = s\<lparr>mGraphId := graph\<rparr>;
          s = snd (Controller_call (Set_debug_level (mGraphId s) 99) s);
          s = s\<lparr>mPools := mapPools (pools model)\<rparr>;
          s = s\<lparr>mOperands := getOperandsInfo model (mPools s)\<rparr>
      in s\<lparr>mOperations := operations model, mInputs := inputIndexes model,
            mOutputs := outputIndexes model\<rparr>)"

text \<open>
  \<open>Model::operator=(Model&&)\<close> gives the pair (\<open>*this\<close>, \<open>other\<close>) after the
  assignment; the move constructor is the same assignment. A vector that was moved from
  is left empty. Neither calls the accelerator.
\<close>

definition Model_move_assign :: "Model \<Rightarrow> Model \<Rightarrow> Model \<times> Model" where
  "Model_move_assign this other =
     (this\<lparr>mNodeCount := mNodeCount other, mGraphId := mGraphId other,
            mCompiled := mCompiled other, mOperands := mOperands other,
            mOperations := mOperations other, mInputs := mInputs other,
            mOutputs := mOutputs other, mPools := mPools other\<rparr>,
      other\<lparr>mOperands := [], mOperations := [], mInputs := [], mOutputs := [], mPools := [],
             mGraphId := 0, mCompiled := False\<rparr>)"

text \<open>A \<open>Model\<close> object seen with the accelerator it runs against.\<close>

definition with_accelerator :: "Model \<Rightarrow> (call list \<Rightarrow> call \<Rightarrow> u32) \<Rightarrow> call list \<Rightarrow> sys" where
  "with_accelerator m env history =
     \<lparr>mNodeCount = mNodeCount m, mGraphId = mGraphId m, mCompiled = mCompiled m,
      mOperands = mOperands m, mOperations = mOperations m, mInputs = mInputs m,
      mOutputs = mOutputs m, mPools = mPools m, respond = env, calls = history\<rparr>"

text \<open>\<open>Model::~Model\<close>: what is left is the accelerator's history.\<close>

definition Model_delete :: "sys \<Rightarrow> call list" where
  "Model_delete s =
     (if mGraphId s \<noteq> 0 then calls (snd (Controller_call (Teardown (mGraphId s)) s))
      else calls s)"

section \<open>PreparedModel and Device\<close>

datatype ErrorStatus =
  NONE | DEVICE_UNAVAILABLE | GENERAL_FAILURE | OUTPUT_INSUFFICIENT_SIZE | INVALID_ARGUMENT

text \<open>
  \<open>PreparedModel::asyncExecute\<close> on the prepared model's \<open>mHexagonModel\<close>: the status it
  hands to the callback. \<open>Device::prepareModel\<close> builds the \<open>Model\<close>, calls \<open>compile\<close>
  without reading its result and moves the \<open>Model\<close> into the \<open>PreparedModel\<close>.
\<close>

definition asyncExecute :: "Request \<Rightarrow> sys \<Rightarrow> ErrorStatus \<times> sys" where
  "asyncExecute request s =
     (let (ok, s) = execute request s
      in (if ok then NONE else GENERAL_FAILURE, s))"

definition prepareModel ::
  "nnlib \<Rightarrow> NeuralnetworksModel \<Rightarrow> (call list \<Rightarrow> call \<Rightarrow> u32) \<Rightarrow> call list \<Rightarrow> sys" where
  "prepareModel nn model env history = snd (compile nn (Model_new model env history))"

section \<open>Vocabulary of the verification\<close>

text \<open>
  \<open>frame\<close> collects what building and running a graph never change: the graph id (only
  \<open>resetModel\<close> replaces it), the compiled flag, the operation list, the input and
  output indexes, the pools and the accelerator's behaviour.
\<close>

definition frame ::
  "sys \<Rightarrow> u32 \<times> bool \<times> Operation list \<times> nat list \<times> nat list \<times> u8 list list
         \<times> (call list \<Rightarrow> call \<Rightarrow> u32)" where
  "frame s =
     (mGraphId s, mCompiled s, mOperations s, mInputs s, mOutputs s, mPools s, respond s)"

text \<open>A model with the dimensions of its operands blanked: what the check functions keep.\<close>

definition forget_dimensions :: "'a Model_scheme \<Rightarrow> 'a Model_scheme" where
  "forget_dimensions m =
     m\<lparr>mOperands := map (\<lambda>operand. operand\<lparr>dimensions := []\<rparr>) (mOperands m)\<rparr>"

text \<open>Every \<open>append_node\<close> call of the history was answered with zero.\<close>

definition accepted :: "sys \<Rightarrow> bool" where
  "accepted s =
     list_all (\<lambda>k. case calls s ! k of
                       Append_node g n op pad ins outs \<Rightarrow>
                         respond s (take k (calls s)) (calls s ! k) = 0
                     | _ \<Rightarrow> True) [0 ..< length (calls s)]"


text \<open>
  The states of a \<open>Model\<close> object: it is constructed or move-constructed, it is moved
  from, and then any of its member functions runs, in any order and on any arguments,
  while other clients of the \<open>Controller\<close> singleton may make calls in between.
\<close>

inductive reachable :: "nnlib \<Rightarrow> sys \<Rightarrow> bool" for nn :: nnlib where
  constructed: "reachable nn (Model_new model env history)"
| moved_to:
    "reachable nn other \<Longrightarrow>
     reachable nn (with_accelerator (fst (Model_move_assign this (Model.truncate other)))
                     (respond other) (calls other))"
| moved_from:
    "reachable nn other \<Longrightarrow>
     reachable nn (with_accelerator (snd (Model_move_assign this (Model.truncate other)))
                     (respond other) (calls other))"
| others_call: "reachable nn s \<Longrightarrow> reachable nn (s\<lparr>calls := calls s @ cs\<rparr>)"
| does_compile: "reachable nn s \<Longrightarrow> reachable nn (snd (compile nn s))"
| does_execute: "reachable nn s \<Longrightarrow> reachable nn (snd (execute request s))"
| does_supportedOperations: "reachable nn s \<Longrightarrow> reachable nn (snd (supportedOperations nn s))"
| does_resetModel: "reachable nn s \<Longrightarrow> reachable nn (resetModel s)"
| does_verifyOperations: "reachable nn s \<Longrightarrow> reachable nn (snd (verifyOperations nn s))"
| does_addInputs: "reachable nn s \<Longrightarrow> reachable nn (snd (addInputs s))"
| does_addOperations: "reachable nn s \<Longrightarrow> reachable nn (snd (addOperations nn s))"
| does_addOutputs: "reachable nn s \<Longrightarrow> reachable nn (snd (addOutputs s))"
| does_getLog: "reachable nn s \<Longrightarrow> reachable nn (getLog s)"
| does_getDebugLog: "reachable nn s \<Longrightarrow> reachable nn (getDebugLog s)"
| does_setShape: "reachable nn s \<Longrightarrow> reachable nn (snd (setShape operand shape s))"
| does_getTensor: "reachable nn s \<Longrightarrow> reachable nn (snd (getTensor operand s))"
| does_getQuantizationMin:
    "reachable nn s \<Longrightarrow> reachable nn (snd (getQuantizationMin operand s))"
| does_getQuantizationMax:
    "reachable nn s \<Longrightarrow> reachable nn (snd (getQuantizationMax operand s))"
| does_createQuantizationValue:
    "reachable nn s \<Longrightarrow> reachable nn (snd (createQuantizationValue operand v s))"
| does_createTensorInternal:
    "reachable nn s \<Longrightarrow> reachable nn (snd (createTensorInternal B H W D ptr n s))"
| does_createConvFilterTensor:
    "reachable nn s \<Longrightarrow> reachable nn (snd (createConvFilterTensor operand s))"
| does_createDepthwiseFilterTensor:
    "reachable nn s \<Longrightarrow> reachable nn (snd (createDepthwiseFilterTensor operand v s))"
| does_createFullyConnectedWeightTensor:
    "reachable nn s \<Longrightarrow> reachable nn (snd (createFullyConnectedWeightTensor operand s))"
| does_addBasicOperation:
    "reachable nn s \<Longrightarrow> reachable nn (snd (addBasicOperation op pad ins outs s))"
| does_addFloatOperationWithActivation:
    "reachable nn s \<Longrightarrow>
     reachable nn (snd (addFloatOperationWithActivation op pad act ins outs s))"
| does_addQuant8OperationWithActivation:
    "reachable nn s \<Longrightarrow>
     reachable nn (snd (addQuant8OperationWithActivation op pad act ins outs s))"
| does_addFusedFloatOperation:
    "reachable nn s \<Longrightarrow>
     reachable nn (snd (addFusedFloatOperation op pad bias act ins outs s))"
| does_addFusedQuant8Operation:
    "reachable nn s \<Longrightarrow>
     reachable nn (snd (addFusedQuant8Operation op pad bias act ins outs s))"

subsection \<open>Concrete inputs\<close>

text \<open>
  An instance of the library parameter for the concrete examples. \<open>SetShape\<close>,
  \<open>genericActivationPrepare\<close> and \<open>addMulPrepare\<close> are as OperationsUtils.cpp of the
  NN API 1.0 framework has them: an activation takes at most four dimensions and its
  output gets the input's dimensions when type and rank agree; an addition needs equal
  types and shapes that are equal or broadcast (on each axis, counted from the last, the
  sizes are equal or one of them is 1). The validators that no example reaches reject.
\<close>

definition SetShape :: "Shape \<Rightarrow> Shape \<Rightarrow> Shape option" where
  "SetShape in' out =
     (if shape_type in' \<noteq> shape_type out
         \<or> length (shape_dimensions in') \<noteq> length (shape_dimensions out)
      then None else Some (out\<lparr>shape_dimensions := shape_dimensions in'\<rparr>))"

definition nn_genericActivationPrepare :: "Shape \<Rightarrow> Shape \<Rightarrow> Shape option" where
  "nn_genericActivationPrepare input out =
     (if \<not> length (shape_dimensions input) \<le> 4 then None else SetShape input out)"

definition nn_addMulPrepare :: "Shape \<Rightarrow> Shape \<Rightarrow> Shape \<Rightarrow> Shape option" where
  "nn_addMulPrepare in1 in2 out =
     (let d1 = shape_dimensions in1; d2 = shape_dimensions in2
      in if \<not> (length d1 \<le> 4 \<and> length d2 \<le> 4) then None
         else if shape_type in1 \<noteq> shape_type in2 then None
         else if d1 = d2 then SetShape in1 out
         else
           (let maxDims = max (length d1) (length d2);
                p1 = replicate (maxDims - length d1) 1 @ d1;
                p2 = replicate (maxDims - length d2) 1 @ d2
            in if list_ex (\<lambda>(dim1, dim2). dim1 \<noteq> dim2 \<and> dim1 \<noteq> 1 \<and> dim2 \<noteq> 1) (zip p1 p2)
               then None
               else Some (out\<lparr>shape_dimensions := map (\<lambda>(dim1, dim2). max dim1 dim2) (zip p1 p2)\<rparr>)))"

definition nn_example :: nnlib where
  "nn_example =
     \<lparr>kPaddingSame = 1, kPaddingValid = 2,
      getPaddingScheme = (\<lambda>fw fh pl pr pt pb. 0),
      calculateExplicitPadding = (\<lambda>in_size stride_size filter_size scheme. (0, 0)),
      getNumberOfElements = (\<lambda>shape. fold (\<lambda>dim acc. acc * dim) (shape_dimensions shape) 1),
      addMulPrepare = nn_addMulPrepare,
      genericPoolingPrepare = (\<lambda>i pl pr pt pb sw sh fw fh out. None),
      concatenationPrepare = (\<lambda>is axis out. None),
      convPrepare = (\<lambda>i f b pl pr pt pb sw sh out. None),
      depthwiseConvPrepare = (\<lambda>i f b pl pr pt pb sw sh out. None),
      dequantizePrepare = (\<lambda>i out. None),
      fullyConnectedPrepare = (\<lambda>i w b out. None),
      genericNormalizationPrepare = (\<lambda>i out. None),
      genericActivationPrepare = nn_genericActivationPrepare,
      reshapePrepare = (\<lambda>i p n out. None),
      resizeBilinearPrepare = (\<lambda>i w h out. None)\<rparr>"

text \<open>An accelerator that accepts every call and names every new graph 1.\<close>

definition accepting :: "call list \<Rightarrow> call \<Rightarrow> u32" where
  "accepting history c = (if c = Init then 1 else 0)"

text \<open>An operand of the model description with nothing stored for it.\<close>

definition tensor :: "OperandType \<Rightarrow> u32 list \<Rightarrow> OperandLifeTime \<Rightarrow> Operand" where
  "tensor t dims life =
     \<lparr>operand_type = t, operand_dimensions = dims, operand_scale = 0, operand_zeroPoint = 0,
      operand_lifetime = life, location_poolIndex = 0, location_offset = 0,
      location_length = 0\<rparr>"


text \<open>
  An addition that reads operand 0 listed before the \<open>RELU\<close> that writes operand 0, whose
  declared size differs from the size the \<open>RELU\<close> gives it.
\<close>

definition out_of_order_model :: NeuralnetworksModel where
  "out_of_order_model =
     \<lparr>operands = [tensor TENSOR_FLOAT32 [2] TEMPORARY_VARIABLE,
                  tensor TENSOR_FLOAT32 [2] MODEL_OUTPUT,
                  tensor TENSOR_FLOAT32 [3] MODEL_INPUT,
                  tensor TENSOR_FLOAT32 [2] MODEL_INPUT,
                  tensor INT32 [] CONSTANT_COPY],
      operations = [\<lparr>operation_type = ADD, inputs = [0, 3, 4], outputs = [1]\<rparr>,
                    \<lparr>operation_type = RELU, inputs = [2], outputs = [0]\<rparr>],
      inputIndexes = [2, 3], outputIndexes = [1], operandValues = [0, 0, 0, 0], pools = []\<rparr>"

text \<open>No operation: the one operand is the input and the output.\<close>

definition identity_model :: NeuralnetworksModel where
  "identity_model =
     \<lparr>operands = [tensor TENSOR_FLOAT32 [1] MODEL_INPUT],
      operations = [], inputIndexes = [0], outputIndexes = [0], operandValues = [],
      pools = []\<rparr>"

text \<open>No operation, and an output that nothing produces.\<close>

definition dangling_output_model :: NeuralnetworksModel where
  "dangling_output_model =
     \<lparr>operands = [tensor TENSOR_FLOAT32 [1] MODEL_INPUT, tensor TENSOR_FLOAT32 [1] MODEL_OUTPUT],
      operations = [], inputIndexes = [0], outputIndexes = [1], operandValues = [],
      pools = []\<rparr>"

text \<open>An operand with a dimension that is not known yet.\<close>

definition unknown_dimension_model :: NeuralnetworksModel where
  "unknown_dimension_model =
     \<lparr>operands = [tensor TENSOR_FLOAT32 [0] MODEL_INPUT],
      operations = [], inputIndexes = [0], outputIndexes = [0], operandValues = [],
      pools = []\<rparr>"


text \<open>An accelerator that names every new graph 1 and fails \<open>prepare\<close> of graph 1.\<close>

definition refusing_prepare :: "call list \<Rightarrow> call \<Rightarrow> u32" where
  "refusing_prepare history c = (if c = Init \<or> c = Prepare 1 then 1 else 0)"


text \<open>
  An accelerator that names every new graph 1 and refuses the constant nodes that are
  given by an operand's own buffer, as a bias is.
\<close>

definition refusing_buffers :: "call list \<Rightarrow> call \<Rightarrow> u32" where
  "refusing_buffers history c =
     (case c of Init \<Rightarrow> 1
      | Append_const_node g n B H W D (Buffer b) size' \<Rightarrow> 1
      | _ \<Rightarrow> 0)"

text \<open>A constant operand of the model description, stored at the start of the values.\<close>

definition stored :: "OperandType \<Rightarrow> u32 list \<Rightarrow> Operand" where
  "stored t dims =
     \<lparr>operand_type = t, operand_dimensions = dims, operand_scale = 0, operand_zeroPoint = 0,
      operand_lifetime = CONSTANT_COPY, location_poolIndex = 0, location_offset = 0,
      location_length = 4\<rparr>"

text \<open>
  One \<open>CONV_2D\<close> with a 1x1 filter, a bias, explicit paddings 1, strides 1 and a fused
  \<open>RELU\<close> (the scalars all read the word 1).
\<close>

definition conv_model :: NeuralnetworksModel where
  "conv_model =
     \<lparr>operands = [tensor TENSOR_FLOAT32 [1, 1, 1, 1] MODEL_INPUT,
                  stored TENSOR_FLOAT32 [1, 1, 1, 1], stored TENSOR_FLOAT32 [1],
                  stored INT32 [], stored INT32 [], stored INT32 [], stored INT32 [],
                  stored INT32 [], stored INT32 [], stored INT32 [],
                  tensor TENSOR_FLOAT32 [1, 1, 1, 1] MODEL_OUTPUT],
      operations = [\<lparr>operation_type = CONV_2D, inputs = [0, 1, 2, 3, 4, 5, 6, 7, 8, 9],
                      outputs = [10]\<rparr>],
      inputIndexes = [0], outputIndexes = [10], operandValues = [1, 0, 0, 0], pools = []\<rparr>"

text \<open>The convolution model after \<open>addInputs\<close>, on the accelerator that refuses buffers.\<close>

definition conv_state :: sys where
  "conv_state = snd (addInputs (Model_new conv_model refusing_buffers []))"

text \<open>The output descriptions that are stored with the operands.\<close>

definition output_handles :: "'a Model_scheme \<Rightarrow> hexagon_nn_output list" where
  "output_handles m = map hexagon_output (mOperands m)"

text \<open>One \<open>RELU\<close> from a quantized input to a quantized output.\<close>

definition quantized_relu_model :: NeuralnetworksModel where
  "quantized_relu_model =
     \<lparr>operands = [(tensor TENSOR_QUANT8_ASYMM [1] MODEL_INPUT)
                    \<lparr>operand_scale := 1 / 2, operand_zeroPoint := 128\<rparr>,
                  (tensor TENSOR_QUANT8_ASYMM [1] MODEL_OUTPUT)
                    \<lparr>operand_scale := 1 / 2, operand_zeroPoint := 128\<rparr>],
      operations = [\<lparr>operation_type = RELU, inputs = [0], outputs = [1]\<rparr>],
      inputIndexes = [0], outputIndexes = [1], operandValues = [], pools = []\<rparr>"

text \<open>
  An accelerator that numbers its graphs 1, 2, ... and refuses the quantized relu node on
  graph 1 only.
\<close>

definition recovering :: "call list \<Rightarrow> call \<Rightarrow> u32" where
  "recovering history c =
     (case c of
        Init \<Rightarrow> 1 + of_nat (count_list history Init)
      | Append_node g n op pad ins outs \<Rightarrow> (if g = 1 \<and> op = OP_QuantizedRelu_8 then 1 else 0)
      | _ \<Rightarrow> 0)"

text \<open>
  The states of the quantized relu model on that accelerator: the node counter, the graph
  id, the three handles of the input operand and of the output operand, and the history.
\<close>

definition quantized_relu_state ::
  "u32 \<Rightarrow> u32 \<Rightarrow> hexagon_nn_input \<Rightarrow> hexagon_nn_input \<Rightarrow> hexagon_nn_input
   \<Rightarrow> hexagon_nn_input \<Rightarrow> hexagon_nn_input \<Rightarrow> hexagon_nn_input \<Rightarrow> call list \<Rightarrow> sys" where
  "quantized_relu_state n g h0 lo0 hi0 h1 lo1 hi1 cs =
     \<lparr>mNodeCount = n, mGraphId = g, mCompiled = False,
      mOperands = [\<lparr>type = TENSOR_QUANT8_ASYMM, dimensions = [1], scale = 1 / 2,
                    zeroPoint = 128, lifetime = MODEL_INPUT, buffer = None, length_bytes = 0,
                    hexagon_input = h0, hexagon_input_min = lo0,
                    hexagon_input_max = hi0, hexagon_output = no_output\<rparr>,
                   \<lparr>type = TENSOR_QUANT8_ASYMM, dimensions = [1], scale = 1 / 2,
                    zeroPoint = 128, lifetime = MODEL_OUTPUT, buffer = None, length_bytes = 0,
                    hexagon_input = h1, hexagon_input_min = lo1,
                    hexagon_input_max = hi1, hexagon_output = no_output\<rparr>],
      mOperations = [\<lparr>operation_type = RELU, inputs = [0], outputs = [1]\<rparr>],
      mInputs = [0], mOutputs = [1], mPools = [],
      respond = recovering, calls = cs\<rparr>"







section \<open>What the member functions leave unchanged\<close>

lemma frame_update [simp]:
  "frame (s\<lparr>mOperands := x\<rparr>) = frame s"
  "frame (s\<lparr>mNodeCount := n\<rparr>) = frame s"
  "frame (s\<lparr>calls := c\<rparr>) = frame s"
  by (simp_all add: frame_def)

lemma frame_forget_dimensions [simp]: "frame (forget_dimensions s) = frame s"
  by (simp add: forget_dimensions_def)

lemma forget_dimensions_setShape [simp]:
  "forget_dimensions (snd (setShape i sh m)) = forget_dimensions m"
proof -
  have "map (\<lambda>operand. operand\<lparr>dimensions := []\<rparr>) ((mOperands m)[i := (mOperands m ! i)\<lparr>dimensions := d\<rparr>])
        = map (\<lambda>operand. operand\<lparr>dimensions := []\<rparr>) (mOperands m)" for d
    by (cases "i < length (mOperands m)") (simp_all add: map_update list_update_same_conv list_update_beyond)
  then show ?thesis
    by (simp add: setShape_def forget_dimensions_def)
qed

lemma forget_dimensions_check_addMul [simp]:
  "forget_dimensions (snd (check_addMul nn ins outs m op)) = forget_dimensions m"
  by (simp add: check_addMul_def Let_def split: option.split)

lemma forget_dimensions_check_pool [simp]:
  "forget_dimensions (snd (check_pool nn ins outs m op)) = forget_dimensions m"
  by (simp add: check_pool_def Let_def split_beta split: option.split)

lemma forget_dimensions_check_concatenation [simp]:
  "forget_dimensions (snd (check_concatenation nn ins outs m)) = forget_dimensions m"
  by (simp add: check_concatenation_def Let_def split: option.split)

lemma forget_dimensions_check_conv_2d [simp]:
  "forget_dimensions (snd (check_conv_2d nn ins outs m)) = forget_dimensions m"
  by (simp add: check_conv_2d_def Let_def split_beta split: option.split)

lemma forget_dimensions_check_depthwise_conv_2d [simp]:
  "forget_dimensions (snd (check_depthwise_conv_2d nn ins outs m)) = forget_dimensions m"
  by (simp add: check_depthwise_conv_2d_def Let_def split_beta split: option.split)

lemma forget_dimensions_check_dequantize [simp]:
  "forget_dimensions (snd (check_dequantize nn ins outs m)) = forget_dimensions m"
  by (simp add: check_dequantize_def Let_def split: option.split)

lemma forget_dimensions_check_fully_connected [simp]:
  "forget_dimensions (snd (check_fully_connected nn ins outs m)) = forget_dimensions m"
  by (simp add: check_fully_connected_def Let_def split_beta split: option.split)

lemma forget_dimensions_check_local_response_normalization [simp]:
  "forget_dimensions (snd (check_local_response_normalization nn ins outs m)) = forget_dimensions m"
  by (simp add: check_local_response_normalization_def Let_def split: option.split)

lemma forget_dimensions_check_activation [simp]:
  "forget_dimensions (snd (check_activation nn ins outs m n op)) = forget_dimensions m"
  by (simp add: check_activation_def Let_def split: option.split)

lemma forget_dimensions_check_reshape [simp]:
  "forget_dimensions (snd (check_reshape nn ins outs m)) = forget_dimensions m"
  by (simp add: check_reshape_def Let_def split: option.split)

lemma forget_dimensions_check_resize_bilinear [simp]:
  "forget_dimensions (snd (check_resize_bilinear nn ins outs m)) = forget_dimensions m"
  by (simp add: check_resize_bilinear_def Let_def split: option.split)

lemma forget_dimensions_check_table:
  "getOperationCheckTable nn t = Some entry \<Longrightarrow>
   forget_dimensions (snd (entry ins outs m)) = forget_dimensions m"
  by (auto simp: getOperationCheckTable_def check_add_def check_mul_def
        check_average_pool_2d_def check_l2_pool_2d_def check_max_pool_2d_def
        check_logistic_def check_relu_def check_relu1_def check_relu6_def check_softmax_def
        check_tanh_def split: if_splits)

lemma forget_dimensions_supportedOperations_loop [simp]:
  "forget_dimensions (snd (supportedOperations_loop nn ops m)) = forget_dimensions m"
  by (induction ops arbitrary: m)
     (simp_all add: Let_def split_beta forget_dimensions_check_table split: option.split)

lemma forget_dimensions_supportedOperations [simp]:
  "forget_dimensions (snd (supportedOperations nn m)) = forget_dimensions m"
  by (simp add: supportedOperations_def)

lemma length_supportedOperations_loop [simp]:
  "length (fst (supportedOperations_loop nn ops m)) = length ops"
  by (induction ops arbitrary: m) (simp_all add: Let_def split_beta)


lemma frame_Controller_call [simp]: "frame (snd (Controller_call c s)) = frame s"
  by (simp add: Controller_call_def)

lemma frame_getNextNode [simp]: "frame (snd (getNextNode s)) = frame s"
  by (simp add: getNextNode_def)

lemma mGraphId_getNextNode [simp]: "mGraphId (snd (getNextNode s)) = mGraphId s"
  by (simp add: getNextNode_def)

lemma frame_setShape [simp]: "frame (snd (setShape i sh s)) = frame s"
  by (simp add: setShape_def)

lemma frame_createTensorInternal [simp]:
  "frame (snd (createTensorInternal B H W D p n s)) = frame s"
  by (simp add: createTensorInternal_def Let_def split_beta)

lemma frame_create [simp]:
  "frame (snd (createShape B H W D s)) = frame s"
  "frame (snd (createTensor_float B H W D v s)) = frame s"
  "frame (snd (createValues_float v s)) = frame s"
  "frame (snd (createValues_int32 w s)) = frame s"
  "frame (snd (createScalar_float x s)) = frame s"
  "frame (snd (createScalar_int32 y s)) = frame s"
  by (simp_all add: createShape_def createTensor_float_def createValues_float_def
        createValues_int32_def createScalar_float_def createScalar_int32_def)

lemma frame_addOperand [simp]: "frame (snd (addOperand i s)) = frame s"
  by (simp add: addOperand_def Let_def)

lemma frame_getTensor [simp]: "frame (snd (getTensor i s)) = frame s"
  by (simp add: getTensor_def Let_def split_beta)

lemma frame_getQuantizationMin [simp]: "frame (snd (getQuantizationMin i s)) = frame s"
  by (simp add: getQuantizationMin_def Let_def split_beta)

lemma frame_getQuantizationMax [simp]: "frame (snd (getQuantizationMax i s)) = frame s"
  by (simp add: getQuantizationMax_def Let_def split_beta)

lemma frame_createQuantizationValue [simp]:
  "frame (snd (createQuantizationValue i v s)) = frame s"
  by (simp add: createQuantizationValue_def Let_def)

lemma frame_createFilter [simp]:
  "frame (snd (createConvFilterTensor i s)) = frame s"
  "frame (snd (createDepthwiseFilterTensor i dm s)) = frame s"
  "frame (snd (createFullyConnectedWeightTensor i s)) = frame s"
  by (simp_all add: createConvFilterTensor_def createDepthwiseFilterTensor_def
        createFullyConnectedWeightTensor_def Let_def)

lemma frame_addOperationInternal [simp]:
  "frame (snd (addOperationInternal op pad ins outs s)) = frame s"
  by (simp add: addOperationInternal_def Let_def split_beta)

lemma frame_registerHexagonInputs_from [simp]:
  "frame (snd (registerHexagonInputs_from idx xs node s)) = frame s"
  by (induction idx xs node s rule: registerHexagonInputs_from.induct) (simp_all add: Let_def)

lemma frame_registerHexagonInputs [simp]:
  "frame (snd (registerHexagonInputs xs node s)) = frame s"
  by (simp add: registerHexagonInputs_def)

lemma frame_addBasicOperation [simp]:
  "frame (snd (addBasicOperation op pad ins outs s)) = frame s"
  by (simp add: addBasicOperation_def Let_def split_beta)

lemma frame_setupActivationArgs [simp]: "frame (snd (setupActivationArgs op s)) = frame s"
  by (simp add: setupActivationArgs_def Let_def split_beta)

lemma frame_addFloatOperationWithActivation [simp]:
  "frame (snd (addFloatOperationWithActivation op pad act ins outs s)) = frame s"
  by (simp add: addFloatOperationWithActivation_def Let_def split_beta)

lemma frame_addQuant8OperationWithActivation [simp]:
  "frame (snd (addQuant8OperationWithActivation op pad act ins outs s)) = frame s"
  by (simp add: addQuant8OperationWithActivation_def Let_def split_beta)

lemma frame_addFusedFloatOperation [simp]:
  "frame (snd (addFusedFloatOperation op pad bias act ins outs s)) = frame s"
  by (simp add: addFusedFloatOperation_def Let_def split_beta)

lemma frame_addFusedQuant8Operation [simp]:
  "frame (snd (addFusedQuant8Operation op pad bias act ins outs s)) = frame s"
  by (simp add: addFusedQuant8Operation_def Let_def split_beta)

lemma frame_getTensors [simp]: "frame (snd (getTensors xs s)) = frame s"
  by (induction xs arbitrary: s) (simp_all add: Let_def split_beta)

lemma frame_getQuantizedTensors [simp]: "frame (snd (getQuantizedTensors xs s)) = frame s"
  by (induction xs arbitrary: s) (simp_all add: Let_def split_beta)

lemma frame_float32_add [simp]: "frame (snd (float32_add ins outs s)) = frame s"
  by (simp add: float32_add_def Let_def split_beta)

lemma frame_float32_average_pool_2d [simp]: "frame (snd (float32_average_pool_2d nn ins outs s)) = frame s"
  by (simp add: float32_average_pool_2d_def Let_def split_beta)

lemma frame_float32_concatenation [simp]: "frame (snd (float32_concatenation ins outs s)) = frame s"
  by (simp add: float32_concatenation_def Let_def split_beta)

lemma frame_float32_conv_2d [simp]: "frame (snd (float32_conv_2d nn ins outs s)) = frame s"
  by (simp add: float32_conv_2d_def Let_def split_beta)

lemma frame_float32_depthwise_conv_2d [simp]: "frame (snd (float32_depthwise_conv_2d nn ins outs s)) = frame s"
  by (simp add: float32_depthwise_conv_2d_def Let_def split_beta)

lemma frame_float32_fully_connected [simp]: "frame (snd (float32_fully_connected ins outs s)) = frame s"
  by (simp add: float32_fully_connected_def Let_def split_beta)

lemma frame_float32_l2_pool_2d [simp]: "frame (snd (float32_l2_pool_2d nn ins outs s)) = frame s"
  by (simp add: float32_l2_pool_2d_def Let_def split_beta)

lemma frame_float32_local_response_normalization [simp]: "frame (snd (float32_local_response_normalization ins outs s)) = frame s"
  by (simp add: float32_local_response_normalization_def Let_def split_beta)

lemma frame_float32_logistic [simp]: "frame (snd (float32_logistic ins outs s)) = frame s"
  by (simp add: float32_logistic_def Let_def split_beta)

lemma frame_float32_max_pool_2d [simp]: "frame (snd (float32_max_pool_2d nn ins outs s)) = frame s"
  by (simp add: float32_max_pool_2d_def Let_def split_beta)

lemma frame_float32_mul [simp]: "frame (snd (float32_mul ins outs s)) = frame s"
  by (simp add: float32_mul_def Let_def split_beta)

lemma frame_float32_relu [simp]: "frame (snd (float32_relu ins outs s)) = frame s"
  by (simp add: float32_relu_def Let_def split_beta)

lemma frame_float32_relu1 [simp]: "frame (snd (float32_relu1 ins outs s)) = frame s"
  by (simp add: float32_relu1_def Let_def split_beta)

lemma frame_float32_relu6 [simp]: "frame (snd (float32_relu6 ins outs s)) = frame s"
  by (simp add: float32_relu6_def Let_def split_beta)

lemma frame_float32_reshape [simp]: "frame (snd (float32_reshape ins outs s)) = frame s"
  by (simp add: float32_reshape_def Let_def split_beta)

lemma frame_float32_resize_bilinear [simp]: "frame (snd (float32_resize_bilinear ins outs s)) = frame s"
  by (simp add: float32_resize_bilinear_def Let_def split_beta)

lemma frame_float32_softmax [simp]: "frame (snd (float32_softmax ins outs s)) = frame s"
  by (simp add: float32_softmax_def Let_def split_beta)

lemma frame_float32_tanh [simp]: "frame (snd (float32_tanh ins outs s)) = frame s"
  by (simp add: float32_tanh_def Let_def split_beta)

lemma frame_quant8_asym_add [simp]: "frame (snd (quant8_asym_add ins outs s)) = frame s"
  by (simp add: quant8_asym_add_def Let_def split_beta)

lemma frame_quant8_asym_average_pool_2d [simp]: "frame (snd (quant8_asym_average_pool_2d nn ins outs s)) = frame s"
  by (simp add: quant8_asym_average_pool_2d_def Let_def split_beta)

lemma frame_quant8_asym_concatenation [simp]: "frame (snd (quant8_asym_concatenation ins outs s)) = frame s"
  by (simp add: quant8_asym_concatenation_def Let_def split_beta)

lemma frame_quant8_asym_conv_2d [simp]: "frame (snd (quant8_asym_conv_2d nn ins outs s)) = frame s"
  by (simp add: quant8_asym_conv_2d_def Let_def split_beta)

lemma frame_quant8_asym_depthwise_conv_2d [simp]: "frame (snd (quant8_asym_depthwise_conv_2d nn ins outs s)) = frame s"
  by (simp add: quant8_asym_depthwise_conv_2d_def Let_def split_beta)

lemma frame_quant8_asym_dequantize [simp]: "frame (snd (quant8_asym_dequantize ins outs s)) = frame s"
  by (simp add: quant8_asym_dequantize_def Let_def split_beta)

lemma frame_quant8_asym_fully_connected [simp]: "frame (snd (quant8_asym_fully_connected ins outs s)) = frame s"
  by (simp add: quant8_asym_fully_connected_def Let_def split_beta)

lemma frame_quant8_asym_logistic [simp]: "frame (snd (quant8_asym_logistic ins outs s)) = frame s"
  by (simp add: quant8_asym_logistic_def Let_def split_beta)

lemma frame_quant8_asym_max_pool_2d [simp]: "frame (snd (quant8_asym_max_pool_2d nn ins outs s)) = frame s"
  by (simp add: quant8_asym_max_pool_2d_def Let_def split_beta)

lemma frame_quant8_asym_mul [simp]: "frame (snd (quant8_asym_mul ins outs s)) = frame s"
  by (simp add: quant8_asym_mul_def Let_def split_beta)

lemma frame_quant8_asym_relu [simp]: "frame (snd (quant8_asym_relu ins outs s)) = frame s"
  by (simp add: quant8_asym_relu_def Let_def split_beta)

lemma frame_quant8_asym_relu1 [simp]: "frame (snd (quant8_asym_relu1 ins outs s)) = frame s"
  by (simp add: quant8_asym_relu1_def Let_def split_beta)

lemma frame_quant8_asym_relu6 [simp]: "frame (snd (quant8_asym_relu6 ins outs s)) = frame s"
  by (simp add: quant8_asym_relu6_def Let_def split_beta)

lemma frame_quant8_asym_reshape [simp]: "frame (snd (quant8_asym_reshape ins outs s)) = frame s"
  by (simp add: quant8_asym_reshape_def Let_def split_beta)

lemma frame_quant8_asym_softmax [simp]: "frame (snd (quant8_asym_softmax ins outs s)) = frame s"
  by (simp add: quant8_asym_softmax_def Let_def split_beta)

lemma frame_prepare_table:
  "getOperationPrepareTable nn key = Some prepare \<Longrightarrow> frame (snd (prepare ins outs s)) = frame s"
  by (auto simp: getOperationPrepareTable_def split: if_splits)

lemma frame_addOperations_loop [simp]:
  "frame (snd (addOperations_loop nn ops s)) = frame s"
  by (induction ops arbitrary: s)
     (simp_all add: Let_def split_beta frame_prepare_table split: option.split)

lemma frame_addOperations [simp]: "frame (snd (addOperations nn s)) = frame s"
  by (simp add: addOperations_def)

lemma frame_addInputs_update [simp]: "frame (addInputs_update i xs node s) = frame s"
  by (induction i xs node s rule: addInputs_update.induct) simp_all

lemma frame_addInputs [simp]: "frame (snd (addInputs s)) = frame s"
  by (simp add: addInputs_def Let_def split_beta)

lemma frame_addOutputs [simp]: "frame (snd (addOutputs s)) = frame s"
  by (simp add: addOutputs_def Let_def split_beta)

lemma frame_supportedOperations [simp]: "frame (snd (supportedOperations nn s)) = frame s"
proof -
  have "frame (forget_dimensions (snd (supportedOperations nn s))) = frame (forget_dimensions s)"
    by (simp only: forget_dimensions_supportedOperations)
  then show ?thesis by (simp only: frame_forget_dimensions)
qed

lemma frame_verifyOperations [simp]: "frame (snd (verifyOperations nn s)) = frame s"
  by (simp add: verifyOperations_def split_beta)

lemma frame_getLog [simp]: "frame (getLog s) = frame s" "frame (getDebugLog s) = frame s"
  by (simp_all add: getLog_def getDebugLog_def)

lemma frame_bindArguments [simp]: "frame (snd (bindArguments args idx i ps s)) = frame s"
  by (induction args idx i ps s rule: bindArguments.induct) (simp_all add: Let_def split_beta)

lemma frame_execute [simp]: "frame (snd (execute request s)) = frame s"
  by (simp add: execute_def Let_def split_beta)


section \<open>Constant nodes\<close>

lemma calls_createValues_float:
  "calls (snd (createValues_float vs s)) =
     calls s @ [Append_const_node (mGraphId s) (mNodeCount s + 1) 1 1 1 (of_nat (length vs))
                  (Floats vs) (of_nat (length vs) * 4)]"
  by (simp add: createValues_float_def createTensor_float_def createTensorInternal_def
        getNextNode_def Controller_call_def Let_def)

lemma count_createValues_float:
  "mNodeCount (snd (createValues_float vs s)) = mNodeCount s + 1"
  "mGraphId (snd (createValues_float vs s)) = mGraphId s"
  by (simp_all add: createValues_float_def createTensor_float_def createTensorInternal_def
        getNextNode_def Controller_call_def Let_def)

section \<open>Fused activations\<close>

text \<open>
  C4 (the code departs from the claim). The selectors \<open>NONE\<close> and \<open>RELU\<close> are lowered
  to the no-op and to the plain relu node. The other two are crossed, in the float and in
  the quantized variant alike: \<open>RELU1\<close> gives the bounded-relu opcode, whose one
  constant argument is 6.0, and \<open>RELU6\<close> gives the clamp opcode, whose two constant
  arguments are -1.0 and 1.0. The claim expects \<open>RELU6\<close> to be bounded by 6 and
  \<open>RELU1\<close> to be clamped to [-1, 1], as the stand-alone lowerings \<open>relu6\<close> and
  \<open>relu1\<close> of the same 1.0 service do.
\<close>

theorem fused_activation_selectors:
  "getFloatActivationFunction Fused_NONE = OP_Nop
   \<and> getFloatActivationFunction Fused_RELU = OP_Relu_f
   \<and> getFloatActivationFunction Fused_RELU1 = OP_ReluX_f
   \<and> getFloatActivationFunction Fused_RELU6 = OP_Clamp_f
   \<and> getQuantizedActivationFunction Fused_NONE = OP_Nop
   \<and> getQuantizedActivationFunction Fused_RELU = OP_QuantizedRelu_8
   \<and> getQuantizedActivationFunction Fused_RELU1 = OP_QuantizedReluX_8
   \<and> getQuantizedActivationFunction Fused_RELU6 = OP_QuantizedClamp_8
   \<and> calls (snd (setupActivationArgs (getFloatActivationFunction Fused_RELU1) s)) =
       calls s @ [Append_const_node (mGraphId s) (mNodeCount s + 1) 1 1 1 1 (Floats [6]) 4]
   \<and> calls (snd (setupActivationArgs (getQuantizedActivationFunction Fused_RELU1) s)) =
       calls s @ [Append_const_node (mGraphId s) (mNodeCount s + 1) 1 1 1 1 (Floats [6]) 4]
   \<and> calls (snd (setupActivationArgs (getFloatActivationFunction Fused_RELU6) s)) =
       calls s @ [Append_const_node (mGraphId s) (mNodeCount s + 1) 1 1 1 1 (Floats [- 1]) 4,
                  Append_const_node (mGraphId s) (mNodeCount s + 2) 1 1 1 1 (Floats [1]) 4]
   \<and> calls (snd (setupActivationArgs (getQuantizedActivationFunction Fused_RELU6) s)) =
       calls s @ [Append_const_node (mGraphId s) (mNodeCount s + 1) 1 1 1 1 (Floats [- 1]) 4,
                  Append_const_node (mGraphId s) (mNodeCount s + 2) 1 1 1 1 (Floats [1]) 4]"
  by (simp add: setupActivationArgs_def split_beta calls_createValues_float
        count_createValues_float)

section \<open>Quantization ranges\<close>


section \<open>Compilation\<close>

lemma frame_fields:
  assumes "frame s' = frame s"
  shows "mGraphId s' = mGraphId s" "mCompiled s' = mCompiled s" "respond s' = respond s"
    "mOperations s' = mOperations s" "mInputs s' = mInputs s" "mOutputs s' = mOutputs s"
  using assms by (simp_all add: frame_def)

lemma resetModel_eq:
  "resetModel s =
     s\<lparr>mCompiled := False,
       mOperands := map (\<lambda>operand. operand\<lparr>hexagon_input := no_input,
                                             hexagon_output := no_output\<rparr>) (mOperands s),
       mGraphId := respond s (calls s @ (if mGraphId s \<noteq> 0 then [Teardown (mGraphId s)] else []))
                     Init,
       calls := calls s @ (if mGraphId s \<noteq> 0 then [Teardown (mGraphId s)] else [])
                @ [Init, Set_debug_level
                     (respond s (calls s @ (if mGraphId s \<noteq> 0 then [Teardown (mGraphId s)] else []))
                        Init) 99]\<rparr>"
  by (simp add: resetModel_def Let_def split_beta Controller_call_def)

lemma compile_not_validated:
  "\<not> fst (verifyOperations nn s) \<or> \<not> verifyOperands (snd (verifyOperations nn s)) \<Longrightarrow>
   compile nn s = (False, snd (verifyOperations nn s))"
  by (auto simp: compile_def Let_def split_beta)

lemma compile_not_built:
  assumes "fst (verifyOperations nn s)" and "verifyOperands (snd (verifyOperations nn s))"
    and "\<not> (fst (addInputs (snd (verifyOperations nn s)))
           \<and> fst (addOperations nn (snd (addInputs (snd (verifyOperations nn s)))))
           \<and> fst (addOutputs (snd (addOperations nn (snd (addInputs (snd (verifyOperations nn s))))))))"
  shows "\<exists>t. frame t = frame s \<and> compile nn s = (False, resetModel t)"
proof -
  let ?s1 = "snd (verifyOperations nn s)"
  let ?s2 = "snd (addInputs ?s1)"
  let ?s3 = "snd (addOperations nn ?s2)"
  let ?s4 = "snd (addOutputs ?s3)"
  consider "\<not> fst (addInputs ?s1)"
    | "fst (addInputs ?s1)" "\<not> fst (addOperations nn ?s2)"
    | "fst (addInputs ?s1)" "fst (addOperations nn ?s2)" "\<not> fst (addOutputs ?s3)"
    using assms(3) by blast
  then show ?thesis
  proof cases
    case 1
    then have "compile nn s = (False, resetModel ?s2)"
      using assms(1,2) by (simp add: compile_def Let_def split_beta)
    moreover have "frame ?s2 = frame s" by simp
    ultimately show ?thesis by blast
  next
    case 2
    then have "compile nn s = (False, resetModel ?s3)"
      using assms(1,2) by (simp add: compile_def Let_def split_beta)
    moreover have "frame ?s3 = frame s" by simp
    ultimately show ?thesis by blast
  next
    case 3
    then have "compile nn s = (False, resetModel ?s4)"
      using assms(1,2) by (simp add: compile_def Let_def split_beta)
    moreover have "frame ?s4 = frame s" by simp
    ultimately show ?thesis by blast
  qed
qed

lemma compile_built:
  assumes "fst (verifyOperations nn s)" and "verifyOperands (snd (verifyOperations nn s))"
    and "fst (addInputs (snd (verifyOperations nn s)))"
    and "fst (addOperations nn (snd (addInputs (snd (verifyOperations nn s)))))"
    and "fst (addOutputs (snd (addOperations nn (snd (addInputs (snd (verifyOperations nn s)))))))"
  shows "frame (snd (compile nn s)) = frame s"
  using assms by (simp add: compile_def Let_def split_beta)

lemma mCompiled_compile: "mCompiled (snd (compile nn s)) \<Longrightarrow> mCompiled s"
proof -
  assume c: "mCompiled (snd (compile nn s))"
  let ?s1 = "snd (verifyOperations nn s)"
  have f1: "frame ?s1 = frame s" by simp
  show "mCompiled s"
  proof (cases "fst (verifyOperations nn s) \<and> verifyOperands ?s1")
    case False
    then have "compile nn s = (False, ?s1)" using compile_not_validated by blast
    with c frame_fields(2)[OF f1] show ?thesis by simp
  next
    case True
    show ?thesis
    proof (cases "fst (addInputs ?s1) \<and> fst (addOperations nn (snd (addInputs ?s1)))
                  \<and> fst (addOutputs (snd (addOperations nn (snd (addInputs ?s1)))))")
      case False
      with True obtain t where "compile nn s = (False, resetModel t)"
        using compile_not_built by blast
      with c show ?thesis by (simp add: resetModel_eq)
    next
      case built: True
      with True have "frame (snd (compile nn s)) = frame s"
        using compile_built by blast
      with c frame_fields(2) show ?thesis by metis
    qed
  qed
qed

lemmas mCompiled_unchanged =
  frame_execute [THEN frame_fields(2)]
  frame_supportedOperations [THEN frame_fields(2)]
  frame_verifyOperations [THEN frame_fields(2)]
  frame_addInputs [THEN frame_fields(2)]
  frame_addOperations [THEN frame_fields(2)]
  frame_addOutputs [THEN frame_fields(2)]
  frame_getLog [THEN frame_fields(2)]
  frame_setShape [THEN frame_fields(2)]
  frame_getTensor [THEN frame_fields(2)]
  frame_getQuantizationMin [THEN frame_fields(2)]
  frame_getQuantizationMax [THEN frame_fields(2)]
  frame_createQuantizationValue [THEN frame_fields(2)]
  frame_createTensorInternal [THEN frame_fields(2)]
  frame_createFilter [THEN frame_fields(2)]
  frame_addBasicOperation [THEN frame_fields(2)]
  frame_addFloatOperationWithActivation [THEN frame_fields(2)]
  frame_addQuant8OperationWithActivation [THEN frame_fields(2)]
  frame_addFusedFloatOperation [THEN frame_fields(2)]
  frame_addFusedQuant8Operation [THEN frame_fields(2)]

lemma mCompiled_Model_new: "\<not> mCompiled (Model_new model env history)"
  by (simp add: Model_new_def Let_def split_beta Controller_call_def)

lemma mCompiled_moved:
  "mCompiled (with_accelerator (fst (Model_move_assign this (Model.truncate other))) env h)
     = mCompiled other"
  "\<not> mCompiled (with_accelerator (snd (Model_move_assign this (Model.truncate other))) env h)"
  by (simp_all add: with_accelerator_def Model_move_assign_def Model.truncate_def)

lemma identity_state:
  "Model_new identity_model accepting [] =
     \<lparr>mNodeCount = 0, mGraphId = 1, mCompiled = False,
      mOperands = [\<lparr>type = TENSOR_FLOAT32, dimensions = [1], scale = 0,
                    zeroPoint = 0, lifetime = MODEL_INPUT, buffer = None, length_bytes = 0,
                    hexagon_input = no_input, hexagon_input_min = no_input,
                    hexagon_input_max = no_input, hexagon_output = no_output\<rparr>],
      mOperations = [], mInputs = [0], mOutputs = [0], mPools = [],
      respond = accepting, calls = [Init, Set_debug_level 1 99]\<rparr>"
  by (simp add: Model_new_def identity_model_def tensor_def Controller_call_def accepting_def
        mapPools_def getOperandsInfo_def getData_def)

lemmas evaluation =
  compile_def verifyOperations_def supportedOperations_def
  verifyOperands_def addInputs_def addOperationInternal_def verifyOperationInputs_def
  verifyOperationOutputs_def make_hexagon_nn_output_def getAlignedDimensions_def
  no_output_def no_input_def getNextNode_def Controller_call_def accepting_def
  addOperations_def addOutputs_def addBasicOperation_def getHexagonOutputs_def
  registerHexagonInputs_def getLog_def getDebugLog_def resetModel_def Let_def split_beta

lemma identity_compiles: "fst (compile nn_example (Model_new identity_model accepting []))"
  by (simp add: identity_state evaluation)

text \<open>
  C9. The compiled flag is false in every reachable state of a \<open>Model\<close>: the
  constructor and \<open>resetModel\<close> set it to false, a move copies it from a reachable
  \<open>Model\<close> and clears it in the \<open>Model\<close> moved from, and no other member function
  writes it, \<open>compile\<close> included.
\<close>

theorem compiled_flag_never_set: "reachable nn s \<Longrightarrow> \<not> mCompiled s"
proof (induction rule: reachable.induct)
  case (does_compile s)
  then show ?case using mCompiled_compile by blast
next
  case (does_resetModel s)
  show ?case by (simp add: resetModel_eq)
qed (simp_all add: mCompiled_Model_new mCompiled_moved mCompiled_unchanged)

theorem compiled_flag_never_set_witness:
  "fst (compile nn_example (Model_new identity_model accepting []))
   \<and> \<not> mCompiled (snd (compile nn_example (Model_new identity_model accepting [])))"
  using identity_compiles
    compiled_flag_never_set [OF does_compile [OF constructed,
        of nn_example identity_model accepting "[]"]]
  by simp

section \<open>Failure of compile\<close>

lemma dangling_output_state:
  "Model_new dangling_output_model accepting [] =
     \<lparr>mNodeCount = 0, mGraphId = 1, mCompiled = False,
      mOperands = [\<lparr>type = TENSOR_FLOAT32, dimensions = [1], scale = 0,
                    zeroPoint = 0, lifetime = MODEL_INPUT, buffer = None, length_bytes = 0,
                    hexagon_input = no_input, hexagon_input_min = no_input,
                    hexagon_input_max = no_input, hexagon_output = no_output\<rparr>,
                   \<lparr>type = TENSOR_FLOAT32, dimensions = [1], scale = 0,
                    zeroPoint = 0, lifetime = MODEL_OUTPUT, buffer = None, length_bytes = 0,
                    hexagon_input = no_input, hexagon_input_min = no_input,
                    hexagon_input_max = no_input, hexagon_output = no_output\<rparr>],
      mOperations = [], mInputs = [0], mOutputs = [1], mPools = [],
      respond = accepting, calls = [Init, Set_debug_level 1 99]\<rparr>"
  by (simp add: Model_new_def dangling_output_model_def tensor_def Controller_call_def
        accepting_def mapPools_def getOperandsInfo_def getData_def)

lemma unknown_dimension_state:
  "Model_new unknown_dimension_model env [] =
     \<lparr>mNodeCount = 0, mGraphId = env [] Init, mCompiled = False,
      mOperands = [\<lparr>type = TENSOR_FLOAT32, dimensions = [0], scale = 0,
                    zeroPoint = 0, lifetime = MODEL_INPUT, buffer = None, length_bytes = 0,
                    hexagon_input = no_input, hexagon_input_min = no_input,
                    hexagon_input_max = no_input, hexagon_output = no_output\<rparr>],
      mOperations = [], mInputs = [0], mOutputs = [0], mPools = [],
      respond = env, calls = [Init, Set_debug_level (env [] Init) 99]\<rparr>"
  by (simp add: Model_new_def unknown_dimension_model_def tensor_def Controller_call_def
        mapPools_def getOperandsInfo_def getData_def)

text \<open>
  When the validation passes and \<open>addInputs\<close>, \<open>addOperations\<close> or
  \<open>addOutputs\<close> fails, \<open>compile\<close> returns false and the model is reset: the compiled
  flag is false, \<open>hexagon_input\<close> and \<open>hexagon_output\<close> of every operand are unset, and
  the last accelerator calls are the teardown of the old graph (if its id is not the
  sentinel 0), the init of a new one, whose id \<open>mGraphId\<close> now holds, and the debug
  level of the new graph.
\<close>

lemma compile_failure_resets:
  assumes "fst (verifyOperations nn s)"
    and "verifyOperands (snd (verifyOperations nn s))"
    and "\<not> (fst (addInputs (snd (verifyOperations nn s)))
           \<and> fst (addOperations nn (snd (addInputs (snd (verifyOperations nn s)))))
           \<and> fst (addOutputs (snd (addOperations nn (snd (addInputs
                  (snd (verifyOperations nn s))))))))"
  shows "\<not> fst (compile nn s)
    \<and> \<not> mCompiled (snd (compile nn s))
    \<and> list_all (\<lambda>operand. hexagon_input operand = no_input \<and> hexagon_output operand = no_output)
         (mOperands (snd (compile nn s)))
    \<and> (\<exists>built. calls (snd (compile nn s)) =
           built @ (if mGraphId s \<noteq> 0 then [Teardown (mGraphId s)] else [])
           @ [Init, Set_debug_level (mGraphId (snd (compile nn s))) 99]
         \<and> mGraphId (snd (compile nn s)) =
           respond s (built @ (if mGraphId s \<noteq> 0 then [Teardown (mGraphId s)] else [])) Init)"
proof -
  obtain t where t: "frame t = frame s" "compile nn s = (False, resetModel t)"
    using compile_not_built [OF assms] by blast
  have g: "mGraphId t = mGraphId s" "respond t = respond s"
    using frame_fields [OF t(1)] by simp_all
  have "list_all (\<lambda>operand. hexagon_input operand = no_input \<and> hexagon_output operand = no_output)
          (mOperands (resetModel t))"
    by (simp add: resetModel_eq list_all_iff)
  moreover have "calls (resetModel t) =
      calls t @ (if mGraphId s \<noteq> 0 then [Teardown (mGraphId s)] else [])
      @ [Init, Set_debug_level (mGraphId (resetModel t)) 99]"
    by (simp add: resetModel_eq g)
  moreover have "mGraphId (resetModel t) =
      respond s (calls t @ (if mGraphId s \<noteq> 0 then [Teardown (mGraphId s)] else [])) Init"
    by (simp add: resetModel_eq g)
  ultimately show ?thesis
    using t(2) by (auto simp: resetModel_eq)
qed

lemma compile_failure_resets_example:
  "\<not> fst (compile nn_example (Model_new dangling_output_model accepting []))
   \<and> \<not> mCompiled (snd (compile nn_example (Model_new dangling_output_model accepting [])))
   \<and> list_all (\<lambda>operand. hexagon_input operand = no_input \<and> hexagon_output operand = no_output)
        (mOperands (snd (compile nn_example (Model_new dangling_output_model accepting []))))
   \<and> (\<exists>built. calls (snd (compile nn_example (Model_new dangling_output_model accepting []))) =
          built @ [Teardown 1]
          @ [Init, Set_debug_level
               (mGraphId (snd (compile nn_example (Model_new dangling_output_model accepting []))))
               99]
        \<and> mGraphId (snd (compile nn_example (Model_new dangling_output_model accepting []))) =
          accepting (built @ [Teardown 1]) Init)"
proof -
  let ?s = "Model_new dangling_output_model accepting []"
  have 1: "fst (verifyOperations nn_example ?s)"
    by (simp add: dangling_output_state evaluation)
  have 2: "verifyOperands (snd (verifyOperations nn_example ?s))"
    by (simp add: dangling_output_state evaluation)
  have 3: "\<not> (fst (addInputs (snd (verifyOperations nn_example ?s)))
           \<and> fst (addOperations nn_example (snd (addInputs (snd (verifyOperations nn_example ?s)))))
           \<and> fst (addOutputs (snd (addOperations nn_example (snd (addInputs
                  (snd (verifyOperations nn_example ?s))))))))"
    by (simp add: dangling_output_state evaluation)
  have g: "mGraphId ?s = 1" "respond ?s = accepting"
    by (simp_all add: dangling_output_state)
  show ?thesis
    using compile_failure_resets [OF 1 2 3] by (simp add: g)
qed

lemma identity_state_any:
  "Model_new identity_model env [] =
     \<lparr>mNodeCount = 0, mGraphId = env [] Init, mCompiled = False,
      mOperands = [\<lparr>type = TENSOR_FLOAT32, dimensions = [1], scale = 0,
                    zeroPoint = 0, lifetime = MODEL_INPUT, buffer = None, length_bytes = 0,
                    hexagon_input = no_input, hexagon_input_min = no_input,
                    hexagon_input_max = no_input, hexagon_output = no_output\<rparr>],
      mOperations = [], mInputs = [0], mOutputs = [0], mPools = [],
      respond = env, calls = [Init, Set_debug_level (env [] Init) 99]\<rparr>"
  by (simp add: Model_new_def identity_model_def tensor_def Controller_call_def
        mapPools_def getOperandsInfo_def getData_def)

lemma compile_unknown_dimension:
  "compile nn_example (Model_new unknown_dimension_model accepting []) =
     (False, Model_new unknown_dimension_model accepting [])"
  by (simp add: unknown_dimension_state evaluation)

lemma compile_refused_prepare:
  "\<not> fst (compile nn_example (Model_new identity_model refusing_prepare []))"
  "calls (snd (compile nn_example (Model_new identity_model refusing_prepare []))) =
     [Init, Set_debug_level 1 99,
      Append_node 1 1 OP_INPUT NN_PAD_NA [] [make_hexagon_nn_output [1] 4],
      Append_node 1 2 OP_OUTPUT NN_PAD_NA [\<lparr>src_id = 1, output_idx = 0\<rparr>] [],
      Snpprint 1, Getlog 1, Prepare 1, Snpprint 1, Getlog 1]"
  by (simp_all add: identity_state_any refusing_prepare_def evaluation)

section \<open>Moving and destroying a Model\<close>

text \<open>
  C10. A move hands the session over: the \<open>Model\<close> moved to holds the graph id, the
  \<open>Model\<close> moved from holds the sentinel 0 and a false compiled flag. The destructor
  calls teardown exactly when the graph id is not the sentinel. So destroying the
  \<open>Model\<close> moved from makes no call, and destroying both tears the session down once
  (not at all when the id was the sentinel from the start).
\<close>

theorem move_transfers_session:
  "mGraphId (fst (Model_move_assign this other)) = mGraphId other
   \<and> mGraphId (snd (Model_move_assign this other)) = 0
   \<and> \<not> mCompiled (snd (Model_move_assign this other))
   \<and> Model_delete s = (if mGraphId s = 0 then calls s else calls s @ [Teardown (mGraphId s)])
   \<and> Model_delete (with_accelerator (snd (Model_move_assign this other)) env history) = history
   \<and> Model_delete (with_accelerator (fst (Model_move_assign this other)) env
        (Model_delete (with_accelerator (snd (Model_move_assign this other)) env history))) =
      (if mGraphId other = 0 then history else history @ [Teardown (mGraphId other)])
   \<and> count_list
        (Model_delete (with_accelerator (fst (Model_move_assign this other)) env
           (Model_delete (with_accelerator (snd (Model_move_assign this other)) env history))))
        (Teardown (mGraphId other))
      \<le> count_list history (Teardown (mGraphId other)) + 1"
  by (simp add: Model_move_assign_def Model_delete_def with_accelerator_def Controller_call_def)

section \<open>Execution\<close>

lemma calls_bindArguments [simp]:
  "calls (snd (bindArguments args idx i ps s)) = calls s"
  by (induction args idx i ps s rule: bindArguments.induct) (simp_all add: Let_def split_beta)

lemma mNodeCount_bindArguments [simp]:
  "mNodeCount (snd (bindArguments args idx i ps s)) = mNodeCount s"
  by (induction args idx i ps s rule: bindArguments.induct) (simp_all add: Let_def split_beta)

lemmas bindArguments_unchanged =
  frame_bindArguments [THEN frame_fields(1)]
  frame_bindArguments [THEN frame_fields(2)]
  frame_bindArguments [THEN frame_fields(3)]

text \<open>
  C2 (the code departs from the claim). Whatever the state of the prepared model,
  compiled or not, \<open>asyncExecute\<close> makes exactly two accelerator calls,
  \<open>execute_new\<close> on the current graph and the fetch of the debug log. It appends no node,
  never calls \<open>prepare\<close> and leaves the compiled flag as it was: there is no lazy
  compilation. The status it reports is the accelerator's answer to \<open>execute_new\<close>.
\<close>

theorem execute_never_compiles:
  "\<exists>ins outs.
     calls (snd (asyncExecute request s)) =
       calls s @ [Execute_new (mGraphId s) ins outs, Getlog (mGraphId s)]
     \<and> fst (asyncExecute request s) =
       (if respond s (calls s) (Execute_new (mGraphId s) ins outs) = 0
        then NONE else GENERAL_FAILURE)
     \<and> mCompiled (snd (asyncExecute request s)) = mCompiled s
     \<and> mNodeCount (snd (asyncExecute request s)) = mNodeCount s"
proof -
  let ?pools = "mapPools (request_pools request)"
  let ?b1 = "bindArguments (request_inputs request) (mInputs s) 0 ?pools s"
  let ?b2 = "bindArguments (request_outputs request) (mOutputs (snd ?b1)) 0 ?pools (snd ?b1)"
  have "calls (snd (asyncExecute request s)) =
       calls s @ [Execute_new (mGraphId s) (fst ?b1) (fst ?b2), Getlog (mGraphId s)]
     \<and> fst (asyncExecute request s) =
       (if respond s (calls s) (Execute_new (mGraphId s) (fst ?b1) (fst ?b2)) = 0
        then NONE else GENERAL_FAILURE)
     \<and> mCompiled (snd (asyncExecute request s)) = mCompiled s
     \<and> mNodeCount (snd (asyncExecute request s)) = mNodeCount s"
    by (simp add: asyncExecute_def execute_def Let_def split_beta getDebugLog_def
          Controller_call_def bindArguments_unchanged)
  then show ?thesis by blast
qed

section \<open>The supported-operations query\<close>




lemmas check_evaluation =
  supportedOperations_def getOperationCheckTable_def check_tanh_def check_relu_def
  check_add_def check_activation_def check_addMul_def getShape_def setShape_def no_output_def
  nn_example_def nn_genericActivationPrepare_def nn_addMulPrepare_def SetShape_def
  Let_def split_beta


lemma operand_eqI:
  assumes "a\<lparr>dimensions := []\<rparr> = b\<lparr>dimensions := []\<rparr>" and "dimensions a = dimensions b"
  shows "a = (b :: OperandInfo)"
proof -
  have "a = (a\<lparr>dimensions := []\<rparr>)\<lparr>dimensions := dimensions a\<rparr>" by simp
  also have "\<dots> = (b\<lparr>dimensions := []\<rparr>)\<lparr>dimensions := dimensions b\<rparr>"
    using assms by simp
  also have "\<dots> = b" by simp
  finally show ?thesis .
qed

lemma operands_eqI:
  assumes "map (\<lambda>operand. operand\<lparr>dimensions := []\<rparr>) xs = map (\<lambda>operand. operand\<lparr>dimensions := []\<rparr>) ys"
    and "map dimensions xs = map dimensions ys"
  shows "xs = (ys :: OperandInfo list)"
  using assms
proof (induction xs arbitrary: ys)
  case Nil
  then show ?case by simp
next
  case (Cons x xs)
  then obtain y ys' where ys: "ys = y # ys'" by (cases ys) auto
  with Cons.prems have "x = y" by (auto intro: operand_eqI)
  moreover from Cons.prems ys have "xs = ys'" by (auto intro: Cons.IH)
  ultimately show ?case using ys by simp
qed

lemma forget_dimensions_eqD:
  assumes "forget_dimensions a = forget_dimensions b"
    and "map dimensions (mOperands a) = map dimensions (mOperands b)"
  shows "a = (b :: sys)"
proof -
  have e: "f (forget_dimensions a) = f (forget_dimensions b)" for f :: "sys \<Rightarrow> 'x"
    using assms(1) by simp
  have "mOperands a = mOperands b"
    using e [of mOperands] assms(2) by (auto simp: forget_dimensions_def intro: operands_eqI)
  moreover have "mNodeCount a = mNodeCount b" "mGraphId a = mGraphId b"
    "mCompiled a = mCompiled b" "mOperations a = mOperations b" "mInputs a = mInputs b"
    "mOutputs a = mOutputs b" "mPools a = mPools b" "respond a = respond b" "calls a = calls b"
    using e [of mNodeCount] e [of mGraphId] e [of mCompiled] e [of mOperations] e [of mInputs]
      e [of mOutputs] e [of mPools] e [of respond] e [of calls]
    by (simp_all add: forget_dimensions_def)
  ultimately show ?thesis by simp
qed

lemma out_of_order_state:
  "Model_new out_of_order_model accepting [] =
     \<lparr>mNodeCount = 0, mGraphId = 1, mCompiled = False,
      mOperands = [\<lparr>type = TENSOR_FLOAT32, dimensions = [2], scale = 0,
                    zeroPoint = 0, lifetime = TEMPORARY_VARIABLE, buffer = None, length_bytes = 0,
                    hexagon_input = no_input, hexagon_input_min = no_input,
                    hexagon_input_max = no_input, hexagon_output = no_output\<rparr>,
                   \<lparr>type = TENSOR_FLOAT32, dimensions = [2], scale = 0,
                    zeroPoint = 0, lifetime = MODEL_OUTPUT, buffer = None, length_bytes = 0,
                    hexagon_input = no_input, hexagon_input_min = no_input,
                    hexagon_input_max = no_input, hexagon_output = no_output\<rparr>,
                   \<lparr>type = TENSOR_FLOAT32, dimensions = [3], scale = 0,
                    zeroPoint = 0, lifetime = MODEL_INPUT, buffer = None, length_bytes = 0,
                    hexagon_input = no_input, hexagon_input_min = no_input,
                    hexagon_input_max = no_input, hexagon_output = no_output\<rparr>,
                   \<lparr>type = TENSOR_FLOAT32, dimensions = [2], scale = 0,
                    zeroPoint = 0, lifetime = MODEL_INPUT, buffer = None, length_bytes = 0,
                    hexagon_input = no_input, hexagon_input_min = no_input,
                    hexagon_input_max = no_input, hexagon_output = no_output\<rparr>,
                   \<lparr>type = INT32, dimensions = [], scale = 0,
                    zeroPoint = 0, lifetime = CONSTANT_COPY, buffer = Some [0, 0, 0, 0],
                    length_bytes = 0,
                    hexagon_input = no_input, hexagon_input_min = no_input,
                    hexagon_input_max = no_input, hexagon_output = no_output\<rparr>],
      mOperations = [\<lparr>operation_type = ADD, inputs = [0, 3, 4], outputs = [1]\<rparr>,
                     \<lparr>operation_type = RELU, inputs = [2], outputs = [0]\<rparr>],
      mInputs = [2, 3], mOutputs = [1], mPools = [],
      respond = accepting, calls = [Init, Set_debug_level 1 99]\<rparr>"
  by (simp add: Model_new_def out_of_order_model_def tensor_def Controller_call_def
        accepting_def mapPools_def getOperandsInfo_def getData_def getDataFromBlock_def)

lemma supportedOperations_out_of_order:
  "fst (supportedOperations nn_example (Model_new out_of_order_model accepting [])) = [True, True]"
  "dimensions (mOperands (snd (supportedOperations nn_example
       (Model_new out_of_order_model accepting []))) ! 0) = [3]"
  "fst (supportedOperations nn_example (snd (supportedOperations nn_example
       (Model_new out_of_order_model accepting [])))) = [False, True]"
  by (simp_all add: out_of_order_state check_evaluation)

section \<open>Operand handles\<close>

lemma registerHexagonInputs_from_keeps:
  "hexagon_input (mOperands m ! k) \<noteq> no_input \<Longrightarrow>
   hexagon_input (mOperands (snd (registerHexagonInputs_from idx xs node m)) ! k) =
     hexagon_input (mOperands m ! k)"
proof (induction idx xs node m rule: registerHexagonInputs_from.induct)
  case (1 idx node m)
  then show ?case by simp
next
  case (2 idx i rest node m)
  show ?case
  proof (cases "hexagon_input (mOperands m ! i) \<noteq> no_input")
    case True
    then show ?thesis by simp
  next
    case False
    with "2.prems" have ne: "i \<noteq> k" by auto
    show ?thesis
    proof (cases "type (mOperands m ! i) = TENSOR_QUANT8_ASYMM")
      case True
      with False ne "2.prems" "2.IH"(1) [of "mOperands m ! i"] show ?thesis
        by (simp add: Let_def)
    next
      case q: False
      with False ne "2.prems" "2.IH"(2) [of "mOperands m ! i"] show ?thesis
        by (simp add: Let_def)
    qed
  qed
qed

lemma registerHexagonInputs_from_fails:
  "hexagon_input (mOperands m ! k) \<noteq> no_input \<Longrightarrow> k \<in> set xs \<Longrightarrow>
   \<not> fst (registerHexagonInputs_from idx xs node m)"
proof (induction idx xs node m rule: registerHexagonInputs_from.induct)
  case (1 idx node m)
  then show ?case by simp
next
  case (2 idx i rest node m)
  show ?case
  proof (cases "hexagon_input (mOperands m ! i) \<noteq> no_input")
    case True
    then show ?thesis by simp
  next
    case False
    with "2.prems" have ne: "i \<noteq> k" and k: "k \<in> set rest" by auto
    show ?thesis
    proof (cases "type (mOperands m ! i) = TENSOR_QUANT8_ASYMM")
      case True
      with False ne k "2.prems" "2.IH"(1) [of "mOperands m ! i"] show ?thesis
        by (simp add: Let_def)
    next
      case q: False
      with False ne k "2.prems" "2.IH"(2) [of "mOperands m ! i"] show ?thesis
        by (simp add: Let_def)
    qed
  qed
qed


section \<open>Node ids\<close>

lemma accepted_append:
  "accepted (s\<lparr>calls := calls s @ [c]\<rparr>) =
     (accepted s \<and> (case c of Append_node g n op pad ins outs \<Rightarrow> respond s (calls s) c = 0
                              | _ \<Rightarrow> True))"
  by (auto simp: accepted_def list_all_iff nth_append less_Suc_eq split: call.splits)

lemma accepted_Controller_call:
  "accepted (snd (Controller_call c s)) =
     (accepted s \<and> (case c of Append_node g n op pad ins outs \<Rightarrow> fst (Controller_call c s) = 0
                              | _ \<Rightarrow> True))"
  by (simp add: Controller_call_def accepted_append split: call.splits)

lemma accepted_update [simp]:
  "accepted (s\<lparr>mOperands := x\<rparr>) = accepted s"
  "accepted (s\<lparr>mNodeCount := n\<rparr>) = accepted s"
  "accepted (s\<lparr>mGraphId := g\<rparr>) = accepted s"
  "accepted (s\<lparr>mCompiled := b\<rparr>) = accepted s"
  by (simp_all add: accepted_def cong: call.case_cong)

lemma accepted_forget_dimensions [simp]: "accepted (forget_dimensions s) = accepted s"
  by (simp add: forget_dimensions_def)

lemma accepted_getNextNode [simp]: "accepted (snd (getNextNode s)) = accepted s"
  by (simp add: getNextNode_def)

lemma accepted_createTensorInternal [simp]:
  "accepted (snd (createTensorInternal B H W D p n s)) = accepted s"
  by (simp add: createTensorInternal_def Let_def split_beta accepted_Controller_call)

lemma accepted_create [simp]:
  "accepted (snd (createShape B H W D s)) = accepted s"
  "accepted (snd (createTensor_float B H W D v s)) = accepted s"
  "accepted (snd (createValues_float v s)) = accepted s"
  "accepted (snd (createValues_int32 w s)) = accepted s"
  "accepted (snd (createScalar_float x s)) = accepted s"
  "accepted (snd (createScalar_int32 y s)) = accepted s"
  by (simp_all add: createShape_def createTensor_float_def createValues_float_def
        createValues_int32_def createScalar_float_def createScalar_int32_def)

lemma accepted_addOperand [simp]: "accepted (snd (addOperand i s)) = accepted s"
  by (simp add: addOperand_def Let_def)

lemma accepted_getTensor [simp]: "accepted (snd (getTensor i s)) = accepted s"
  by (simp add: getTensor_def Let_def split_beta)

lemma accepted_getQuantizationMin [simp]: "accepted (snd (getQuantizationMin i s)) = accepted s"
  by (simp add: getQuantizationMin_def Let_def split_beta)

lemma accepted_getQuantizationMax [simp]: "accepted (snd (getQuantizationMax i s)) = accepted s"
  by (simp add: getQuantizationMax_def Let_def split_beta)

lemma accepted_createQuantizationValue [simp]:
  "accepted (snd (createQuantizationValue i v s)) = accepted s"
  by (simp add: createQuantizationValue_def Let_def)

lemma accepted_createFilter [simp]:
  "accepted (snd (createConvFilterTensor i s)) = accepted s"
  "accepted (snd (createDepthwiseFilterTensor i dm s)) = accepted s"
  "accepted (snd (createFullyConnectedWeightTensor i s)) = accepted s"
  by (simp_all add: createConvFilterTensor_def createDepthwiseFilterTensor_def
        createFullyConnectedWeightTensor_def Let_def)

lemma accepted_setupActivationArgs [simp]:
  "accepted (snd (setupActivationArgs op s)) = accepted s"
  by (simp add: setupActivationArgs_def Let_def split_beta)

lemma accepted_getTensors [simp]: "accepted (snd (getTensors xs s)) = accepted s"
  by (induction xs arbitrary: s) (simp_all add: Let_def split_beta)

lemma accepted_getQuantizedTensors [simp]:
  "accepted (snd (getQuantizedTensors xs s)) = accepted s"
  by (induction xs arbitrary: s) (simp_all add: Let_def split_beta)

lemma accepted_registerHexagonInputs_from [simp]:
  "accepted (snd (registerHexagonInputs_from idx xs node s)) = accepted s"
  by (induction idx xs node s rule: registerHexagonInputs_from.induct) (simp_all add: Let_def)

lemma accepted_registerHexagonInputs [simp]:
  "accepted (snd (registerHexagonInputs xs node s)) = accepted s"
  by (simp add: registerHexagonInputs_def)

lemma accepted_addInputs_update [simp]: "accepted (addInputs_update i xs node s) = accepted s"
  by (induction i xs node s rule: addInputs_update.induct) simp_all

lemma accepted_supportedOperations [simp]:
  "accepted (snd (supportedOperations nn s)) = accepted s"
proof -
  have "accepted (forget_dimensions (snd (supportedOperations nn s)))
          = accepted (forget_dimensions s)"
    by (simp only: forget_dimensions_supportedOperations)
  then show ?thesis by (simp only: accepted_forget_dimensions)
qed

lemma accepted_verifyOperations [simp]:
  "accepted (snd (verifyOperations nn s)) = accepted s"
  by (simp add: verifyOperations_def split_beta)

lemma accepted_getLog [simp]:
  "accepted (getLog s) = accepted s" "accepted (getDebugLog s) = accepted s"
  by (simp_all add: getLog_def getDebugLog_def accepted_Controller_call)

text \<open>A node id other than zero comes from an \<open>append_node\<close> call that was accepted.\<close>

lemma accepted_addOperationInternal [simp]:
  "fst (addOperationInternal op pad ins outs s) \<noteq> 0 \<Longrightarrow>
   accepted (snd (addOperationInternal op pad ins outs s)) = accepted s"
  by (simp add: addOperationInternal_def Let_def split_beta accepted_Controller_call
        split: if_splits)

lemma accepted_addBasicOperation [simp]:
  "fst (addBasicOperation op pad ins outs s) \<Longrightarrow>
   accepted (snd (addBasicOperation op pad ins outs s)) = accepted s"
  by (simp add: addBasicOperation_def Let_def split_beta split: if_splits)

lemma accepted_addFloatOperationWithActivation [simp]:
  "fst (addFloatOperationWithActivation op pad act ins outs s) \<Longrightarrow>
   accepted (snd (addFloatOperationWithActivation op pad act ins outs s)) = accepted s"
  by (simp add: addFloatOperationWithActivation_def Let_def split_beta split: if_splits)

lemma accepted_addQuant8OperationWithActivation [simp]:
  "fst (addQuant8OperationWithActivation op pad act ins outs s) \<Longrightarrow>
   accepted (snd (addQuant8OperationWithActivation op pad act ins outs s)) = accepted s"
  by (simp add: addQuant8OperationWithActivation_def Let_def split_beta split: if_splits)

lemma accepted_addFusedFloatOperation [simp]:
  "fst (addFusedFloatOperation op pad bias act ins outs s) \<Longrightarrow>
   accepted (snd (addFusedFloatOperation op pad bias act ins outs s)) = accepted s"
  by (simp add: addFusedFloatOperation_def Let_def split_beta split: if_splits)

lemma accepted_addFusedQuant8Operation [simp]:
  "fst (addFusedQuant8Operation op pad bias act ins outs s) \<Longrightarrow>
   accepted (snd (addFusedQuant8Operation op pad bias act ins outs s)) = accepted s"
  by (simp add: addFusedQuant8Operation_def Let_def split_beta split: if_splits)

lemma accepted_float32_add [simp]:
  "fst (float32_add ins outs s) \<Longrightarrow> accepted (snd (float32_add ins outs s)) = accepted s"
  by (simp add: float32_add_def Let_def split_beta split: if_splits)

lemma accepted_float32_average_pool_2d [simp]:
  "fst (float32_average_pool_2d nn ins outs s) \<Longrightarrow> accepted (snd (float32_average_pool_2d nn ins outs s)) = accepted s"
  by (simp add: float32_average_pool_2d_def Let_def split_beta split: if_splits)

lemma accepted_float32_concatenation [simp]:
  "fst (float32_concatenation ins outs s) \<Longrightarrow> accepted (snd (float32_concatenation ins outs s)) = accepted s"
  by (simp add: float32_concatenation_def Let_def split_beta split: if_splits)

lemma accepted_float32_conv_2d [simp]:
  "fst (float32_conv_2d nn ins outs s) \<Longrightarrow> accepted (snd (float32_conv_2d nn ins outs s)) = accepted s"
  by (simp add: float32_conv_2d_def Let_def split_beta split: if_splits)

lemma accepted_float32_depthwise_conv_2d [simp]:
  "fst (float32_depthwise_conv_2d nn ins outs s) \<Longrightarrow> accepted (snd (float32_depthwise_conv_2d nn ins outs s)) = accepted s"
  by (simp add: float32_depthwise_conv_2d_def Let_def split_beta split: if_splits)

lemma accepted_float32_fully_connected [simp]:
  "fst (float32_fully_connected ins outs s) \<Longrightarrow> accepted (snd (float32_fully_connected ins outs s)) = accepted s"
  by (simp add: float32_fully_connected_def Let_def split_beta split: if_splits)

lemma accepted_float32_l2_pool_2d [simp]:
  "fst (float32_l2_pool_2d nn ins outs s) \<Longrightarrow> accepted (snd (float32_l2_pool_2d nn ins outs s)) = accepted s"
  by (simp add: float32_l2_pool_2d_def Let_def split_beta split: if_splits)

lemma accepted_float32_local_response_normalization [simp]:
  "fst (float32_local_response_normalization ins outs s) \<Longrightarrow> accepted (snd (float32_local_response_normalization ins outs s)) = accepted s"
  by (simp add: float32_local_response_normalization_def Let_def split_beta split: if_splits)

lemma accepted_float32_logistic [simp]:
  "fst (float32_logistic ins outs s) \<Longrightarrow> accepted (snd (float32_logistic ins outs s)) = accepted s"
  by (simp add: float32_logistic_def Let_def split_beta split: if_splits)

lemma accepted_float32_max_pool_2d [simp]:
  "fst (float32_max_pool_2d nn ins outs s) \<Longrightarrow> accepted (snd (float32_max_pool_2d nn ins outs s)) = accepted s"
  by (simp add: float32_max_pool_2d_def Let_def split_beta split: if_splits)

lemma accepted_float32_mul [simp]:
  "fst (float32_mul ins outs s) \<Longrightarrow> accepted (snd (float32_mul ins outs s)) = accepted s"
  by (simp add: float32_mul_def Let_def split_beta split: if_splits)

lemma accepted_float32_relu [simp]:
  "fst (float32_relu ins outs s) \<Longrightarrow> accepted (snd (float32_relu ins outs s)) = accepted s"
  by (simp add: float32_relu_def Let_def split_beta split: if_splits)

lemma accepted_float32_relu1 [simp]:
  "fst (float32_relu1 ins outs s) \<Longrightarrow> accepted (snd (float32_relu1 ins outs s)) = accepted s"
  by (simp add: float32_relu1_def Let_def split_beta split: if_splits)

lemma accepted_float32_relu6 [simp]:
  "fst (float32_relu6 ins outs s) \<Longrightarrow> accepted (snd (float32_relu6 ins outs s)) = accepted s"
  by (simp add: float32_relu6_def Let_def split_beta split: if_splits)

lemma accepted_float32_reshape [simp]:
  "fst (float32_reshape ins outs s) \<Longrightarrow> accepted (snd (float32_reshape ins outs s)) = accepted s"
  by (simp add: float32_reshape_def Let_def split_beta split: if_splits)

lemma accepted_float32_resize_bilinear [simp]:
  "fst (float32_resize_bilinear ins outs s) \<Longrightarrow> accepted (snd (float32_resize_bilinear ins outs s)) = accepted s"
  by (simp add: float32_resize_bilinear_def Let_def split_beta split: if_splits)

lemma accepted_float32_softmax [simp]:
  "fst (float32_softmax ins outs s) \<Longrightarrow> accepted (snd (float32_softmax ins outs s)) = accepted s"
  by (simp add: float32_softmax_def Let_def split_beta split: if_splits)

lemma accepted_float32_tanh [simp]:
  "fst (float32_tanh ins outs s) \<Longrightarrow> accepted (snd (float32_tanh ins outs s)) = accepted s"
  by (simp add: float32_tanh_def Let_def split_beta split: if_splits)

lemma accepted_quant8_asym_add [simp]:
  "fst (quant8_asym_add ins outs s) \<Longrightarrow> accepted (snd (quant8_asym_add ins outs s)) = accepted s"
  by (simp add: quant8_asym_add_def Let_def split_beta split: if_splits)

lemma accepted_quant8_asym_average_pool_2d [simp]:
  "fst (quant8_asym_average_pool_2d nn ins outs s) \<Longrightarrow> accepted (snd (quant8_asym_average_pool_2d nn ins outs s)) = accepted s"
  by (simp add: quant8_asym_average_pool_2d_def Let_def split_beta split: if_splits)

lemma accepted_quant8_asym_concatenation [simp]:
  "fst (quant8_asym_concatenation ins outs s) \<Longrightarrow> accepted (snd (quant8_asym_concatenation ins outs s)) = accepted s"
  by (simp add: quant8_asym_concatenation_def Let_def split_beta split: if_splits)

lemma accepted_quant8_asym_conv_2d [simp]:
  "fst (quant8_asym_conv_2d nn ins outs s) \<Longrightarrow> accepted (snd (quant8_asym_conv_2d nn ins outs s)) = accepted s"
  by (simp add: quant8_asym_conv_2d_def Let_def split_beta split: if_splits)

lemma accepted_quant8_asym_depthwise_conv_2d [simp]:
  "fst (quant8_asym_depthwise_conv_2d nn ins outs s) \<Longrightarrow> accepted (snd (quant8_asym_depthwise_conv_2d nn ins outs s)) = accepted s"
  by (simp add: quant8_asym_depthwise_conv_2d_def Let_def split_beta split: if_splits)

lemma accepted_quant8_asym_dequantize [simp]:
  "fst (quant8_asym_dequantize ins outs s) \<Longrightarrow> accepted (snd (quant8_asym_dequantize ins outs s)) = accepted s"
  by (simp add: quant8_asym_dequantize_def Let_def split_beta split: if_splits)

lemma accepted_quant8_asym_fully_connected [simp]:
  "fst (quant8_asym_fully_connected ins outs s) \<Longrightarrow> accepted (snd (quant8_asym_fully_connected ins outs s)) = accepted s"
  by (simp add: quant8_asym_fully_connected_def Let_def split_beta split: if_splits)

lemma accepted_quant8_asym_logistic [simp]:
  "fst (quant8_asym_logistic ins outs s) \<Longrightarrow> accepted (snd (quant8_asym_logistic ins outs s)) = accepted s"
  by (simp add: quant8_asym_logistic_def Let_def split_beta split: if_splits)

lemma accepted_quant8_asym_max_pool_2d [simp]:
  "fst (quant8_asym_max_pool_2d nn ins outs s) \<Longrightarrow> accepted (snd (quant8_asym_max_pool_2d nn ins outs s)) = accepted s"
  by (simp add: quant8_asym_max_pool_2d_def Let_def split_beta split: if_splits)

lemma accepted_quant8_asym_mul [simp]:
  "fst (quant8_asym_mul ins outs s) \<Longrightarrow> accepted (snd (quant8_asym_mul ins outs s)) = accepted s"
  by (simp add: quant8_asym_mul_def Let_def split_beta split: if_splits)

lemma accepted_quant8_asym_relu [simp]:
  "fst (quant8_asym_relu ins outs s) \<Longrightarrow> accepted (snd (quant8_asym_relu ins outs s)) = accepted s"
  by (simp add: quant8_asym_relu_def Let_def split_beta split: if_splits)

lemma accepted_quant8_asym_relu1 [simp]:
  "fst (quant8_asym_relu1 ins outs s) \<Longrightarrow> accepted (snd (quant8_asym_relu1 ins outs s)) = accepted s"
  by (simp add: quant8_asym_relu1_def Let_def split_beta split: if_splits)

lemma accepted_quant8_asym_relu6 [simp]:
  "fst (quant8_asym_relu6 ins outs s) \<Longrightarrow> accepted (snd (quant8_asym_relu6 ins outs s)) = accepted s"
  by (simp add: quant8_asym_relu6_def Let_def split_beta split: if_splits)

lemma accepted_quant8_asym_reshape [simp]:
  "fst (quant8_asym_reshape ins outs s) \<Longrightarrow> accepted (snd (quant8_asym_reshape ins outs s)) = accepted s"
  by (simp add: quant8_asym_reshape_def Let_def split_beta split: if_splits)

lemma accepted_quant8_asym_softmax [simp]:
  "fst (quant8_asym_softmax ins outs s) \<Longrightarrow> accepted (snd (quant8_asym_softmax ins outs s)) = accepted s"
  by (simp add: quant8_asym_softmax_def Let_def split_beta split: if_splits)

lemma accepted_prepare_table:
  "getOperationPrepareTable nn key = Some prepare \<Longrightarrow> fst (prepare ins outs s) \<Longrightarrow>
   accepted (snd (prepare ins outs s)) = accepted s"
  by (auto simp: getOperationPrepareTable_def split: if_splits)

lemma accepted_addOperations_loop:
  "fst (addOperations_loop nn ops s) \<Longrightarrow> accepted (snd (addOperations_loop nn ops s)) = accepted s"
  by (induction ops arbitrary: s)
     (auto simp: Let_def split_beta accepted_prepare_table split: option.splits if_splits)

lemma accepted_addOperations [simp]:
  "fst (addOperations nn s) \<Longrightarrow> accepted (snd (addOperations nn s)) = accepted s"
  by (simp add: addOperations_def accepted_addOperations_loop)

lemma accepted_addInputs [simp]:
  "fst (addInputs s) \<Longrightarrow> accepted (snd (addInputs s)) = accepted s"
  by (simp add: addInputs_def Let_def split_beta split: if_splits)

lemma accepted_addOutputs [simp]:
  "fst (addOutputs s) \<Longrightarrow> accepted (snd (addOutputs s)) = accepted s"
  by (simp add: addOutputs_def Let_def split_beta split: if_splits)

lemma accepted_compile:
  "fst (compile nn s) \<Longrightarrow> accepted (snd (compile nn s)) = accepted s"
  by (simp add: compile_def Let_def split_beta accepted_Controller_call split: if_splits)

lemma conv_new:
  "Model_new conv_model refusing_buffers [] =
     \<lparr>mNodeCount = 0, mGraphId = 1, mCompiled = False,
      mOperands = getOperandsInfo conv_model [],
      mOperations = operations conv_model, mInputs = [0], mOutputs = [10], mPools = [],
      respond = refusing_buffers, calls = [Init, Set_debug_level 1 99]\<rparr>"
  by (simp add: Model_new_def conv_model_def Controller_call_def refusing_buffers_def
        mapPools_def)

lemma conv_operands:
  "getOperandsInfo conv_model [] =
     [\<lparr>type = TENSOR_FLOAT32, dimensions = [1, 1, 1, 1], scale = 0, zeroPoint = 0,
       lifetime = MODEL_INPUT, buffer = None, length_bytes = 0, hexagon_input = no_input,
       hexagon_input_min = no_input, hexagon_input_max = no_input,
       hexagon_output = no_output\<rparr>,
      \<lparr>type = TENSOR_FLOAT32, dimensions = [1, 1, 1, 1], scale = 0, zeroPoint = 0,
       lifetime = CONSTANT_COPY, buffer = Some [1, 0, 0, 0], length_bytes = 4,
       hexagon_input = no_input, hexagon_input_min = no_input, hexagon_input_max = no_input,
       hexagon_output = no_output\<rparr>,
      \<lparr>type = TENSOR_FLOAT32, dimensions = [1], scale = 0, zeroPoint = 0,
       lifetime = CONSTANT_COPY, buffer = Some [1, 0, 0, 0], length_bytes = 4,
       hexagon_input = no_input, hexagon_input_min = no_input, hexagon_input_max = no_input,
       hexagon_output = no_output\<rparr>]
     @ replicate 7
      \<lparr>type = INT32, dimensions = [], scale = 0, zeroPoint = 0,
       lifetime = CONSTANT_COPY, buffer = Some [1, 0, 0, 0], length_bytes = 4,
       hexagon_input = no_input, hexagon_input_min = no_input, hexagon_input_max = no_input,
       hexagon_output = no_output\<rparr>
     @ [\<lparr>type = TENSOR_FLOAT32, dimensions = [1, 1, 1, 1], scale = 0, zeroPoint = 0,
       lifetime = MODEL_OUTPUT, buffer = None, length_bytes = 0, hexagon_input = no_input,
       hexagon_input_min = no_input, hexagon_input_max = no_input,
       hexagon_output = no_output\<rparr>]"
  by (simp add: getOperandsInfo_def conv_model_def tensor_def stored_def getData_def
        getDataFromBlock_def numeral_eq_Suc)

lemma conv_state_eq:
  "conv_state =
     \<lparr>mNodeCount = 1, mGraphId = 1, mCompiled = False,
      mOperands = (getOperandsInfo conv_model [])
        [0 := (getOperandsInfo conv_model [] ! 0)\<lparr>hexagon_input := \<lparr>src_id = 1, output_idx = 0\<rparr>\<rparr>],
      mOperations = operations conv_model, mInputs = [0], mOutputs = [10], mPools = [],
      respond = refusing_buffers,
      calls = [Init, Set_debug_level 1 99,
               Append_node 1 1 OP_INPUT NN_PAD_NA [] [make_hexagon_nn_output [1, 1, 1, 1] 4]]\<rparr>"
  by (simp add: conv_state_def conv_new conv_operands addInputs_def addOperationInternal_def
        verifyOperationInputs_def verifyOperationOutputs_def getNextNode_def
        Controller_call_def refusing_buffers_def make_hexagon_nn_output_def
        getAlignedDimensions_def no_output_def Let_def split_beta)

lemma createTensorInternal_run:
  "createTensorInternal B H W D p n s =
     (if respond s (calls s) (Append_const_node (mGraphId s) (mNodeCount s + 1) B H W D p n) \<noteq> 0
      then no_input else \<lparr>src_id = mNodeCount s + 1, output_idx = 0\<rparr>,
      s\<lparr>mNodeCount := mNodeCount s + 1,
        calls := calls s @ [Append_const_node (mGraphId s) (mNodeCount s + 1) B H W D p n]\<rparr>)"
  by (simp add: createTensorInternal_def getNextNode_def Controller_call_def)

lemma addOperationInternal_run:
  "verifyOperationInputs ins \<Longrightarrow> verifyOperationOutputs outs \<Longrightarrow>
   addOperationInternal op pad ins outs s =
     (if respond s (calls s) (Append_node (mGraphId s) (mNodeCount s + 1) op pad ins outs) = 0
      then mNodeCount s + 1 else 0,
      s\<lparr>mNodeCount := mNodeCount s + 1,
        calls := calls s @ [Append_node (mGraphId s) (mNodeCount s + 1) op pad ins outs]\<rparr>)"
  by (simp add: addOperationInternal_def getNextNode_def Controller_call_def)

lemma conv_reads:
  "mNodeCount conv_state = 1" "mGraphId conv_state = 1" "respond conv_state = refusing_buffers"
  "calls conv_state = [Init, Set_debug_level 1 99,
     Append_node 1 1 OP_INPUT NN_PAD_NA [] [make_hexagon_nn_output [1, 1, 1, 1] 4]]"
  "hexagon_input (mOperands conv_state ! 0) = \<lparr>src_id = 1, output_idx = 0\<rparr>"
  "hexagon_input (mOperands conv_state ! 2) = no_input"
  "hexagon_input (mOperands conv_state ! 10) = no_input"
  "dimensions (mOperands conv_state ! Suc 0) = [1, 1, 1, 1]"
  "dimensions (mOperands conv_state ! 2) = [1]"
  "dimensions (mOperands conv_state ! 10) = [1, 1, 1, 1]"
  "type (mOperands conv_state ! Suc 0) = TENSOR_FLOAT32"
  "type (mOperands conv_state ! 10) = TENSOR_FLOAT32"
  "length_bytes (mOperands conv_state ! Suc 0) = 4"
  "length_bytes (mOperands conv_state ! 2) = 4"
  "buffer (mOperands conv_state ! Suc 0) = Some [1, 0, 0, 0]"
  "buffer (mOperands conv_state ! 2) = Some [1, 0, 0, 0]"
  "buffer (mOperands conv_state ! 3) = Some [1, 0, 0, 0]"
  "buffer (mOperands conv_state ! 4) = Some [1, 0, 0, 0]"
  "buffer (mOperands conv_state ! 5) = Some [1, 0, 0, 0]"
  "buffer (mOperands conv_state ! 6) = Some [1, 0, 0, 0]"
  "buffer (mOperands conv_state ! 7) = Some [1, 0, 0, 0]"
  "buffer (mOperands conv_state ! 8) = Some [1, 0, 0, 0]"
  "buffer (mOperands conv_state ! 9) = Some [1, 0, 0, 0]"
  "length (mOperands conv_state) = 11"
  "(mOperands conv_state)[2 := (mOperands conv_state ! 2)\<lparr>hexagon_input := no_input\<rparr>]
     = mOperands conv_state"
  by (simp_all add: conv_state_eq conv_operands numeral_eq_Suc)

lemma conv_aligned:
  "getAlignedDimensions [1] 4 = [1, 1, 1, 1]"
  "getAlignedDimensions [1, 1, 1, 1] 4 = [1, 1, 1, 1]"
  by (simp_all add: getAlignedDimensions_def numeral_eq_Suc)

lemma word_one: "word_rcat [0, 0, 0, 1 :: u8] = (1 :: u32)"
  by (simp add: word_rcat_def)

lemma conv_scalars:
  "getScalar 3 (conv_state\<lparr>mNodeCount := n, calls := cs\<rparr>) = 1"
  "getScalar 4 (conv_state\<lparr>mNodeCount := n, calls := cs\<rparr>) = 1"
  "getScalar 5 (conv_state\<lparr>mNodeCount := n, calls := cs\<rparr>) = 1"
  "getScalar 6 (conv_state\<lparr>mNodeCount := n, calls := cs\<rparr>) = 1"
  "getScalar 7 (conv_state\<lparr>mNodeCount := n, calls := cs\<rparr>) = 1"
  "getScalar 8 (conv_state\<lparr>mNodeCount := n, calls := cs\<rparr>) = 1"
  "getFloatActivation 9 (conv_state\<lparr>mNodeCount := n, calls := cs\<rparr>) = OP_Relu_f"
  by (simp_all add: getScalar_def getFloatActivation_def toFusedActivationFunc_def conv_reads
        word_one)

lemma conv_filter:
  "createConvFilterTensor (Suc 0) conv_state =
     (\<lparr>src_id = 2, output_idx = 0\<rparr>,
      conv_state\<lparr>mNodeCount := 2, calls := calls conv_state @
        [Append_const_node 1 2 1 1 1 1 (Transposed_float 1 1 (Some [1, 0, 0, 0])) 4]\<rparr>)"
  by (simp add: createConvFilterTensor_def createTensorInternal_run conv_reads
        conv_aligned refusing_buffers_def Let_def)

lemma conv_bias:
  "getTensor 2 (conv_state\<lparr>mNodeCount := 2, calls := cs\<rparr>) =
     (no_input,
      conv_state\<lparr>mNodeCount := 3, calls := cs @
        [Append_const_node 1 3 1 1 1 1 (Buffer (Some [1, 0, 0, 0])) 4]\<rparr>)"
  by (simp add: getTensor_def addOperand_def createTensorInternal_run conv_reads
        conv_aligned refusing_buffers_def Let_def)

lemma conv_stride:
  "createShape 1 1 1 1 (conv_state\<lparr>mNodeCount := 3, calls := cs\<rparr>) =
     (\<lparr>src_id = 4, output_idx = 0\<rparr>,
      conv_state\<lparr>mNodeCount := 4, calls := cs @
        [Append_const_node 1 4 1 1 1 1 (Int32s [0]) 4]\<rparr>)"
  by (simp add: createShape_def createTensorInternal_run conv_reads refusing_buffers_def)

lemma conv_fused:
  "addFusedFloatOperation OP_Conv2d_f NN_PAD_NA no_input OP_Relu_f
     [\<lparr>src_id = 1, output_idx = 0\<rparr>, \<lparr>src_id = 2, output_idx = 0\<rparr>,
      \<lparr>src_id = 4, output_idx = 0\<rparr>] [10]
     (conv_state\<lparr>mNodeCount := 4, calls := cs\<rparr>) =
   (True,
    conv_state\<lparr>mNodeCount := 6,
      calls := cs @
        [Append_node 1 5 OP_Conv2d_f NN_PAD_NA
           [\<lparr>src_id = 1, output_idx = 0\<rparr>, \<lparr>src_id = 2, output_idx = 0\<rparr>,
            \<lparr>src_id = 4, output_idx = 0\<rparr>] [make_hexagon_nn_output [1, 1, 1, 1] 4],
         Append_node 1 6 OP_Relu_f NN_PAD_NA [\<lparr>src_id = 5, output_idx = 0\<rparr>]
           [make_hexagon_nn_output [1, 1, 1, 1] 4]],
      mOperands := (mOperands conv_state)
        [10 := (mOperands conv_state ! 10)\<lparr>hexagon_input := \<lparr>src_id = 6, output_idx = 0\<rparr>\<rparr>]\<rparr>)"
proof -
  have outs: "getHexagonOutputs [10] (conv_state\<lparr>mNodeCount := 4, calls := cs\<rparr>)
                = [make_hexagon_nn_output [1, 1, 1, 1] 4]"
    by (simp add: getHexagonOutputs_def conv_reads)
  have ok: "verifyOperationOutputs [make_hexagon_nn_output [1, 1, 1, 1] 4]"
    "verifyOperationInputs [\<lparr>src_id = 1, output_idx = 0\<rparr>, \<lparr>src_id = 2, output_idx = 0\<rparr>,
       \<lparr>src_id = 4, output_idx = 0\<rparr>]"
    "verifyOperationInputs [\<lparr>src_id = 5, output_idx = 0\<rparr>]"
    by (simp_all add: verifyOperationOutputs_def verifyOperationInputs_def
          make_hexagon_nn_output_def conv_aligned no_output_def no_input_def)
  show ?thesis
    by (simp add: addFusedFloatOperation_def setupActivationArgs_def outs ok
          addOperationInternal_run registerHexagonInputs_def conv_reads refusing_buffers_def
          Let_def)
qed

lemma conv_lowered:
  "float32_conv_2d nn_example [0, 1, 2, 3, 4, 5, 6, 7, 8, 9] [10] conv_state =
   (True,
    conv_state\<lparr>mNodeCount := 6,
      calls := calls conv_state @
        [Append_const_node 1 2 1 1 1 1 (Transposed_float 1 1 (Some [1, 0, 0, 0])) 4,
         Append_const_node 1 3 1 1 1 1 (Buffer (Some [1, 0, 0, 0])) 4,
         Append_const_node 1 4 1 1 1 1 (Int32s [0]) 4,
         Append_node 1 5 OP_Conv2d_f NN_PAD_NA
           [\<lparr>src_id = 1, output_idx = 0\<rparr>, \<lparr>src_id = 2, output_idx = 0\<rparr>,
            \<lparr>src_id = 4, output_idx = 0\<rparr>] [make_hexagon_nn_output [1, 1, 1, 1] 4],
         Append_node 1 6 OP_Relu_f NN_PAD_NA [\<lparr>src_id = 5, output_idx = 0\<rparr>]
           [make_hexagon_nn_output [1, 1, 1, 1] 4]],
      mOperands := (mOperands conv_state)
        [10 := (mOperands conv_state ! 10)\<lparr>hexagon_input := \<lparr>src_id = 6, output_idx = 0\<rparr>\<rparr>]\<rparr>)"
proof -
  have input: "getTensor 0 conv_state = (\<lparr>src_id = 1, output_idx = 0\<rparr>, conv_state)"
    by (simp add: getTensor_def conv_reads no_input_def)
  have pad: "getPadding6 nn_example a b 1 1 1 1 = NN_PAD_NA" for a b
    by (simp add: getPadding6_def getPadding_def nn_example_def)
  show ?thesis
    by (simp add: float32_conv_2d_def input conv_filter conv_bias conv_scalars conv_stride
          pad tensor_of_def getShape_def conv_reads conv_fused Let_def)
qed

lemma accepted_Model_new: "accepted (Model_new model env [])"
  by (simp add: Model_new_def accepted_def Controller_call_def upt_rec numeral_eq_Suc)

text \<open>
  \<open>getNextNode\<close> returns the counter plus one and stores it, so as long as
  the counter has not reached \<open>2^32 - 1\<close> the id is not zero and is above every id given
  before. \<open>createTensorInternal\<close>, and \<open>addOperationInternal\<close> once its inputs and
  outputs have passed the check, take exactly one id; when the accelerator refuses the node
  they return the empty handle and id zero. A \<open>compile\<close> that succeeds has had none of its
  \<open>append_node\<close> calls refused: the refusal of an operation node fails the step.
\<close>

lemma node_ids:
  "fst (getNextNode m) = mNodeCount m + 1
   \<and> mNodeCount (snd (getNextNode m)) = mNodeCount m + 1
   \<and> (mNodeCount m \<noteq> - 1 \<longrightarrow> fst (getNextNode m) \<noteq> 0 \<and> mNodeCount m < fst (getNextNode m))
   \<and> mNodeCount (snd (createTensorInternal B H W D p n s)) = mNodeCount s + 1
   \<and> (respond s (calls s) (Append_const_node (mGraphId s) (mNodeCount s + 1) B H W D p n) \<noteq> 0
        \<longrightarrow> fst (createTensorInternal B H W D p n s) = no_input)
   \<and> (verifyOperationInputs ins \<and> verifyOperationOutputs outs \<longrightarrow>
        mNodeCount (snd (addOperationInternal op pad ins outs t)) = mNodeCount t + 1
        \<and> (respond t (calls t) (Append_node (mGraphId t) (mNodeCount t + 1) op pad ins outs) \<noteq> 0
             \<longrightarrow> fst (addOperationInternal op pad ins outs t) = 0))
   \<and> (accepted u \<and> fst (compile nn u) \<longrightarrow> accepted (snd (compile nn u)))"
proof -
  have "mNodeCount m \<noteq> - 1 \<Longrightarrow> mNodeCount m + 1 \<noteq> 0 \<and> mNodeCount m < mNodeCount m + 1"
    using inc_less_eq_triv_imp [of "mNodeCount m"]
    by (auto simp: eq_neg_iff_add_eq_0 not_le [symmetric])
  then show ?thesis
    by (simp add: getNextNode_def createTensorInternal_run addOperationInternal_run
          accepted_compile)
qed

section \<open>Rounding to single precision\<close>

lemma pow2_pos [simp]: "0 < pow2 k"
  by (simp add: pow2_def)

lemma pow2_nonzero [simp]: "pow2 k \<noteq> 0"
  by (simp add: pow2_def)

lemma pow2_nat: "pow2 (int k) = 2 ^ k"
  by (simp add: pow2_def)

lemma pow2_powr: "pow2 k = 2 powr (of_int k)"
  by (simp add: pow2_def powr_realpow [symmetric] powr_minus divide_inverse)

lemma pow2_mono: "a \<le> b \<Longrightarrow> pow2 a \<le> pow2 b"
  by (simp add: pow2_powr)

lemma pow2_add: "pow2 (a + b) = pow2 a * pow2 b"
  by (simp add: pow2_powr powr_add)

lemma float_exponent_eqI:
  assumes "pow2 k \<le> \<bar>x\<bar>" "\<bar>x\<bar> < pow2 (k + 1)" "- 126 \<le> k" "k \<le> 127"
  shows "float_exponent x = k"
proof -
  let ?xs = "rev [- 126 .. 127]"
  have len: "length ?xs = 254" by (simp only: length_rev length_upto)
  have nth: "?xs ! i = 127 - int i" if "i < 254" for i
  proof -
    have "?xs ! i = [- 126 .. 127] ! (254 - Suc i)"
      using that len by (simp only: rev_nth length_rev)
    also have "\<dots> = - 126 + int (254 - Suc i)"
      using that by (intro nth_upto) simp
    finally show ?thesis using that by simp
  qed
  let ?i = "nat (127 - k)"
  have i: "?i < 254" using assms by simp
  have 1: "?xs ! ?i = k" using nth [OF i] assms by simp
  have 2: "\<not> pow2 (?xs ! j) \<le> \<bar>x\<bar>" if "j < ?i" for j
  proof -
    have "j < 254" using that i by simp
    then have "?xs ! j = 127 - int j" by (rule nth)
    moreover have "k + 1 \<le> 127 - int j" using that by simp
    ultimately have "pow2 (k + 1) \<le> pow2 (?xs ! j)" by (simp add: pow2_mono)
    then show ?thesis using assms(2) by simp
  qed
  have "find (\<lambda>k. pow2 k \<le> \<bar>x\<bar>) ?xs = Some k"
    unfolding find_Some_iff using i 1 2 assms(1) len by (intro exI [of _ ?i]) simp
  then show ?thesis by (simp add: float_exponent_def)
qed

lemma round_to_even_int [simp]: "round_to_even (of_int z) = z"
  by (simp add: round_to_even_def)

lemma float_round_exact:
  assumes "pow2 k \<le> \<bar>x\<bar>" "\<bar>x\<bar> < pow2 (k + 1)" "- 126 \<le> k" "k \<le> 127"
    and "\<bar>x\<bar> = of_int z * pow2 (k - 23)"
  shows "float_round x = x"
proof -
  have e: "float_exponent x = k" using assms(1-4) by (rule float_exponent_eqI)
  have "pow2 (k + 1) \<le> pow2 128" using assms(4) by (intro pow2_mono) simp
  then have b: "\<bar>x\<bar> < 2 ^ 128" using assms(2) by (simp add: pow2_def)
  have "\<bar>x\<bar> / pow2 (k - 23) = of_int z" using assms(5) by simp
  then have "float_round x = sgn x * \<bar>x\<bar>"
    using b assms(5) by (simp add: float_round_def e Let_def)
  then show ?thesis by (simp add: sgn_real_def)
qed

lemma nat_between_powers:
  "0 < (n :: nat) \<Longrightarrow> \<exists>k. 2 ^ k \<le> n \<and> n < 2 ^ Suc k"
proof (induction n rule: less_induct)
  case (less n)
  show ?case
  proof (cases "n = 1")
    case True
    then show ?thesis by (intro exI [of _ 0]) simp
  next
    case False
    then have "0 < n div 2" "n div 2 < n" using less.prems by auto
    then obtain k where "2 ^ k \<le> n div 2" "n div 2 < 2 ^ Suc k"
      using less.IH by blast
    then have "2 ^ Suc k \<le> n \<and> n < 2 ^ Suc (Suc k)" by auto
    then show ?thesis by blast
  qed
qed

lemma float_round_int:
  assumes "\<bar>n\<bar> \<le> 2 ^ 24"
  shows "float_round (of_int n) = of_int n"
proof (cases "n = 0")
  case True
  then show ?thesis by (simp add: float_round_def Let_def)
next
  case False
  then have "0 < nat \<bar>n\<bar>" by simp
  then obtain k where k: "2 ^ k \<le> nat \<bar>n\<bar>" "nat \<bar>n\<bar> < 2 ^ Suc k"
    using nat_between_powers by blast
  show ?thesis
  proof (cases "nat \<bar>n\<bar> = 2 ^ 24")
    case True
    then have n: "\<bar>real_of_int n\<bar> = 2 ^ 24"
      by (metis of_int_abs of_nat_nat abs_ge_zero of_nat_numeral of_nat_power)
    show ?thesis
      by (rule float_round_exact [where k = 24 and z = "2 ^ 23"]) (simp_all add: n pow2_def)
  next
    case False
    then have "nat \<bar>n\<bar> < 2 ^ 24" using assms by simp
    with k(1) have p: "(2 :: nat) ^ k < 2 ^ 24" by (rule le_less_trans)
    have k24: "k < 24" by (rule power_less_imp_less_exp [of 2, OF _ p]) simp
    have r: "\<bar>real_of_int n\<bar> = real (nat \<bar>n\<bar>)" by simp
    have "real (2 ^ k) \<le> real (nat \<bar>n\<bar>)" using k(1) by (simp only: of_nat_le_iff)
    then have 1: "pow2 (int k) \<le> \<bar>real_of_int n\<bar>"
      unfolding r by (simp add: pow2_nat)
    have "real (nat \<bar>n\<bar>) < real (2 ^ Suc k)" using k(2) by (simp only: of_nat_less_iff)
    moreover have "int k + 1 = int (Suc k)" by simp
    ultimately have 2: "\<bar>real_of_int n\<bar> < pow2 (int k + 1)"
      unfolding r by (simp only: pow2_nat of_nat_power of_nat_numeral)
    have "pow2 (23 - int k) * pow2 (int k - 23) = pow2 0"
      by (simp only: pow2_add [symmetric]) simp
    then have "pow2 (23 - int k) * pow2 (int k - 23) = 1" by (simp add: pow2_def)
    moreover have "23 - int k = int (23 - k)" using k24 by simp
    then have "pow2 (23 - int k) = of_int (2 ^ (23 - k))"
      by (simp only: pow2_nat) simp
    ultimately have "real_of_int (2 ^ (23 - k)) * pow2 (int k - 23) = 1" by simp
    then have 3: "\<bar>real_of_int n\<bar> = of_int (\<bar>n\<bar> * 2 ^ (23 - k)) * pow2 (int k - 23)"
      by (simp only: of_int_mult mult.assoc of_int_abs)
    show ?thesis
      using 1 2 k24 by (intro float_round_exact [where k = "int k", OF _ _ _ _ 3]) simp_all
  qed
qed








section \<open>Quantization constants\<close>





lemma float_round_values:
  "float_round (- 64) = - 64" "float_round 64 = 64" "float_round (127 / 2) = 127 / 2"
  "float_round 2147483648 = 2147483648"
proof -
  show "float_round (- 64) = - 64" using float_round_int [of "- 64"] by simp
  show "float_round 64 = 64" using float_round_int [of 64] by simp
  show "float_round (127 / 2) = 127 / 2"
    by (rule float_round_exact [where k = 5 and z = 16646144]) (simp_all add: pow2_def)
  show "float_round 2147483648 = 2147483648"
    by (rule float_round_exact [where k = 31 and z = 8388608]) (simp_all add: pow2_def)
qed




text \<open>
  C7 (the code departs from the claim). The refusal of a constant node is lost when the
  constant is a bias. \<open>conv_state\<close> is the convolution model after \<open>addInputs\<close>, on
  an accelerator that refuses the constant node of the bias (node 3). \<open>conv_2d\<close> is
  lowered with success all the same: \<open>getTensor\<close> leaves the empty handle for the bias,
  \<open>addFusedFloatOperation\<close> reads the empty handle as "no bias", and the graph gets
  the convolution and its activation and no \<open>OP_BiasAdd_f\<close> node. Node id 3 is
  consumed by the refused call.
\<close>

theorem rejected_bias_not_propagated:
  "respond conv_state
      [Init, Set_debug_level 1 99,
       Append_node 1 1 OP_INPUT NN_PAD_NA [] [make_hexagon_nn_output [1, 1, 1, 1] 4],
       Append_const_node 1 2 1 1 1 1 (Transposed_float 1 1 (Some [1, 0, 0, 0])) 4]
      (Append_const_node 1 3 1 1 1 1 (Buffer (Some [1, 0, 0, 0])) 4) = 1
   \<and> fst (float32_conv_2d nn_example [0, 1, 2, 3, 4, 5, 6, 7, 8, 9] [10] conv_state)
   \<and> calls (snd (float32_conv_2d nn_example [0, 1, 2, 3, 4, 5, 6, 7, 8, 9] [10] conv_state)) =
       [Init, Set_debug_level 1 99,
        Append_node 1 1 OP_INPUT NN_PAD_NA [] [make_hexagon_nn_output [1, 1, 1, 1] 4],
        Append_const_node 1 2 1 1 1 1 (Transposed_float 1 1 (Some [1, 0, 0, 0])) 4,
        Append_const_node 1 3 1 1 1 1 (Buffer (Some [1, 0, 0, 0])) 4,
        Append_const_node 1 4 1 1 1 1 (Int32s [0]) 4,
        Append_node 1 5 OP_Conv2d_f NN_PAD_NA
          [\<lparr>src_id = 1, output_idx = 0\<rparr>, \<lparr>src_id = 2, output_idx = 0\<rparr>,
           \<lparr>src_id = 4, output_idx = 0\<rparr>] [make_hexagon_nn_output [1, 1, 1, 1] 4],
        Append_node 1 6 OP_Relu_f NN_PAD_NA [\<lparr>src_id = 5, output_idx = 0\<rparr>]
          [make_hexagon_nn_output [1, 1, 1, 1] 4]]
   \<and> hexagon_input (mOperands
         (snd (float32_conv_2d nn_example [0, 1, 2, 3, 4, 5, 6, 7, 8, 9] [10] conv_state)) ! 2)
       = no_input"
  using conv_lowered by (simp add: conv_reads refusing_buffers_def)

section \<open>Unprotected operand handles\<close>

lemma output_handles_update [simp]:
  "output_handles (s\<lparr>mOperands := x\<rparr>) = map hexagon_output x"
  "output_handles (s\<lparr>mNodeCount := n\<rparr>) = output_handles s"
  "output_handles (s\<lparr>mGraphId := g\<rparr>) = output_handles s"
  "output_handles (s\<lparr>mCompiled := b\<rparr>) = output_handles s"
  by (simp_all add: output_handles_def)

lemma output_handles_calls [simp]:
  "output_handles ((s :: sys)\<lparr>calls := c\<rparr>) = output_handles s"
  by (simp add: output_handles_def)

lemma output_handles_fold [simp]: "map hexagon_output (mOperands s) = output_handles s"
  by (simp add: output_handles_def)

lemma map_hexagon_output_update [simp]:
  "hexagon_output y = hexagon_output (xs ! i) \<Longrightarrow>
   map hexagon_output (xs[i := y]) = map hexagon_output xs"
  by (cases "i < length xs") (simp_all add: map_update list_update_same_conv list_update_beyond)

lemma output_handles_forget_dimensions [simp]:
  "output_handles (forget_dimensions s) = output_handles s"
  by (simp add: forget_dimensions_def output_handles_def del: output_handles_fold)

lemma hexagon_output_updateOperand [simp]:
  "hexagon_output (updateOperand a ps x) = hexagon_output x"
  by (simp add: updateOperand_def Let_def)

lemma output_handles_Controller_call [simp]: "output_handles (snd (Controller_call c s)) = output_handles s"
  by (simp add: Controller_call_def)

lemma output_handles_getNextNode [simp]: "output_handles (snd (getNextNode s)) = output_handles s"
  by (simp add: getNextNode_def)

lemma output_handles_setShape [simp]: "output_handles (snd (setShape i sh s)) = output_handles s"
  by (simp add: setShape_def)

lemma output_handles_createTensorInternal [simp]:
  "output_handles (snd (createTensorInternal B H W D p n s)) = output_handles s"
  by (simp add: createTensorInternal_def Let_def split_beta)

lemma output_handles_create [simp]:
  "output_handles (snd (createShape B H W D s)) = output_handles s"
  "output_handles (snd (createTensor_float B H W D v s)) = output_handles s"
  "output_handles (snd (createValues_float v s)) = output_handles s"
  "output_handles (snd (createValues_int32 w s)) = output_handles s"
  "output_handles (snd (createScalar_float x s)) = output_handles s"
  "output_handles (snd (createScalar_int32 y s)) = output_handles s"
  by (simp_all add: createShape_def createTensor_float_def createValues_float_def
        createValues_int32_def createScalar_float_def createScalar_int32_def)

lemma output_handles_addOperand [simp]: "output_handles (snd (addOperand i s)) = output_handles s"
  by (simp add: addOperand_def Let_def)

lemma output_handles_getTensor [simp]: "output_handles (snd (getTensor i s)) = output_handles s"
  by (simp add: getTensor_def Let_def split_beta)

lemma output_handles_getQuantizationMin [simp]: "output_handles (snd (getQuantizationMin i s)) = output_handles s"
  by (simp add: getQuantizationMin_def Let_def split_beta)

lemma output_handles_getQuantizationMax [simp]: "output_handles (snd (getQuantizationMax i s)) = output_handles s"
  by (simp add: getQuantizationMax_def Let_def split_beta)

lemma output_handles_createQuantizationValue [simp]:
  "output_handles (snd (createQuantizationValue i v s)) = output_handles s"
  by (simp add: createQuantizationValue_def Let_def)

lemma output_handles_createFilter [simp]:
  "output_handles (snd (createConvFilterTensor i s)) = output_handles s"
  "output_handles (snd (createDepthwiseFilterTensor i dm s)) = output_handles s"
  "output_handles (snd (createFullyConnectedWeightTensor i s)) = output_handles s"
  by (simp_all add: createConvFilterTensor_def createDepthwiseFilterTensor_def
        createFullyConnectedWeightTensor_def Let_def)

lemma output_handles_addOperationInternal [simp]:
  "output_handles (snd (addOperationInternal op pad ins outs s)) = output_handles s"
  by (simp add: addOperationInternal_def Let_def split_beta)

lemma output_handles_registerHexagonInputs_from [simp]:
  "output_handles (snd (registerHexagonInputs_from idx xs node s)) = output_handles s"
  by (induction idx xs node s rule: registerHexagonInputs_from.induct) (simp_all add: Let_def)

lemma output_handles_registerHexagonInputs [simp]:
  "output_handles (snd (registerHexagonInputs xs node s)) = output_handles s"
  by (simp add: registerHexagonInputs_def)

lemma output_handles_addBasicOperation [simp]:
  "output_handles (snd (addBasicOperation op pad ins outs s)) = output_handles s"
  by (simp add: addBasicOperation_def Let_def split_beta)

lemma output_handles_setupActivationArgs [simp]: "output_handles (snd (setupActivationArgs op s)) = output_handles s"
  by (simp add: setupActivationArgs_def Let_def split_beta)

lemma output_handles_addFloatOperationWithActivation [simp]:
  "output_handles (snd (addFloatOperationWithActivation op pad act ins outs s)) = output_handles s"
  by (simp add: addFloatOperationWithActivation_def Let_def split_beta)

lemma output_handles_addQuant8OperationWithActivation [simp]:
  "output_handles (snd (addQuant8OperationWithActivation op pad act ins outs s)) = output_handles s"
  by (simp add: addQuant8OperationWithActivation_def Let_def split_beta)

lemma output_handles_addFusedFloatOperation [simp]:
  "output_handles (snd (addFusedFloatOperation op pad bias act ins outs s)) = output_handles s"
  by (simp add: addFusedFloatOperation_def Let_def split_beta)

lemma output_handles_addFusedQuant8Operation [simp]:
  "output_handles (snd (addFusedQuant8Operation op pad bias act ins outs s)) = output_handles s"
  by (simp add: addFusedQuant8Operation_def Let_def split_beta)

lemma output_handles_getTensors [simp]: "output_handles (snd (getTensors xs s)) = output_handles s"
  by (induction xs arbitrary: s) (simp_all add: Let_def split_beta)

lemma output_handles_getQuantizedTensors [simp]: "output_handles (snd (getQuantizedTensors xs s)) = output_handles s"
  by (induction xs arbitrary: s) (simp_all add: Let_def split_beta)

lemma output_handles_float32_add [simp]: "output_handles (snd (float32_add ins outs s)) = output_handles s"
  by (simp add: float32_add_def Let_def split_beta)

lemma output_handles_float32_average_pool_2d [simp]: "output_handles (snd (float32_average_pool_2d nn ins outs s)) = output_handles s"
  by (simp add: float32_average_pool_2d_def Let_def split_beta)

lemma output_handles_float32_concatenation [simp]: "output_handles (snd (float32_concatenation ins outs s)) = output_handles s"
  by (simp add: float32_concatenation_def Let_def split_beta)

lemma output_handles_float32_conv_2d [simp]: "output_handles (snd (float32_conv_2d nn ins outs s)) = output_handles s"
  by (simp add: float32_conv_2d_def Let_def split_beta)

lemma output_handles_float32_depthwise_conv_2d [simp]: "output_handles (snd (float32_depthwise_conv_2d nn ins outs s)) = output_handles s"
  by (simp add: float32_depthwise_conv_2d_def Let_def split_beta)

lemma output_handles_float32_fully_connected [simp]: "output_handles (snd (float32_fully_connected ins outs s)) = output_handles s"
  by (simp add: float32_fully_connected_def Let_def split_beta)

lemma output_handles_float32_l2_pool_2d [simp]: "output_handles (snd (float32_l2_pool_2d nn ins outs s)) = output_handles s"
  by (simp add: float32_l2_pool_2d_def Let_def split_beta)

lemma output_handles_float32_local_response_normalization [simp]: "output_handles (snd (float32_local_response_normalization ins outs s)) = output_handles s"
  by (simp add: float32_local_response_normalization_def Let_def split_beta)

lemma output_handles_float32_logistic [simp]: "output_handles (snd (float32_logistic ins outs s)) = output_handles s"
  by (simp add: float32_logistic_def Let_def split_beta)

lemma output_handles_float32_max_pool_2d [simp]: "output_handles (snd (float32_max_pool_2d nn ins outs s)) = output_handles s"
  by (simp add: float32_max_pool_2d_def Let_def split_beta)

lemma output_handles_float32_mul [simp]: "output_handles (snd (float32_mul ins outs s)) = output_handles s"
  by (simp add: float32_mul_def Let_def split_beta)

lemma output_handles_float32_relu [simp]: "output_handles (snd (float32_relu ins outs s)) = output_handles s"
  by (simp add: float32_relu_def Let_def split_beta)

lemma output_handles_float32_relu1 [simp]: "output_handles (snd (float32_relu1 ins outs s)) = output_handles s"
  by (simp add: float32_relu1_def Let_def split_beta)

lemma output_handles_float32_relu6 [simp]: "output_handles (snd (float32_relu6 ins outs s)) = output_handles s"
  by (simp add: float32_relu6_def Let_def split_beta)

lemma output_handles_float32_reshape [simp]: "output_handles (snd (float32_reshape ins outs s)) = output_handles s"
  by (simp add: float32_reshape_def Let_def split_beta)

lemma output_handles_float32_resize_bilinear [simp]: "output_handles (snd (float32_resize_bilinear ins outs s)) = output_handles s"
  by (simp add: float32_resize_bilinear_def Let_def split_beta)

lemma output_handles_float32_softmax [simp]: "output_handles (snd (float32_softmax ins outs s)) = output_handles s"
  by (simp add: float32_softmax_def Let_def split_beta)

lemma output_handles_float32_tanh [simp]: "output_handles (snd (float32_tanh ins outs s)) = output_handles s"
  by (simp add: float32_tanh_def Let_def split_beta)

lemma output_handles_quant8_asym_add [simp]: "output_handles (snd (quant8_asym_add ins outs s)) = output_handles s"
  by (simp add: quant8_asym_add_def Let_def split_beta)

lemma output_handles_quant8_asym_average_pool_2d [simp]: "output_handles (snd (quant8_asym_average_pool_2d nn ins outs s)) = output_handles s"
  by (simp add: quant8_asym_average_pool_2d_def Let_def split_beta)

lemma output_handles_quant8_asym_concatenation [simp]: "output_handles (snd (quant8_asym_concatenation ins outs s)) = output_handles s"
  by (simp add: quant8_asym_concatenation_def Let_def split_beta)

lemma output_handles_quant8_asym_conv_2d [simp]: "output_handles (snd (quant8_asym_conv_2d nn ins outs s)) = output_handles s"
  by (simp add: quant8_asym_conv_2d_def Let_def split_beta)

lemma output_handles_quant8_asym_depthwise_conv_2d [simp]: "output_handles (snd (quant8_asym_depthwise_conv_2d nn ins outs s)) = output_handles s"
  by (simp add: quant8_asym_depthwise_conv_2d_def Let_def split_beta)

lemma output_handles_quant8_asym_dequantize [simp]: "output_handles (snd (quant8_asym_dequantize ins outs s)) = output_handles s"
  by (simp add: quant8_asym_dequantize_def Let_def split_beta)

lemma output_handles_quant8_asym_fully_connected [simp]: "output_handles (snd (quant8_asym_fully_connected ins outs s)) = output_handles s"
  by (simp add: quant8_asym_fully_connected_def Let_def split_beta)

lemma output_handles_quant8_asym_logistic [simp]: "output_handles (snd (quant8_asym_logistic ins outs s)) = output_handles s"
  by (simp add: quant8_asym_logistic_def Let_def split_beta)

lemma output_handles_quant8_asym_max_pool_2d [simp]: "output_handles (snd (quant8_asym_max_pool_2d nn ins outs s)) = output_handles s"
  by (simp add: quant8_asym_max_pool_2d_def Let_def split_beta)

lemma output_handles_quant8_asym_mul [simp]: "output_handles (snd (quant8_asym_mul ins outs s)) = output_handles s"
  by (simp add: quant8_asym_mul_def Let_def split_beta)

lemma output_handles_quant8_asym_relu [simp]: "output_handles (snd (quant8_asym_relu ins outs s)) = output_handles s"
  by (simp add: quant8_asym_relu_def Let_def split_beta)

lemma output_handles_quant8_asym_relu1 [simp]: "output_handles (snd (quant8_asym_relu1 ins outs s)) = output_handles s"
  by (simp add: quant8_asym_relu1_def Let_def split_beta)

lemma output_handles_quant8_asym_relu6 [simp]: "output_handles (snd (quant8_asym_relu6 ins outs s)) = output_handles s"
  by (simp add: quant8_asym_relu6_def Let_def split_beta)

lemma output_handles_quant8_asym_reshape [simp]: "output_handles (snd (quant8_asym_reshape ins outs s)) = output_handles s"
  by (simp add: quant8_asym_reshape_def Let_def split_beta)

lemma output_handles_quant8_asym_softmax [simp]: "output_handles (snd (quant8_asym_softmax ins outs s)) = output_handles s"
  by (simp add: quant8_asym_softmax_def Let_def split_beta)

lemma output_handles_prepare_table:
  "getOperationPrepareTable nn key = Some prepare \<Longrightarrow> output_handles (snd (prepare ins outs s)) = output_handles s"
  by (auto simp: getOperationPrepareTable_def split: if_splits)

lemma output_handles_addOperations_loop [simp]:
  "output_handles (snd (addOperations_loop nn ops s)) = output_handles s"
  by (induction ops arbitrary: s)
     (simp_all add: Let_def split_beta output_handles_prepare_table split: option.split)

lemma output_handles_addOperations [simp]: "output_handles (snd (addOperations nn s)) = output_handles s"
  by (simp add: addOperations_def)

lemma output_handles_addInputs_update [simp]: "output_handles (addInputs_update i xs node s) = output_handles s"
  by (induction i xs node s rule: addInputs_update.induct) simp_all

lemma output_handles_addInputs [simp]: "output_handles (snd (addInputs s)) = output_handles s"
  by (simp add: addInputs_def Let_def split_beta)

lemma output_handles_addOutputs [simp]: "output_handles (snd (addOutputs s)) = output_handles s"
  by (simp add: addOutputs_def Let_def split_beta)

lemma output_handles_supportedOperations [simp]: "output_handles (snd (supportedOperations nn s)) = output_handles s"
proof -
  have "output_handles (forget_dimensions (snd (supportedOperations nn s))) = output_handles (forget_dimensions s)"
    by (simp only: forget_dimensions_supportedOperations)
  then show ?thesis by (simp only: output_handles_forget_dimensions)
qed

lemma output_handles_verifyOperations [simp]: "output_handles (snd (verifyOperations nn s)) = output_handles s"
  by (simp add: verifyOperations_def split_beta)

lemma output_handles_getLog [simp]: "output_handles (getLog s) = output_handles s" "output_handles (getDebugLog s) = output_handles s"
  by (simp_all add: getLog_def getDebugLog_def)

lemma output_handles_bindArguments [simp]: "output_handles (snd (bindArguments args idx i ps s)) = output_handles s"
  by (induction args idx i ps s rule: bindArguments.induct) (simp_all add: Let_def split_beta)

lemma output_handles_execute [simp]: "output_handles (snd (execute request s)) = output_handles s"
  by (simp add: execute_def Let_def split_beta)





lemma mOperands_addOperationInternal [simp]:
  "mOperands (snd (addOperationInternal op pad ins outs s)) = mOperands s"
  by (simp add: addOperationInternal_def getNextNode_def Controller_call_def Let_def)

lemma mInputs_addOperationInternal [simp]:
  "mInputs (snd (addOperationInternal op pad ins outs s)) = mInputs s"
  by (simp add: addOperationInternal_def getNextNode_def Controller_call_def Let_def)

lemma length_addInputs_update [simp]:
  "length (mOperands (addInputs_update i xs node m)) = length (mOperands m)"
  by (induction i xs node m rule: addInputs_update.induct) simp_all






section \<open>Compiling again after a failure\<close>

lemma quantized_relu_new:
  "Model_new quantized_relu_model recovering [] =
     quantized_relu_state 0 1 no_input no_input no_input no_input no_input no_input
       [Init, Set_debug_level 1 99]"
  by (simp add: Model_new_def quantized_relu_model_def tensor_def Controller_call_def
        recovering_def mapPools_def getOperandsInfo_def getData_def quantized_relu_state_def)

lemma quantized_relu_checked:
  "supportedOperations nn_example (quantized_relu_state n g h0 lo0 hi0 h1 lo1 hi1 cs) =
     ([True], quantized_relu_state n g h0 lo0 hi0 h1 lo1 hi1 cs)"
  by (simp add: quantized_relu_state_def check_evaluation)

lemma quantized_relu_verified:
  "verifyOperations nn_example (quantized_relu_state n g h0 lo0 hi0 h1 lo1 hi1 cs) =
     (True, quantized_relu_state n g h0 lo0 hi0 h1 lo1 hi1 cs)"
  "verifyOperands (quantized_relu_state n g h0 lo0 hi0 h1 lo1 hi1 cs)"
  by (simp_all add: verifyOperations_def quantized_relu_checked)
     (simp add: verifyOperands_def quantized_relu_state_def)

lemma quantized_relu_inputs:
  "addInputs (quantized_relu_state n g h0 lo0 hi0 h1 lo1 hi1 cs) =
     (n + 1 \<noteq> 0,
      if n + 1 = 0
      then quantized_relu_state (n + 1) g h0 lo0 hi0 h1 lo1 hi1
             (cs @ [Append_node g (n + 1) OP_INPUT NN_PAD_NA [] [make_hexagon_nn_output [1] 1]])
      else quantized_relu_state (n + 1) g \<lparr>src_id = n + 1, output_idx = 0\<rparr> lo0 hi0 h1 lo1 hi1
             (cs @ [Append_node g (n + 1) OP_INPUT NN_PAD_NA [] [make_hexagon_nn_output [1] 1]]))"
  by (simp add: quantized_relu_state_def addInputs_def addOperationInternal_def
        verifyOperationInputs_def verifyOperationOutputs_def make_hexagon_nn_output_def
        getAlignedDimensions_def no_output_def getNextNode_def Controller_call_def
        recovering_def Let_def split_beta)

lemma quantized_relu_range:
  "float_mul (float_of_int32 (- 128)) (1 / 2) = - 64"
  "float_mul (float_of_int32 127) (1 / 2) = 127 / 2"
proof -
  have "sint (- 128 :: u32) = - 128" "sint (127 :: u32) = 127" by simp_all
  then have "float_of_int32 (- 128) = - 128" "float_of_int32 127 = 127"
    using float_round_int [of "- 128"] float_round_int [of 127]
    by (simp_all add: float_of_int32_def)
  then show "float_mul (float_of_int32 (- 128)) (1 / 2) = - 64"
    "float_mul (float_of_int32 127) (1 / 2) = 127 / 2"
    by (simp_all add: float_mul_def float_round_values)
qed

lemma quantized_relu_tensor:
  "getTensor 0 (quantized_relu_state n g \<lparr>src_id = k, output_idx = 0\<rparr> lo0 hi0 h1 lo1 hi1 cs) =
     (if k = 0
      then fst (getTensor 0 (quantized_relu_state n g \<lparr>src_id = k, output_idx = 0\<rparr> lo0 hi0 h1 lo1 hi1 cs))
      else \<lparr>src_id = k, output_idx = 0\<rparr>,
      if k = 0
      then snd (getTensor 0 (quantized_relu_state n g \<lparr>src_id = k, output_idx = 0\<rparr> lo0 hi0 h1 lo1 hi1 cs))
      else quantized_relu_state n g \<lparr>src_id = k, output_idx = 0\<rparr> lo0 hi0 h1 lo1 hi1 cs)"
  by (simp add: getTensor_def quantized_relu_state_def no_input_def)

lemma quantized_relu_min:
  "getQuantizationMin 0 (quantized_relu_state 1 1 h0 no_input hi0 h1 lo1 hi1 cs) =
     (\<lparr>src_id = 2, output_idx = 0\<rparr>,
      quantized_relu_state 2 1 h0 \<lparr>src_id = 2, output_idx = 0\<rparr> hi0 h1 lo1 hi1
        (cs @ [Append_const_node 1 2 1 1 1 1 (Floats [- 64]) 4]))"
  "getQuantizationMin 0 (quantized_relu_state n g h0 \<lparr>src_id = 2, output_idx = 0\<rparr> hi0 h1 lo1 hi1 cs) =
     (\<lparr>src_id = 2, output_idx = 0\<rparr>,
      quantized_relu_state n g h0 \<lparr>src_id = 2, output_idx = 0\<rparr> hi0 h1 lo1 hi1 cs)"
  by (simp_all add: quantized_relu_state_def getQuantizationMin_def createValues_float_def
        createTensor_float_def createTensorInternal_def getNextNode_def Controller_call_def
        recovering_def quantized_relu_range no_input_def Let_def)

lemma quantized_relu_max:
  "getQuantizationMax 0 (quantized_relu_state 2 1 h0 lo0 no_input h1 lo1 hi1 cs) =
     (\<lparr>src_id = 3, output_idx = 0\<rparr>,
      quantized_relu_state 3 1 h0 lo0 \<lparr>src_id = 3, output_idx = 0\<rparr> h1 lo1 hi1
        (cs @ [Append_const_node 1 3 1 1 1 1 (Floats [127 / 2]) 4]))"
  "getQuantizationMax 0 (quantized_relu_state n g h0 lo0 \<lparr>src_id = 3, output_idx = 0\<rparr> h1 lo1 hi1 cs) =
     (\<lparr>src_id = 3, output_idx = 0\<rparr>,
      quantized_relu_state n g h0 lo0 \<lparr>src_id = 3, output_idx = 0\<rparr> h1 lo1 hi1 cs)"
  by (simp_all add: quantized_relu_state_def getQuantizationMax_def createValues_float_def
        createTensor_float_def createTensorInternal_def getNextNode_def Controller_call_def
        recovering_def quantized_relu_range no_input_def Let_def)

lemma quantized_relu_reads:
  "tensor_of 0 (quantized_relu_state n g h0 lo0 hi0 h1 lo1 hi1 cs) = h0"
  "min_of 0 (quantized_relu_state n g h0 lo0 hi0 h1 lo1 hi1 cs) = lo0"
  "max_of 0 (quantized_relu_state n g h0 lo0 hi0 h1 lo1 hi1 cs) = hi0"
  "getHexagonOutputs [Suc 0] (quantized_relu_state n g h0 lo0 hi0 h1 lo1 hi1 cs) =
     [make_hexagon_nn_output [1] 1, make_hexagon_nn_output [1, 1, 1, 1] 4,
      make_hexagon_nn_output [1, 1, 1, 1] 4]"
  "getHexagonOutputs [] (quantized_relu_state n g h0 lo0 hi0 h1 lo1 hi1 cs) = []"
  by (simp_all add: quantized_relu_state_def tensor_of_def min_of_def max_of_def
        getHexagonOutputs_def)

lemma quantized_relu_node:
  assumes "verifyOperationInputs ins" "verifyOperationOutputs outs"
  shows "addOperationInternal op pad ins outs (quantized_relu_state n g h0 lo0 hi0 h1 lo1 hi1 cs) =
     (if recovering cs (Append_node g (n + 1) op pad ins outs) = 0 then n + 1 else 0,
      quantized_relu_state (n + 1) g h0 lo0 hi0 h1 lo1 hi1
        (cs @ [Append_node g (n + 1) op pad ins outs]))"
  using assms
  by (simp add: addOperationInternal_run quantized_relu_state_def)

lemma quantized_relu_verify:
  "verifyOperationOutputs [make_hexagon_nn_output [1] 1, make_hexagon_nn_output [1, 1, 1, 1] 4,
      make_hexagon_nn_output [1, 1, 1, 1] 4]"
  "verifyOperationOutputs []"
  "k \<noteq> 0 \<Longrightarrow> verifyOperationInputs [\<lparr>src_id = k, output_idx = j\<rparr>]"
  "k \<noteq> 0 \<Longrightarrow> verifyOperationInputs [\<lparr>src_id = k, output_idx = 0\<rparr>,
      \<lparr>src_id = 2, output_idx = 0\<rparr>, \<lparr>src_id = 3, output_idx = 0\<rparr>]"
  by (simp_all add: verifyOperationOutputs_def verifyOperationInputs_def
        make_hexagon_nn_output_def getAlignedDimensions_def no_output_def no_input_def)

lemma quantized_relu_register:
  "registerHexagonInputs [Suc 0] 6 (quantized_relu_state n g h0 lo0 hi0 no_input lo1 hi1 cs) =
     (True, quantized_relu_state n g h0 lo0 hi0 \<lparr>src_id = 6, output_idx = 0\<rparr>
        \<lparr>src_id = 6, output_idx = 1\<rparr> \<lparr>src_id = 6, output_idx = 2\<rparr> cs)"
  "registerHexagonInputs [] k (quantized_relu_state n g h0 lo0 hi0 h1 lo1 hi1 cs) =
     (True, quantized_relu_state n g h0 lo0 hi0 h1 lo1 hi1 cs)"
  by (simp_all add: registerHexagonInputs_def quantized_relu_state_def)

lemma quantized_relu_refused:
  "quant8_asym_relu [0] [Suc 0]
     (quantized_relu_state 1 1 \<lparr>src_id = 1, output_idx = 0\<rparr> no_input no_input
        no_input no_input no_input cs) =
   (False,
    quantized_relu_state 4 1 \<lparr>src_id = 1, output_idx = 0\<rparr> \<lparr>src_id = 2, output_idx = 0\<rparr>
      \<lparr>src_id = 3, output_idx = 0\<rparr> no_input no_input no_input
      (cs @ [Append_const_node 1 2 1 1 1 1 (Floats [- 64]) 4,
             Append_const_node 1 3 1 1 1 1 (Floats [127 / 2]) 4,
             Append_node 1 4 OP_QuantizedRelu_8 NN_PAD_NA
               [\<lparr>src_id = 1, output_idx = 0\<rparr>, \<lparr>src_id = 2, output_idx = 0\<rparr>,
                \<lparr>src_id = 3, output_idx = 0\<rparr>]
               [make_hexagon_nn_output [1] 1, make_hexagon_nn_output [1, 1, 1, 1] 4,
                make_hexagon_nn_output [1, 1, 1, 1] 4]]))"
  by (simp add: quant8_asym_relu_def quantized_relu_tensor quantized_relu_min
        quantized_relu_max quantized_relu_reads addBasicOperation_def quantized_relu_node
        quantized_relu_verify recovering_def Let_def)

lemma quantized_relu_accepted:
  "quant8_asym_relu [0] [Suc 0]
     (quantized_relu_state 5 2 \<lparr>src_id = 5, output_idx = 0\<rparr> \<lparr>src_id = 2, output_idx = 0\<rparr>
        \<lparr>src_id = 3, output_idx = 0\<rparr> no_input no_input no_input cs) =
   (True,
    quantized_relu_state 6 2 \<lparr>src_id = 5, output_idx = 0\<rparr> \<lparr>src_id = 2, output_idx = 0\<rparr>
      \<lparr>src_id = 3, output_idx = 0\<rparr> \<lparr>src_id = 6, output_idx = 0\<rparr>
      \<lparr>src_id = 6, output_idx = 1\<rparr> \<lparr>src_id = 6, output_idx = 2\<rparr>
      (cs @ [Append_node 2 6 OP_QuantizedRelu_8 NN_PAD_NA
               [\<lparr>src_id = 5, output_idx = 0\<rparr>, \<lparr>src_id = 2, output_idx = 0\<rparr>,
                \<lparr>src_id = 3, output_idx = 0\<rparr>]
               [make_hexagon_nn_output [1] 1, make_hexagon_nn_output [1, 1, 1, 1] 4,
                make_hexagon_nn_output [1, 1, 1, 1] 4]]))"
  by (simp add: quant8_asym_relu_def quantized_relu_tensor quantized_relu_min
        quantized_relu_max quantized_relu_reads addBasicOperation_def quantized_relu_node
        quantized_relu_verify quantized_relu_register recovering_def Let_def)

lemma quantized_relu_operations:
  "addOperations nn_example (quantized_relu_state n g h0 lo0 hi0 h1 lo1 hi1 cs) =
     quant8_asym_relu [0] [Suc 0] (quantized_relu_state n g h0 lo0 hi0 h1 lo1 hi1 cs)"
proof -
  have "getOperationPrepareTable nn_example (RELU, TENSOR_QUANT8_ASYMM) = Some quant8_asym_relu"
    by (simp add: getOperationPrepareTable_def)
  then show ?thesis
    by (simp add: addOperations_def quantized_relu_state_def split_beta prod_eq_iff)
qed

lemma quantized_relu_reset:
  "resetModel (quantized_relu_state n 1 h0 lo0 hi0 h1 lo1 hi1 cs) =
     quantized_relu_state n (1 + of_nat (count_list cs Init)) no_input lo0 hi0 no_input lo1 hi1
       (cs @ [Teardown 1, Init, Set_debug_level (1 + of_nat (count_list cs Init)) 99])"
  by (simp add: resetModel_def quantized_relu_state_def Controller_call_def recovering_def
        Let_def split_beta)

lemma quantized_relu_outputs:
  "addOutputs (quantized_relu_state 6 2 h0 lo0 hi0 \<lparr>src_id = 6, output_idx = 0\<rparr> lo1 hi1 cs) =
     (True, quantized_relu_state 7 2 h0 lo0 hi0 \<lparr>src_id = 6, output_idx = 0\<rparr> lo1 hi1
        (cs @ [Append_node 2 7 OP_OUTPUT NN_PAD_NA [\<lparr>src_id = 6, output_idx = 0\<rparr>] []]))"
proof -
  have "hexagon_input (mOperands (quantized_relu_state 6 2 h0 lo0 hi0
          \<lparr>src_id = 6, output_idx = 0\<rparr> lo1 hi1 cs) ! 1) = \<lparr>src_id = 6, output_idx = 0\<rparr>"
    "mOutputs (quantized_relu_state 6 2 h0 lo0 hi0 \<lparr>src_id = 6, output_idx = 0\<rparr> lo1 hi1 cs)
       = [1]"
    by (simp_all add: quantized_relu_state_def)
  then show ?thesis
    by (simp add: addOutputs_def addBasicOperation_def quantized_relu_reads
          quantized_relu_node quantized_relu_verify quantized_relu_register recovering_def
          no_input_def Let_def)
qed

lemma quantized_relu_graph [simp]:
  "mGraphId (quantized_relu_state n g h0 lo0 hi0 h1 lo1 hi1 cs) = g"
  by (simp add: quantized_relu_state_def)

lemma quantized_relu_log:
  "getLog (quantized_relu_state n g h0 lo0 hi0 h1 lo1 hi1 cs) =
     quantized_relu_state n g h0 lo0 hi0 h1 lo1 hi1 (cs @ [Snpprint g])"
  "getDebugLog (quantized_relu_state n g h0 lo0 hi0 h1 lo1 hi1 cs) =
     quantized_relu_state n g h0 lo0 hi0 h1 lo1 hi1 (cs @ [Getlog g])"
  "Controller_call (Prepare g) (quantized_relu_state n g h0 lo0 hi0 h1 lo1 hi1 cs) =
     (0, quantized_relu_state n g h0 lo0 hi0 h1 lo1 hi1 (cs @ [Prepare g]))"
  by (simp_all add: getLog_def getDebugLog_def Controller_call_def quantized_relu_state_def
        recovering_def)

lemma quantized_relu_first_compile:
  "compile nn_example (Model_new quantized_relu_model recovering []) =
     (False,
      quantized_relu_state 4 2 no_input \<lparr>src_id = 2, output_idx = 0\<rparr>
        \<lparr>src_id = 3, output_idx = 0\<rparr> no_input no_input no_input
        [Init, Set_debug_level 1 99,
         Append_node 1 1 OP_INPUT NN_PAD_NA [] [make_hexagon_nn_output [1] 1],
         Append_const_node 1 2 1 1 1 1 (Floats [- 64]) 4,
         Append_const_node 1 3 1 1 1 1 (Floats [127 / 2]) 4,
         Append_node 1 4 OP_QuantizedRelu_8 NN_PAD_NA
           [\<lparr>src_id = 1, output_idx = 0\<rparr>, \<lparr>src_id = 2, output_idx = 0\<rparr>,
            \<lparr>src_id = 3, output_idx = 0\<rparr>]
           [make_hexagon_nn_output [1] 1, make_hexagon_nn_output [1, 1, 1, 1] 4,
            make_hexagon_nn_output [1, 1, 1, 1] 4],
         Teardown 1, Init, Set_debug_level 2 99])"
  by (simp add: compile_def quantized_relu_new quantized_relu_verified quantized_relu_inputs
        quantized_relu_operations quantized_relu_refused quantized_relu_reset)

lemma quantized_relu_second_compile:
  "compile nn_example
     (quantized_relu_state 4 2 no_input \<lparr>src_id = 2, output_idx = 0\<rparr>
        \<lparr>src_id = 3, output_idx = 0\<rparr> no_input no_input no_input cs) =
   (True,
    quantized_relu_state 7 2 \<lparr>src_id = 5, output_idx = 0\<rparr> \<lparr>src_id = 2, output_idx = 0\<rparr>
      \<lparr>src_id = 3, output_idx = 0\<rparr> \<lparr>src_id = 6, output_idx = 0\<rparr>
      \<lparr>src_id = 6, output_idx = 1\<rparr> \<lparr>src_id = 6, output_idx = 2\<rparr>
      (cs @ [Append_node 2 5 OP_INPUT NN_PAD_NA [] [make_hexagon_nn_output [1] 1],
             Append_node 2 6 OP_QuantizedRelu_8 NN_PAD_NA
               [\<lparr>src_id = 5, output_idx = 0\<rparr>, \<lparr>src_id = 2, output_idx = 0\<rparr>,
                \<lparr>src_id = 3, output_idx = 0\<rparr>]
               [make_hexagon_nn_output [1] 1, make_hexagon_nn_output [1, 1, 1, 1] 4,
                make_hexagon_nn_output [1, 1, 1, 1] 4],
             Append_node 2 7 OP_OUTPUT NN_PAD_NA [\<lparr>src_id = 6, output_idx = 0\<rparr>] [],
             Snpprint 2, Getlog 2, Prepare 2, Snpprint 2, Getlog 2]))"
  by (simp add: compile_def quantized_relu_verified quantized_relu_inputs
        quantized_relu_operations quantized_relu_accepted quantized_relu_outputs
        quantized_relu_log)

lemma prepare_refused_compile:
  "compile nn_example (Model_new identity_model refusing_prepare []) =
     (False,
      \<lparr>mNodeCount = 2, mGraphId = 1, mCompiled = False,
       mOperands = [\<lparr>type = TENSOR_FLOAT32, dimensions = [1], scale = 0,
                     zeroPoint = 0, lifetime = MODEL_INPUT, buffer = None, length_bytes = 0,
                     hexagon_input = \<lparr>src_id = 1, output_idx = 0\<rparr>,
                     hexagon_input_min = no_input,
                     hexagon_input_max = no_input, hexagon_output = no_output\<rparr>],
       mOperations = [], mInputs = [0], mOutputs = [0], mPools = [],
       respond = refusing_prepare,
       calls = [Init, Set_debug_level 1 99,
                Append_node 1 1 OP_INPUT NN_PAD_NA [] [make_hexagon_nn_output [1] 4],
                Append_node 1 2 OP_OUTPUT NN_PAD_NA [\<lparr>src_id = 1, output_idx = 0\<rparr>] [],
                Snpprint 1, Getlog 1, Prepare 1, Snpprint 1, Getlog 1]\<rparr>)"
  by (simp add: identity_state_any refusing_prepare_def evaluation)

lemma prepare_refused_again:
  "calls (snd (compile nn_example (snd (compile nn_example
       (Model_new identity_model refusing_prepare []))))) =
     [Init, Set_debug_level 1 99,
      Append_node 1 1 OP_INPUT NN_PAD_NA [] [make_hexagon_nn_output [1] 4],
      Append_node 1 2 OP_OUTPUT NN_PAD_NA [\<lparr>src_id = 1, output_idx = 0\<rparr>] [],
      Snpprint 1, Getlog 1, Prepare 1, Snpprint 1, Getlog 1,
      Append_node 1 3 OP_INPUT NN_PAD_NA [] [make_hexagon_nn_output [1] 4],
      Append_node 1 4 OP_OUTPUT NN_PAD_NA [\<lparr>src_id = 3, output_idx = 0\<rparr>] [],
      Snpprint 1, Getlog 1, Prepare 1, Snpprint 1, Getlog 1]"
  by (simp add: prepare_refused_compile) (simp add: refusing_prepare_def evaluation)

text \<open>
  C3 (the code departs from the claim). Two failures of \<open>compile\<close> after which the model
  is not as the claim says.

  The accelerator refuses \<open>prepare\<close> (the identity model): \<open>compile\<close> returns false and
  resets nothing. The graph id is still 1, no teardown and no init is called, and the
  operand keeps its handle. A second \<open>compile\<close> then appends a second input node and a
  second output node to the graph that already holds the first ones.

  The accelerator refuses an operation node (the quantized relu, on graph 1):
  \<open>compile\<close> returns false and resets, but the reset clears \<open>hexagon_input\<close> and
  \<open>hexagon_output\<close> only. The handles of the quantization range that the failed attempt
  cached, constants 2 and 3 of graph 1, stay with the operand. The second \<open>compile\<close>,
  on the fresh graph 2, succeeds, and its relu node reads outputs 2:0 and 3:0, nodes that
  graph 2 was never given.
\<close>

theorem failed_compile_not_reset:
  "\<not> fst (compile nn_example (Model_new identity_model refusing_prepare []))
   \<and> mGraphId (snd (compile nn_example (Model_new identity_model refusing_prepare []))) = 1
   \<and> hexagon_input (mOperands
         (snd (compile nn_example (Model_new identity_model refusing_prepare []))) ! 0)
       = \<lparr>src_id = 1, output_idx = 0\<rparr>
   \<and> calls (snd (compile nn_example (Model_new identity_model refusing_prepare []))) =
       [Init, Set_debug_level 1 99,
        Append_node 1 1 OP_INPUT NN_PAD_NA [] [make_hexagon_nn_output [1] 4],
        Append_node 1 2 OP_OUTPUT NN_PAD_NA [\<lparr>src_id = 1, output_idx = 0\<rparr>] [],
        Snpprint 1, Getlog 1, Prepare 1, Snpprint 1, Getlog 1]
   \<and> calls (snd (compile nn_example (snd (compile nn_example
         (Model_new identity_model refusing_prepare []))))) =
       [Init, Set_debug_level 1 99,
        Append_node 1 1 OP_INPUT NN_PAD_NA [] [make_hexagon_nn_output [1] 4],
        Append_node 1 2 OP_OUTPUT NN_PAD_NA [\<lparr>src_id = 1, output_idx = 0\<rparr>] [],
        Snpprint 1, Getlog 1, Prepare 1, Snpprint 1, Getlog 1,
        Append_node 1 3 OP_INPUT NN_PAD_NA [] [make_hexagon_nn_output [1] 4],
        Append_node 1 4 OP_OUTPUT NN_PAD_NA [\<lparr>src_id = 3, output_idx = 0\<rparr>] [],
        Snpprint 1, Getlog 1, Prepare 1, Snpprint 1, Getlog 1]
   \<and> \<not> fst (compile nn_example (Model_new quantized_relu_model recovering []))
   \<and> mGraphId (snd (compile nn_example (Model_new quantized_relu_model recovering []))) = 2
   \<and> hexagon_input_min (mOperands
         (snd (compile nn_example (Model_new quantized_relu_model recovering []))) ! 0)
       = \<lparr>src_id = 2, output_idx = 0\<rparr>
   \<and> hexagon_input_max (mOperands
         (snd (compile nn_example (Model_new quantized_relu_model recovering []))) ! 0)
       = \<lparr>src_id = 3, output_idx = 0\<rparr>
   \<and> fst (compile nn_example (snd (compile nn_example
         (Model_new quantized_relu_model recovering []))))
   \<and> calls (snd (compile nn_example (snd (compile nn_example
         (Model_new quantized_relu_model recovering []))))) =
       [Init, Set_debug_level 1 99,
        Append_node 1 1 OP_INPUT NN_PAD_NA [] [make_hexagon_nn_output [1] 1],
        Append_const_node 1 2 1 1 1 1 (Floats [- 64]) 4,
        Append_const_node 1 3 1 1 1 1 (Floats [127 / 2]) 4,
        Append_node 1 4 OP_QuantizedRelu_8 NN_PAD_NA
          [\<lparr>src_id = 1, output_idx = 0\<rparr>, \<lparr>src_id = 2, output_idx = 0\<rparr>,
           \<lparr>src_id = 3, output_idx = 0\<rparr>]
          [make_hexagon_nn_output [1] 1, make_hexagon_nn_output [1, 1, 1, 1] 4,
           make_hexagon_nn_output [1, 1, 1, 1] 4],
        Teardown 1, Init, Set_debug_level 2 99,
        Append_node 2 5 OP_INPUT NN_PAD_NA [] [make_hexagon_nn_output [1] 1],
        Append_node 2 6 OP_QuantizedRelu_8 NN_PAD_NA
          [\<lparr>src_id = 5, output_idx = 0\<rparr>, \<lparr>src_id = 2, output_idx = 0\<rparr>,
           \<lparr>src_id = 3, output_idx = 0\<rparr>]
          [make_hexagon_nn_output [1] 1, make_hexagon_nn_output [1, 1, 1, 1] 4,
           make_hexagon_nn_output [1, 1, 1, 1] 4],
        Append_node 2 7 OP_OUTPUT NN_PAD_NA [\<lparr>src_id = 6, output_idx = 0\<rparr>] [],
        Snpprint 2, Getlog 2, Prepare 2, Snpprint 2, Getlog 2]"
proof -
  have 1: "\<not> fst (compile nn_example (Model_new identity_model refusing_prepare []))
    \<and> mGraphId (snd (compile nn_example (Model_new identity_model refusing_prepare []))) = 1
    \<and> hexagon_input (mOperands
         (snd (compile nn_example (Model_new identity_model refusing_prepare []))) ! 0)
       = \<lparr>src_id = 1, output_idx = 0\<rparr>
    \<and> calls (snd (compile nn_example (Model_new identity_model refusing_prepare []))) =
       [Init, Set_debug_level 1 99,
        Append_node 1 1 OP_INPUT NN_PAD_NA [] [make_hexagon_nn_output [1] 4],
        Append_node 1 2 OP_OUTPUT NN_PAD_NA [\<lparr>src_id = 1, output_idx = 0\<rparr>] [],
        Snpprint 1, Getlog 1, Prepare 1, Snpprint 1, Getlog 1]"
    by (simp add: prepare_refused_compile)
  have 2: "\<not> fst (compile nn_example (Model_new quantized_relu_model recovering []))
    \<and> mGraphId (snd (compile nn_example (Model_new quantized_relu_model recovering []))) = 2
    \<and> hexagon_input_min (mOperands
         (snd (compile nn_example (Model_new quantized_relu_model recovering []))) ! 0)
       = \<lparr>src_id = 2, output_idx = 0\<rparr>
    \<and> hexagon_input_max (mOperands
         (snd (compile nn_example (Model_new quantized_relu_model recovering []))) ! 0)
       = \<lparr>src_id = 3, output_idx = 0\<rparr>"
    by (simp add: quantized_relu_first_compile) (simp add: quantized_relu_state_def)
  have 3: "compile nn_example (snd (compile nn_example
         (Model_new quantized_relu_model recovering []))) =
      (True, quantized_relu_state 7 2 \<lparr>src_id = 5, output_idx = 0\<rparr>
        \<lparr>src_id = 2, output_idx = 0\<rparr> \<lparr>src_id = 3, output_idx = 0\<rparr>
        \<lparr>src_id = 6, output_idx = 0\<rparr> \<lparr>src_id = 6, output_idx = 1\<rparr>
        \<lparr>src_id = 6, output_idx = 2\<rparr>
        ([Init, Set_debug_level 1 99,
         Append_node 1 1 OP_INPUT NN_PAD_NA [] [make_hexagon_nn_output [1] 1],
         Append_const_node 1 2 1 1 1 1 (Floats [- 64]) 4,
         Append_const_node 1 3 1 1 1 1 (Floats [127 / 2]) 4,
         Append_node 1 4 OP_QuantizedRelu_8 NN_PAD_NA
           [\<lparr>src_id = 1, output_idx = 0\<rparr>, \<lparr>src_id = 2, output_idx = 0\<rparr>,
            \<lparr>src_id = 3, output_idx = 0\<rparr>]
           [make_hexagon_nn_output [1] 1, make_hexagon_nn_output [1, 1, 1, 1] 4,
            make_hexagon_nn_output [1, 1, 1, 1] 4],
         Teardown 1, Init, Set_debug_level 2 99] @
         [Append_node 2 5 OP_INPUT NN_PAD_NA [] [make_hexagon_nn_output [1] 1],
             Append_node 2 6 OP_QuantizedRelu_8 NN_PAD_NA
               [\<lparr>src_id = 5, output_idx = 0\<rparr>, \<lparr>src_id = 2, output_idx = 0\<rparr>,
                \<lparr>src_id = 3, output_idx = 0\<rparr>]
               [make_hexagon_nn_output [1] 1, make_hexagon_nn_output [1, 1, 1, 1] 4,
                make_hexagon_nn_output [1, 1, 1, 1] 4],
             Append_node 2 7 OP_OUTPUT NN_PAD_NA [\<lparr>src_id = 6, output_idx = 0\<rparr>] [],
             Snpprint 2, Getlog 2, Prepare 2, Snpprint 2, Getlog 2]))"
    by (simp only: quantized_relu_first_compile snd_conv quantized_relu_second_compile)
  have 4: "calls (quantized_relu_state n g h0 lo0 hi0 h1 lo1 hi1 cs) = cs"
    for n g h0 lo0 hi0 h1 lo1 hi1 cs
    by (simp add: quantized_relu_state_def)
  show ?thesis
    using 1 2 prepare_refused_again by (simp add: 3 4)
qed

section \<open>Supported operations and their lowering\<close>



















































end
